theory Spec2Isabelle
  imports Complex_Main
begin

section \<open>LoRA training for Stable Diffusion: forward pass, training loop, data loader\<close>

text \<open>
  A shallow embedding of \<^verbatim>\<open>pipelines/stable_diffusion/lora/train.py\<close> and of
  \<^verbatim>\<open>data_loaders/textual_inversion_sd_dataloader.py\<close>.

  Conventions of the embedding:
  \<^item> a Python exception is a value of type \<open>error\<close>;
  \<^item> an image tensor (latents, noise, prediction, target) has four dimensions,
    batch, channels, height and width, as the VAE and the UNet produce them; it is a
    shape and an element function, and operations on two tensors broadcast as torch
    does (a dimension of size 1 is repeated) or raise \<^verbatim>\<open>RuntimeError\<close>;
  \<^item> the elements of the tensors the collaborators hand over are real numbers. The
    values train_forward computes from them are reals or one of the special values
    of floating point, infinity and NaN, which division by zero produces. Rounding,
    overflow and the sign of zero are not modelled, and dtype casts
    (\<^verbatim>\<open>.float()\<close>, \<^verbatim>\<open>.to(dtype=weight_dtype)\<close>) are the identity;
  \<^item> the pretrained models, the noise scheduler's formulas and the accelerator are
    collaborators from other libraries: they are parameters, and they are taken not
    to raise and not to draw random numbers unless stated;
  \<^item> the state \<^verbatim>\<open>train_forward\<close> can reach, the objects it is called with and the
    global random generator, is passed in and returned.
\<close>

subsection \<open>Errors\<close>

datatype error =
    ValueError string
  | KeyError string
  | AssertionError
  | TypeError
  | ZeroDivisionError
  | RuntimeError

subsection \<open>Floating point values\<close>

datatype fnum = Finite real | PosInf | NegInf | NaN

fun flip :: "fnum \<Rightarrow> fnum" where
  "flip PosInf = NegInf"
| "flip NegInf = PosInf"
| "flip x = x"

text \<open>An infinity times a real number.\<close>

definition inf_times :: "fnum \<Rightarrow> real \<Rightarrow> fnum" where
  "inf_times i b = (if b = 0 then NaN else if 0 < b then i else flip i)"

fun fadd :: "fnum \<Rightarrow> fnum \<Rightarrow> fnum" where
  "fadd (Finite a) (Finite b) = Finite (a + b)"
| "fadd NaN y = NaN"
| "fadd x NaN = NaN"
| "fadd PosInf NegInf = NaN"
| "fadd NegInf PosInf = NaN"
| "fadd (Finite a) y = y"
| "fadd x y = x"

fun fmul :: "fnum \<Rightarrow> fnum \<Rightarrow> fnum" where
  "fmul (Finite a) (Finite b) = Finite (a * b)"
| "fmul NaN y = NaN"
| "fmul x NaN = NaN"
| "fmul (Finite a) y = inf_times y a"
| "fmul x (Finite b) = inf_times x b"
| "fmul x y = (if x = y then PosInf else NegInf)"

fun fdiv :: "fnum \<Rightarrow> fnum \<Rightarrow> fnum" where
  "fdiv (Finite a) (Finite b) =
     (if b \<noteq> 0 then Finite (a / b)
      else if a = 0 then NaN else if 0 < a then PosInf else NegInf)"
| "fdiv NaN y = NaN"
| "fdiv x NaN = NaN"
| "fdiv (Finite a) y = Finite 0"
| "fdiv x (Finite b) = (if 0 \<le> b then x else flip x)"
| "fdiv x y = NaN"

text \<open>\<^verbatim>\<open>torch.clamp(x, max=g)\<close> for one element.\<close>

fun fclamp_max :: "real \<Rightarrow> fnum \<Rightarrow> fnum" where
  "fclamp_max g (Finite a) = Finite (min a g)"
| "fclamp_max g PosInf = Finite g"
| "fclamp_max g x = x"

text \<open>\<^verbatim>\<open>t.mean()\<close> of a one-dimensional tensor: the sum divided by the number of elements.\<close>

definition fmean :: "fnum list \<Rightarrow> fnum" where
  "fmean xs = fdiv (foldr fadd xs (Finite 0)) (Finite (real (length xs)))"

subsection \<open>Tensors and broadcasting\<close>

type_synonym shape = "nat \<times> nat \<times> nat \<times> nat"

record tensor =
  shape :: shape
  elem :: "nat \<Rightarrow> nat \<Rightarrow> nat \<Rightarrow> nat \<Rightarrow> real"

fun numel :: "shape \<Rightarrow> nat" where
  "numel (b, c, h, w) = b * c * h * w"

text \<open>The size of a dimension of the result of a broadcast, if the sizes are compatible.\<close>

definition broadcast_dim :: "nat \<Rightarrow> nat \<Rightarrow> nat option" where
  "broadcast_dim a b =
     (if a = b then Some a else if a = 1 then Some b else if b = 1 then Some a else None)"

fun broadcast_shape :: "shape \<Rightarrow> shape \<Rightarrow> shape option" where
  "broadcast_shape (b1, c1, h1, w1) (b2, c2, h2, w2) =
     (case (broadcast_dim b1 b2, broadcast_dim c1 c2, broadcast_dim h1 h2, broadcast_dim w1 w2) of
        (Some b, Some c, Some h, Some w) \<Rightarrow> Some (b, c, h, w)
      | _ \<Rightarrow> None)"

text \<open>The index into a dimension of size \<open>n\<close> for the index \<open>i\<close> of the broadcast result.\<close>

definition bidx :: "nat \<Rightarrow> nat \<Rightarrow> nat" where
  "bidx n i = (if n = 1 then 0 else i)"

text \<open>The element of a tensor at an index of a broadcast result.\<close>

definition expanded :: "tensor \<Rightarrow> nat \<Rightarrow> nat \<Rightarrow> nat \<Rightarrow> nat \<Rightarrow> real" where
  "expanded t i j k l =
     (case shape t of
        (b, c, h, w) \<Rightarrow> elem t (bidx b i) (bidx c j) (bidx h k) (bidx w l))"

text \<open>\<^verbatim>\<open>torch.nn.functional.mse_loss(a, b, reduction="none")\<close>\<close>

definition mse_loss :: "tensor \<Rightarrow> tensor \<Rightarrow> error + tensor" where
  "mse_loss a b =
     (case broadcast_shape (shape a) (shape b) of
        None \<Rightarrow> Inl RuntimeError
      | Some s \<Rightarrow>
          Inr \<lparr> shape = s, elem = (\<lambda>i j k l. (expanded a i j k l - expanded b i j k l)\<^sup>2) \<rparr>)"

text \<open>The sum of \<open>f\<close> over the indices below \<open>n\<close>.\<close>

definition sum_below :: "nat \<Rightarrow> (nat \<Rightarrow> real) \<Rightarrow> real" where
  "sum_below n f = sum_list (map f [0..<n])"

text \<open>
  \<^verbatim>\<open>loss.mean(dim=list(range(1, len(loss.shape))))\<close>: for each example the sum of its
  elements divided by their number.
\<close>

definition mean_non_batch :: "tensor \<Rightarrow> fnum list" where
  "mean_non_batch t =
     (case shape t of
        (b, c, h, w) \<Rightarrow>
          map (\<lambda>i. fdiv (Finite (sum_below c (\<lambda>j. sum_below h (\<lambda>k. sum_below w (elem t i j k)))))
                         (Finite (real (c * h * w))))
              [0..<b])"

text \<open>The element of a one-dimensional tensor at an index of a broadcast result.\<close>

definition pick :: "'a list \<Rightarrow> nat \<Rightarrow> 'a" where
  "pick xs i = xs ! bidx (length xs) i"

text \<open>The product \<^verbatim>\<open>a * b\<close> of two one-dimensional tensors.\<close>

definition mul_1d :: "fnum list \<Rightarrow> fnum list \<Rightarrow> error + fnum list" where
  "mul_1d a b =
     (case broadcast_dim (length a) (length b) of
        None \<Rightarrow> Inl RuntimeError
      | Some n \<Rightarrow> Inr (map (\<lambda>i. fmul (pick a i) (pick b i)) [0..<n]))"

text \<open>\<^verbatim>\<open>latents * vae.config.scaling_factor\<close>\<close>

definition scale :: "real \<Rightarrow> tensor \<Rightarrow> tensor" where
  "scale c t = t\<lparr>elem := (\<lambda>i j k l. elem t i j k l * c)\<rparr>"

subsection \<open>Configuration, batch, scheduler, collaborators\<close>

text \<open>The fields of \<^verbatim>\<open>SdLoraConfig\<close> that \<^verbatim>\<open>train.py\<close> reads.\<close>

record data_loader_config =
  loader_type :: string
  random_flip :: bool
  center_crop :: bool

record sd_lora_config =
  seed :: "int option"
  xformers :: bool
  cache_text_encoder_outputs :: bool
  cache_vae_outputs :: bool
  train_unet :: bool
  train_text_encoder :: bool
  gradient_checkpointing :: bool
  data_loader :: data_loader_config
  gradient_accumulation_steps :: int
  max_grad_norm :: "real option"
  max_train_steps :: "int option"
  max_train_epochs :: "int option"
  save_every_n_steps :: "int option"
  save_every_n_epochs :: "int option"
  validate_every_n_steps :: "int option"
  validate_every_n_epochs :: "int option"
  validation_prompts :: "string list"
  lora_checkpoint_format :: string
  min_snr_gamma :: "real option"
  prediction_type :: "string option"

text \<open>The text encoder's output: batch, tokens, features.\<close>

type_synonym hidden_states = "real list list list"

text \<open>
  A collated batch: a dict with the optional keys below; \<open>None\<close> is an absent key. The
  loss weights are one-dimensional.
\<close>

record data_batch =
  image_tensor :: "tensor option"
  caption :: "string list option"
  vae_output :: "tensor option"
  text_encoder_output :: "hidden_states option"
  loss_weight :: "real list option"

text \<open>\<^verbatim>\<open>noise_scheduler.config\<close>\<close>

record scheduler_config =
  num_train_timesteps :: nat
  prediction_type :: string

text \<open>
  The collaborators of \<^verbatim>\<open>train_forward\<close>. The state of the global random generator
  is the number of values drawn from it so far; \<open>vae_encode_sample\<close>
  (\<^verbatim>\<open>vae.encode(x).latent_dist.sample()\<close>), \<open>randn_values\<close> and \<open>randint_values\<close> give the
  values drawn at a state of the generator. The signal-to-noise ratios are
  one-dimensional.
\<close>

record models =
  vae_encode_sample :: "nat \<Rightarrow> tensor \<Rightarrow> tensor"
  scaling_factor :: real
  tokenize_captions :: "string list \<Rightarrow> nat list list"
  text_encoder :: "nat list list \<Rightarrow> hidden_states"
  unet :: "tensor \<Rightarrow> nat list \<Rightarrow> hidden_states \<Rightarrow> tensor"
  add_noise :: "scheduler_config \<Rightarrow> tensor \<Rightarrow> tensor \<Rightarrow> nat list \<Rightarrow> tensor"
  get_velocity :: "scheduler_config \<Rightarrow> tensor \<Rightarrow> tensor \<Rightarrow> nat list \<Rightarrow> tensor"
  compute_snr :: "scheduler_config \<Rightarrow> nat list \<Rightarrow> fnum list"
  randn_values :: "nat \<Rightarrow> nat \<Rightarrow> nat \<Rightarrow> nat \<Rightarrow> nat \<Rightarrow> real"
  randint_values :: "nat \<Rightarrow> nat \<Rightarrow> nat \<Rightarrow> nat"

text \<open>
  The objects \<^verbatim>\<open>train_forward\<close> is called with, and the global random generator.
\<close>

record world =
  the_config :: sd_lora_config
  the_batch :: data_batch
  the_models :: models
  noise_scheduler :: scheduler_config
  generator :: nat

subsection \<open>\<^verbatim>\<open>train_forward\<close>\<close>

text \<open>
  Lines 178-181: the cached VAE output, or the encoded and scaled image, whose sample
  is drawn from the generator. The result comes with the state of the generator.
\<close>

definition get_latents :: "models \<Rightarrow> data_batch \<Rightarrow> nat \<Rightarrow> error + tensor \<times> nat" where
  "get_latents m b g =
     (case vae_output b of
        Some l \<Rightarrow> Inr (l, g)
      | None \<Rightarrow>
          (case image_tensor b of
             None \<Rightarrow> Inl (KeyError ''image'')
           | Some img \<Rightarrow>
               (let z = vae_encode_sample m g img
                in Inr (scale (scaling_factor m) z, g + numel (shape z)))))"

text \<open>Line 184: \<^verbatim>\<open>torch.randn_like(latents)\<close>, of the shape of the latents.\<close>

definition randn_like :: "models \<Rightarrow> nat \<Rightarrow> tensor \<Rightarrow> tensor" where
  "randn_like m g t = \<lparr> shape = shape t, elem = randn_values m g \<rparr>"

text \<open>
  Lines 188-193: \<^verbatim>\<open>torch.randint(0, high, (n,))\<close>, which raises unless \<open>0 < high\<close>.
\<close>

definition randint :: "models \<Rightarrow> nat \<Rightarrow> nat \<Rightarrow> nat \<Rightarrow> error + nat list" where
  "randint m g high n =
     (if high = 0 then Inl RuntimeError
      else Inr (map (randint_values m g high) [0..<n]))"

text \<open>Lines 202-205: the cached text encoder output, or the encoded caption.\<close>

definition get_encoder_hidden_states :: "models \<Rightarrow> data_batch \<Rightarrow> error + hidden_states" where
  "get_encoder_hidden_states m b =
     (case text_encoder_output b of
        Some e \<Rightarrow> Inr e
      | None \<Rightarrow>
          (case caption b of
             None \<Rightarrow> Inl (KeyError ''caption'')
           | Some c \<Rightarrow> Inr (text_encoder m (tokenize_captions m c))))"

text \<open>The local variables of lines 176-205.\<close>

record forward_inputs =
  latents :: tensor
  noise :: tensor
  timesteps :: "nat list"
  noisy_latents :: tensor
  encoder_hidden_states :: hidden_states

text \<open>
  Lines 176-205: latents, noise, timesteps, noisy latents and conditioning. The
  outcome comes with the state of the generator, which the noise advances by one
  value for each element of the latents and the timesteps by one value for each
  example.
\<close>

definition sample_inputs ::
  "models \<Rightarrow> data_batch \<Rightarrow> scheduler_config \<Rightarrow> nat \<Rightarrow> (error + forward_inputs) \<times> nat" where
  "sample_inputs m b sched g =
     (case get_latents m b g of
        Inl e \<Rightarrow> (Inl e, g)
      | Inr (lat, g1) \<Rightarrow>
     let nse = randn_like m g1 lat;
         g2 = g1 + numel (shape lat);
         batch_size = fst (shape lat)
     in
     (case randint m g2 (num_train_timesteps sched) batch_size of
        Inl e \<Rightarrow> (Inl e, g2)
      | Inr ts \<Rightarrow>
     let g3 = g2 + batch_size;
         noisy = add_noise m sched lat nse ts
     in
     (case get_encoder_hidden_states m b of
        Inl e \<Rightarrow> (Inl e, g3)
      | Inr ehs \<Rightarrow>
          (Inr \<lparr> latents = lat, noise = nse, timesteps = ts, noisy_latents = noisy,
                 encoder_hidden_states = ehs \<rparr>, g3))))"

text \<open>
  Lines 208-210: \<^verbatim>\<open>noise_scheduler.register_to_config(prediction_type=...)\<close> when the
  training config defines a prediction type. This writes to the scheduler object.
\<close>

definition register_to_config :: "sd_lora_config \<Rightarrow> scheduler_config \<Rightarrow> scheduler_config" where
  "register_to_config cfg sched =
     (case sd_lora_config.prediction_type cfg of
        None \<Rightarrow> sched
      | Some p \<Rightarrow> sched\<lparr>prediction_type := p\<rparr>)"

text \<open>Lines 211-216.\<close>

definition select_target ::
  "models \<Rightarrow> scheduler_config \<Rightarrow> tensor \<Rightarrow> tensor \<Rightarrow> nat list \<Rightarrow> error + tensor" where
  "select_target m sched lat nse ts =
     (if prediction_type sched = ''epsilon'' then Inr nse
      else if prediction_type sched = ''v_prediction''
      then Inr (get_velocity m sched lat nse ts)
      else Inl (ValueError (''Unknown prediction type '' @ prediction_type sched)))"

text \<open>
  Line 231: \<^verbatim>\<open>torch.clamp(snr, max=min_snr_gamma) / snr\<close> for one signal-to-noise ratio.
\<close>

definition min_snr_weight :: "real \<Rightarrow> fnum \<Rightarrow> fnum" where
  "min_snr_weight gamma snr = fdiv (fclamp_max gamma snr) snr"

text \<open>Lines 221-239; \<open>None\<close> when no gamma is configured.\<close>

definition compute_min_snr_weights ::
  "models \<Rightarrow> scheduler_config \<Rightarrow> nat list \<Rightarrow> real option \<Rightarrow> error + fnum list option" where
  "compute_min_snr_weights m sched ts gamma =
     (case gamma of
        None \<Rightarrow> Inr None
      | Some g \<Rightarrow>
          (let snr = compute_snr m sched ts;
               w = map (min_snr_weight g) snr
           in if prediction_type sched = ''epsilon'' then Inr (Some w)
              else if prediction_type sched = ''v_prediction''
              then Inr (Some (map (\<lambda>x. fadd x (Finite 1)) w))
              else Inl (ValueError (''Unknown prediction type '' @ prediction_type sched))))"

text \<open>Lines 246-252: the multiplication by weights that may be absent.\<close>

definition apply_weights :: "fnum list \<Rightarrow> fnum list option \<Rightarrow> error + fnum list" where
  "apply_weights l w = (case w of None \<Rightarrow> Inr l | Some ws \<Rightarrow> mul_1d l ws)"

text \<open>The values the variable \<^verbatim>\<open>loss\<close> takes in lines 241-254, and the value returned.\<close>

record loss_locals =
  per_example_loss :: "fnum list"
  snr_weighted_loss :: "fnum list"
  weighted_loss :: "fnum list"
  loss :: fnum

text \<open>
  Lines 241-254, from the prediction, the target, the min-SNR weights and the
  \<^verbatim>\<open>loss_weight\<close> entry of the batch.
\<close>

definition compute_loss ::
  "tensor \<Rightarrow> tensor \<Rightarrow> fnum list option \<Rightarrow> real list option \<Rightarrow> error + loss_locals" where
  "compute_loss pred tgt snr_w lw =
     (case mse_loss pred tgt of
        Inl e \<Rightarrow> Inl e
      | Inr sq \<Rightarrow>
     let per_ex = mean_non_batch sq in
     (case apply_weights per_ex snr_w of
        Inl e \<Rightarrow> Inl e
      | Inr l1 \<Rightarrow>
     (case apply_weights l1 (map_option (map Finite) lw) of
        Inl e \<Rightarrow> Inl e
      | Inr l2 \<Rightarrow>
          Inr \<lparr> per_example_loss = per_ex, snr_weighted_loss = l1, weighted_loss = l2,
                loss = fmean l2 \<rparr>)))"

text \<open>The local variables of \<^verbatim>\<open>train_forward\<close> at its \<^verbatim>\<open>return\<close>.\<close>

record forward_locals =
  inputs :: forward_inputs
  target :: tensor
  model_pred :: tensor
  min_snr_weights :: "fnum list option"
  losses :: loss_locals

text \<open>
  The body of \<^verbatim>\<open>train_forward\<close>: the outcome (an exception, or the locals at the
  \<^verbatim>\<open>return\<close>) and the world as the call leaves it.
\<close>

definition forward_pass ::
  "models \<Rightarrow> sd_lora_config \<Rightarrow> data_batch \<Rightarrow> scheduler_config \<Rightarrow> nat \<Rightarrow> real option
     \<Rightarrow> (error + forward_locals) \<times> world" where
  "forward_pass m cfg b sched g gamma =
     (let left = (\<lambda>s r. \<lparr> the_config = cfg, the_batch = b, the_models = m,
                            noise_scheduler = s, generator = r \<rparr>)
      in
     (case sample_inputs m b sched g of
        (Inl e, g1) \<Rightarrow> (Inl e, left sched g1)
      | (Inr I, g1) \<Rightarrow>
     let sched1 = register_to_config cfg sched in
     (case select_target m sched1 (latents I) (noise I) (timesteps I) of
        Inl e \<Rightarrow> (Inl e, left sched1 g1)
      | Inr tgt \<Rightarrow>
     let pred = unet m (noisy_latents I) (timesteps I) (encoder_hidden_states I) in
     (case compute_min_snr_weights m sched1 (timesteps I) gamma of
        Inl e \<Rightarrow> (Inl e, left sched1 g1)
      | Inr snr_w \<Rightarrow>
     (case compute_loss pred tgt snr_w (loss_weight b) of
        Inl e \<Rightarrow> (Inl e, left sched1 g1)
      | Inr R \<Rightarrow>
          (Inr \<lparr> inputs = I, target = tgt, model_pred = pred, min_snr_weights = snr_w,
                 losses = R \<rparr>,
           left sched1 g1))))))"

text \<open>\<^verbatim>\<open>train_forward\<close>: the loss returned or the exception, and the world after the call.\<close>

definition train_forward ::
  "models \<Rightarrow> sd_lora_config \<Rightarrow> data_batch \<Rightarrow> scheduler_config \<Rightarrow> nat \<Rightarrow> real option
     \<Rightarrow> (error + fnum) \<times> world" where
  "train_forward m cfg b sched g gamma =
     (case forward_pass m cfg b sched g gamma of
        (Inl e, w) \<Rightarrow> (Inl e, w)
      | (Inr L, w) \<Rightarrow> (Inr (loss (losses L)), w))"


subsection \<open>The run of \<^verbatim>\<open>train\<close>: events and state\<close>

text \<open>
  \<^verbatim>\<open>train\<close> acts on the world through its collaborators. A run is modelled by the
  sequence of collaborator calls it makes (its events, in order), the exception that
  ended it (if any), and the two counters of the training state. The events are the
  calls that create directories and files, load or change models, build data loaders,
  fill caches, train, save and validate. Barriers between processes, device
  placement, dtype casts, log messages, the progress bar, the checkpoint callbacks
  and the running \<^verbatim>\<open>train_loss\<close> metric are not part of the state, and the
  collaborators themselves are taken not to raise.
\<close>

datatype event =
    MakeOutputDirs
  | InitializeAccelerator
  | SetSeed int
  | WriteConfigJson
  | LoadModels
  | EnableXformers
  | BuildDataLoader
  | CacheTextEncoderOutputs
  | CacheVaeOutputs
  | InjectLora string
  | EnableGradientCheckpointing
  | InitializeOptimizer
  | CreateLrScheduler int
  | Prepare
  | InitTrackers
  | TrainForward nat nat
  | Backward
  | ClipGradNorm
  | OptimizerStep
  | Log nat
  | PruneCheckpoints
  | SaveCheckpoint string nat nat
  | Validate nat nat
  | EndTraining

record train_state =
  events :: "event list"
  failed :: "error option"
  global_step :: nat
  completed_epochs :: nat

text \<open>
  What the run depends on besides the config: the accelerator's process flags, the
  number of batches of the data loader (\<^verbatim>\<open>len(data_loader)\<close>, taken to be the same
  before and after \<^verbatim>\<open>accelerator.prepare\<close>), the value of
  \<^verbatim>\<open>accelerator.sync_gradients\<close> after batch \<open>idx\<close> of epoch \<open>epoch\<close>, and the outcome of
  the \<^verbatim>\<open>train_forward\<close> call on that batch.
\<close>

record env =
  is_main_process :: bool
  is_local_main_process :: bool
  num_batches :: nat
  sync_gradients :: "nat \<Rightarrow> nat \<Rightarrow> bool"
  forward :: "nat \<Rightarrow> nat \<Rightarrow> error + real"

definition emit :: "event \<Rightarrow> train_state \<Rightarrow> train_state" where
  "emit ev s = s\<lparr>events := events s @ [ev]\<rparr>"

definition raise_error :: "error \<Rightarrow> train_state \<Rightarrow> train_state" where
  "raise_error e s = s\<lparr>failed := Some e\<rparr>"

text \<open>Statements in sequence: an exception skips the statements after it.\<close>

fun run_steps :: "(train_state \<Rightarrow> train_state) list \<Rightarrow> train_state \<Rightarrow> train_state" where
  "run_steps [] s = s"
| "run_steps (f # fs) s = (if failed s = None then run_steps fs (f s) else s)"

definition step_if :: "bool \<Rightarrow> (train_state \<Rightarrow> train_state) \<Rightarrow> train_state \<Rightarrow> train_state" where
  "step_if c f s = (if c then f s else s)"

definition quoted :: "string \<Rightarrow> string" where
  "quoted t = [CHR 0x27] @ t @ [CHR 0x27]"

text \<open>\<^verbatim>\<open>_build_data_loader\<close>, lines 82-110.\<close>

definition build_data_loader :: "data_loader_config \<Rightarrow> train_state \<Rightarrow> train_state" where
  "build_data_loader dl s =
     (if loader_type dl = ''IMAGE_CAPTION_SD_DATA_LOADER'' then emit BuildDataLoader s
      else if loader_type dl = ''DREAMBOOTH_SD_DATA_LOADER'' then emit BuildDataLoader s
      else raise_error
             (ValueError (''Unsupported data loader config type: '' @
                quoted (loader_type dl) @ ''.'')) s)"

text \<open>\<^verbatim>\<open>cache_text_encoder_outputs\<close>, lines 113-138.\<close>

definition cache_text_encoder_outputs_fn :: "sd_lora_config \<Rightarrow> train_state \<Rightarrow> train_state" where
  "cache_text_encoder_outputs_fn cfg =
     run_steps [build_data_loader (data_loader cfg), emit CacheTextEncoderOutputs]"

text \<open>\<^verbatim>\<open>_save_sd_lora_checkpoint\<close>, lines 48-79.\<close>

definition save_sd_lora_checkpoint ::
  "sd_lora_config \<Rightarrow> nat \<Rightarrow> nat \<Rightarrow> train_state \<Rightarrow> train_state" where
  "save_sd_lora_checkpoint cfg epoch step s =
     (let s1 = emit PruneCheckpoints s in
      if lora_checkpoint_format cfg = ''invoke_peft''
      then emit (SaveCheckpoint ''invoke_peft'' epoch step) s1
      else if lora_checkpoint_format cfg = ''kohya''
      then emit (SaveCheckpoint ''kohya'' epoch step) s1
      else raise_error
             (ValueError (''Unsupported lora_checkpoint_format: '' @
                quoted (lora_checkpoint_format cfg) @ ''.'')) s1)"

text \<open>The closures \<^verbatim>\<open>save_checkpoint\<close> and \<^verbatim>\<open>validate\<close>, lines 515-547.\<close>

definition save_checkpoint ::
  "sd_lora_config \<Rightarrow> env \<Rightarrow> nat \<Rightarrow> nat \<Rightarrow> train_state \<Rightarrow> train_state" where
  "save_checkpoint cfg ev num_completed_epochs num_completed_steps =
     step_if (is_main_process ev)
       (save_sd_lora_checkpoint cfg num_completed_epochs num_completed_steps)"

definition validate ::
  "env \<Rightarrow> nat \<Rightarrow> nat \<Rightarrow> train_state \<Rightarrow> train_state" where
  "validate ev num_completed_epochs num_completed_steps =
     step_if (is_main_process ev)
       (emit (Validate num_completed_epochs num_completed_steps))"

text \<open>
  \<^verbatim>\<open>every is not None and count % every == 0\<close>; the remainder by zero raises.
\<close>

definition cadence_hit :: "int option \<Rightarrow> nat \<Rightarrow> error + bool" where
  "cadence_hit every count =
     (case every of
        None \<Rightarrow> Inr False
      | Some k \<Rightarrow> if k = 0 then Inl ZeroDivisionError else Inr (int count mod k = 0))"

definition save_if_due ::
  "sd_lora_config \<Rightarrow> env \<Rightarrow> int option \<Rightarrow> nat \<Rightarrow> train_state \<Rightarrow> train_state" where
  "save_if_due cfg ev every count s =
     (case cadence_hit every count of
        Inl e \<Rightarrow> raise_error e s
      | Inr hit \<Rightarrow>
          if hit then save_checkpoint cfg ev (completed_epochs s) (global_step s) s else s)"

definition validate_if_due ::
  "sd_lora_config \<Rightarrow> env \<Rightarrow> int option \<Rightarrow> nat \<Rightarrow> train_state \<Rightarrow> train_state" where
  "validate_if_due cfg ev every count s =
     (case cadence_hit every count of
        Inl e \<Rightarrow> raise_error e s
      | Inr hit \<Rightarrow>
          if hit \<and> length (validation_prompts cfg) > 0
          then validate ev (completed_epochs s) (global_step s) s else s)"

text \<open>Lines 580-610: the block under \<^verbatim>\<open>if accelerator.sync_gradients\<close>.\<close>

definition on_sync :: "sd_lora_config \<Rightarrow> env \<Rightarrow> nat \<Rightarrow> nat \<Rightarrow> train_state \<Rightarrow> train_state" where
  "on_sync cfg ev epoch data_batch_idx s =
     (let step = global_step s + 1;
          s1 = s\<lparr>global_step := step,
                 completed_epochs :=
                   (if data_batch_idx + 1 < num_batches ev then epoch else epoch + 1)\<rparr>
      in run_steps
           [emit (Log step),
            save_if_due cfg ev (save_every_n_steps cfg) step,
            validate_if_due cfg ev (validate_every_n_steps cfg) step] s1)"

text \<open>Lines 552-616: the body of the loop over the batches.\<close>

definition train_batch :: "sd_lora_config \<Rightarrow> env \<Rightarrow> nat \<Rightarrow> nat \<Rightarrow> train_state \<Rightarrow> train_state" where
  "train_batch cfg ev epoch data_batch_idx s =
     (let s1 = emit (TrainForward epoch data_batch_idx) s in
      case forward ev epoch data_batch_idx of
        Inl e \<Rightarrow> raise_error e s1
      | Inr l \<Rightarrow>
          run_steps
            [emit Backward,
             step_if (sync_gradients ev epoch data_batch_idx \<and> max_grad_norm cfg \<noteq> None)
               (emit ClipGradNorm),
             emit OptimizerStep,
             step_if (sync_gradients ev epoch data_batch_idx)
               (on_sync cfg ev epoch data_batch_idx)] s1)"

text \<open>
  Lines 551-619: the loop over the batches of one epoch, left by \<^verbatim>\<open>break\<close> once
  \<^verbatim>\<open>global_step >= num_train_steps\<close>.
\<close>

fun batch_loop ::
  "sd_lora_config \<Rightarrow> env \<Rightarrow> int \<Rightarrow> nat \<Rightarrow> nat list \<Rightarrow> train_state \<Rightarrow> train_state" where
  "batch_loop cfg ev num_train_steps epoch [] s = s"
| "batch_loop cfg ev num_train_steps epoch (idx # rest) s =
     (let s1 = train_batch cfg ev epoch idx s in
      if failed s1 \<noteq> None then s1
      else if int (global_step s1) \<ge> num_train_steps then s1
      else batch_loop cfg ev num_train_steps epoch rest s1)"

text \<open>Lines 549-631: one iteration of the loop over the epochs.\<close>

definition train_epoch :: "sd_lora_config \<Rightarrow> env \<Rightarrow> int \<Rightarrow> nat \<Rightarrow> train_state \<Rightarrow> train_state" where
  "train_epoch cfg ev num_train_steps epoch s =
     run_steps
       [batch_loop cfg ev num_train_steps epoch [0..<num_batches ev],
        (\<lambda>s1. save_if_due cfg ev (save_every_n_epochs cfg) (completed_epochs s1) s1),
        (\<lambda>s1. validate_if_due cfg ev (validate_every_n_epochs cfg) (completed_epochs s1) s1)]
       s"

text \<open>\<^verbatim>\<open>math.ceil(a / b)\<close> on integers.\<close>

definition ceil_div :: "int \<Rightarrow> int \<Rightarrow> error + int" where
  "ceil_div a b = (if b = 0 then Inl ZeroDivisionError else Inr (- ((- a) div b)))"

text \<open>
  Line 449: \<^verbatim>\<open>config.max_train_steps or config.max_train_epochs * num_steps_per_epoch\<close>.
  \<^verbatim>\<open>or\<close> takes its right operand when the left one is \<^verbatim>\<open>None\<close> or \<^verbatim>\<open>0\<close>, and the product
  with \<^verbatim>\<open>None\<close> is a \<^verbatim>\<open>TypeError\<close>.
\<close>

definition num_train_steps :: "sd_lora_config \<Rightarrow> int \<Rightarrow> error + int" where
  "num_train_steps cfg num_steps_per_epoch =
     (let from_epochs =
            (case max_train_epochs cfg of
               None \<Rightarrow> Inl TypeError
             | Some e \<Rightarrow> Inr (e * num_steps_per_epoch))
      in case max_train_steps cfg of
           None \<Rightarrow> from_epochs
         | Some m \<Rightarrow> if m \<noteq> 0 then Inr m else from_epochs)"

text \<open>Lines 445-633: the step arithmetic, the loop over the epochs, the end of training.\<close>

definition training_loop :: "sd_lora_config \<Rightarrow> env \<Rightarrow> train_state \<Rightarrow> train_state" where
  "training_loop cfg ev s =
     (case ceil_div (int (num_batches ev)) (gradient_accumulation_steps cfg) of
        Inl e \<Rightarrow> raise_error e s
      | Inr num_steps_per_epoch \<Rightarrow>
     (case num_train_steps cfg num_steps_per_epoch of
        Inl e \<Rightarrow> raise_error e s
      | Inr n_steps \<Rightarrow>
     (case ceil_div n_steps num_steps_per_epoch of
        Inl e \<Rightarrow> raise_error e s
      | Inr num_train_epochs \<Rightarrow>
          run_steps
            ([emit (CreateLrScheduler n_steps), emit Prepare,
              step_if (is_main_process ev) (emit InitTrackers)]
             @ map (train_epoch cfg ev n_steps) [0..<nat num_train_epochs]
             @ [emit EndTraining])
            (s\<lparr>global_step := 0, completed_epochs := 0\<rparr>))))"

text \<open>Lines 306-328 and 330-357: the two output caches.\<close>

definition prepare_text_encoder_cache :: "sd_lora_config \<Rightarrow> env \<Rightarrow> train_state \<Rightarrow> train_state" where
  "prepare_text_encoder_cache cfg ev s =
     (if cache_text_encoder_outputs cfg then
        if train_text_encoder cfg
        then raise_error
               (ValueError (quoted ''cache_text_encoder_outputs'' @ '' and '' @
                  quoted ''train_text_encoder'' @ '' cannot both be True.'')) s
        else step_if (is_local_main_process ev) (cache_text_encoder_outputs_fn cfg) s
      else s)"

definition prepare_vae_cache :: "sd_lora_config \<Rightarrow> env \<Rightarrow> train_state \<Rightarrow> train_state" where
  "prepare_vae_cache cfg ev s =
     (if cache_vae_outputs cfg then
        if random_flip (data_loader cfg)
        then raise_error
               (ValueError (quoted ''cache_vae_outputs'' @ '' cannot be True if '' @
                  quoted ''random_flip'' @ '' is True.'')) s
        else if \<not> center_crop (data_loader cfg)
        then raise_error
               (ValueError (quoted ''cache_vae_outputs'' @ '' cannot be True if '' @
                  quoted ''center_crop'' @ '' is False.'')) s
        else step_if (is_local_main_process ev)
               (run_steps [build_data_loader (data_loader cfg), emit CacheVaeOutputs]) s
      else s)"

text \<open>Lines 441-443: the three assertions.\<close>

definition count_set :: "bool list \<Rightarrow> nat" where
  "count_set bs = sum_list (map of_bool bs)"

definition check_exactly_one :: "'a option \<Rightarrow> 'b option \<Rightarrow> train_state \<Rightarrow> train_state" where
  "check_exactly_one a b s =
     (if count_set [a \<noteq> None, b \<noteq> None] = 1 then s else raise_error AssertionError s)"

text \<open>\<^verbatim>\<open>train\<close>, lines 257-633.\<close>

definition initial_state :: train_state where
  "initial_state = \<lparr> events = [], failed = None, global_step = 0, completed_epochs = 0 \<rparr>"

definition train :: "sd_lora_config \<Rightarrow> env \<Rightarrow> train_state" where
  "train cfg ev =
     run_steps
       [emit MakeOutputDirs,
        emit InitializeAccelerator,
        (case seed cfg of None \<Rightarrow> id | Some sd \<Rightarrow> emit (SetSeed sd)),
        emit WriteConfigJson,
        emit LoadModels,
        step_if (xformers cfg) (emit EnableXformers),
        prepare_text_encoder_cache cfg ev,
        prepare_vae_cache cfg ev,
        step_if (train_unet cfg) (emit (InjectLora ''unet'')),
        step_if (train_text_encoder cfg) (emit (InjectLora ''text_encoder'')),
        step_if (gradient_checkpointing cfg) (emit EnableGradientCheckpointing),
        emit InitializeOptimizer,
        build_data_loader (data_loader cfg),
        check_exactly_one (max_train_steps cfg) (max_train_epochs cfg),
        check_exactly_one (save_every_n_steps cfg) (save_every_n_epochs cfg),
        check_exactly_one (validate_every_n_steps cfg) (validate_every_n_epochs cfg),
        training_loop cfg ev]
       initial_state"

text \<open>
  Modelled from the spec: the accelerator's rule for \<^verbatim>\<open>sync_gradients\<close>, which is
  not part of this repository. The spec gives the boundary as
  \<^verbatim>\<open>(batch_index + 1) % accumulation_steps == 0\<close> or end of epoch, and the comment at
  lines 445-447 says that an optimizer step is taken when the end of the data loader
  is reached.
\<close>

definition accumulation_boundary :: "int \<Rightarrow> nat \<Rightarrow> nat \<Rightarrow> nat \<Rightarrow> bool" where
  "accumulation_boundary accumulation_steps n_batches epoch batch_index =
     ((int batch_index + 1) mod accumulation_steps = 0 \<or> batch_index + 1 = n_batches)"

text \<open>
  The conditions under which nothing in the loop raises: every forward pass returns,
  no cadence is zero, and the checkpoint format is one of the two supported ones.
\<close>

definition runs_cleanly :: "sd_lora_config \<Rightarrow> env \<Rightarrow> bool" where
  "runs_cleanly cfg ev \<longleftrightarrow>
     (\<forall>epoch idx. \<exists>l. forward ev epoch idx = Inr l) \<and>
     save_every_n_steps cfg \<noteq> Some 0 \<and> save_every_n_epochs cfg \<noteq> Some 0 \<and>
     validate_every_n_steps cfg \<noteq> Some 0 \<and> validate_every_n_epochs cfg \<noteq> Some 0 \<and>
     (lora_checkpoint_format cfg = ''invoke_peft'' \<or> lora_checkpoint_format cfg = ''kohya'')"


subsection \<open>The phases of \<^verbatim>\<open>train\<close> and the checked constraints\<close>

text \<open>The statements of \<^verbatim>\<open>train\<close> before the assertions (lines 266-439).\<close>

definition setup_steps :: "sd_lora_config \<Rightarrow> env \<Rightarrow> (train_state \<Rightarrow> train_state) list" where
  "setup_steps cfg ev =
       [emit MakeOutputDirs,
        emit InitializeAccelerator,
        (case seed cfg of None \<Rightarrow> id | Some sd \<Rightarrow> emit (SetSeed sd)),
        emit WriteConfigJson,
        emit LoadModels,
        step_if (xformers cfg) (emit EnableXformers),
        prepare_text_encoder_cache cfg ev,
        prepare_vae_cache cfg ev,
        step_if (train_unet cfg) (emit (InjectLora ''unet'')),
        step_if (train_text_encoder cfg) (emit (InjectLora ''text_encoder'')),
        step_if (gradient_checkpointing cfg) (emit EnableGradientCheckpointing),
        emit InitializeOptimizer,
        build_data_loader (data_loader cfg)]"

text \<open>The assertions of lines 441-443.\<close>

definition assertion_steps :: "sd_lora_config \<Rightarrow> (train_state \<Rightarrow> train_state) list" where
  "assertion_steps cfg =
       [check_exactly_one (max_train_steps cfg) (max_train_epochs cfg),
        check_exactly_one (save_every_n_steps cfg) (save_every_n_epochs cfg),
        check_exactly_one (validate_every_n_steps cfg) (validate_every_n_epochs cfg)]"

text \<open>
  A run that has not entered the training loop: it has made no forward pass, no
  optimizer update is counted, and if it has ended, it has ended with a
  \<^verbatim>\<open>ValueError\<close>.
\<close>

definition before_training :: "train_state \<Rightarrow> bool" where
  "before_training t \<longleftrightarrow>
     (failed t = None \<or> (\<exists>m. failed t = Some (ValueError m))) \<and>
     (\<forall>e i. TrainForward e i \<notin> set (events t)) \<and> global_step t = 0"

text \<open>
  Exactly one option of each of the three pairs is set (is not \<^verbatim>\<open>None\<close>).
\<close>

definition exactly_one_each :: "sd_lora_config \<Rightarrow> bool" where
  "exactly_one_each cfg \<longleftrightarrow>
     ((max_train_steps cfg \<noteq> None) \<noteq> (max_train_epochs cfg \<noteq> None)) \<and>
     ((save_every_n_steps cfg \<noteq> None) \<noteq> (save_every_n_epochs cfg \<noteq> None)) \<and>
     ((validate_every_n_steps cfg \<noteq> None) \<noteq> (validate_every_n_epochs cfg \<noteq> None))"

text \<open>The number of optimizer updates a run has logged.\<close>

fun count_updates :: "event list \<Rightarrow> nat" where
  "count_updates [] = 0"
| "count_updates (Log g # evs) = Suc (count_updates evs)"
| "count_updates (ev # evs) = count_updates evs"

text \<open>Every optimizer update counted by \<^verbatim>\<open>global_step\<close> has been logged, and no other.\<close>

definition updates_counted :: "train_state \<Rightarrow> bool" where
  "updates_counted s \<longleftrightarrow> count_updates (events s) = global_step s"


subsection \<open>Concrete inputs for the forward pass\<close>

text \<open>The tensor of shape (rows, 1, 1, columns) with the given rows.\<close>

definition rows_tensor :: "real list list \<Rightarrow> tensor" where
  "rows_tensor rows =
     \<lparr> shape = (length rows, 1, 1, length (hd rows)),
       elem = (\<lambda>i j k l. rows ! i ! l) \<rparr>"

text \<open>
  Collaborators that can be computed: the UNet returns its input, noising adds the
  noise, the velocity is noise minus latents, the signal-to-noise ratio of timestep
  \<open>t\<close> is \<open>t + 1\<close>, every normal value drawn is 1 and the timesteps drawn at the state
  \<open>g\<close> of the generator are \<open>g\<close>, \<open>g + 1\<close>, ... modulo the number of timesteps.
\<close>

definition demo_models :: models where
  "demo_models =
     \<lparr> vae_encode_sample = (\<lambda>g t. t), scaling_factor = 2,
       tokenize_captions = map (map of_char),
       text_encoder = map (\<lambda>ids. [map real ids]),
       unet = (\<lambda>x ts c. x),
       add_noise = (\<lambda>s x n ts. x\<lparr>elem := (\<lambda>i j k l. elem x i j k l + elem n i j k l)\<rparr>),
       get_velocity = (\<lambda>s x n ts. x\<lparr>elem := (\<lambda>i j k l. elem n i j k l - elem x i j k l)\<rparr>),
       compute_snr = (\<lambda>s ts. map (\<lambda>t. Finite (real t + 1)) ts),
       randn_values = (\<lambda>g i j k l. 1),
       randint_values = (\<lambda>g high i. (g + i) mod high) \<rparr>"

text \<open>Signal-to-noise ratio 0 at every timestep.\<close>

definition zero_snr_models :: models where
  "zero_snr_models = demo_models\<lparr>compute_snr := (\<lambda>s ts. map (\<lambda>t. Finite 0) ts)\<rparr>"

text \<open>A batch of two cached latents of two elements each, with loss weights.\<close>

definition demo_batch :: data_batch where
  "demo_batch =
     \<lparr> image_tensor = None, caption = None,
       vae_output = Some (rows_tensor [[1, 3], [2, 0]]),
       text_encoder_output = Some [[[0]]], loss_weight = Some [1, 2] \<rparr>"

text \<open>The batch with one loss weight for all examples, and without examples.\<close>

definition one_weight_batch :: data_batch where
  "one_weight_batch = demo_batch\<lparr>loss_weight := Some [2]\<rparr>"

definition empty_batch :: data_batch where
  "empty_batch =
     demo_batch\<lparr>vae_output := Some \<lparr> shape = (0, 1, 1, 2), elem = (\<lambda>i j k l. 0) \<rparr>,
                 loss_weight := None\<rparr>"

text \<open>A batch from which the latents have to be computed, and one that has no image.\<close>

definition image_batch :: data_batch where
  "image_batch =
     demo_batch\<lparr>vae_output := None, image_tensor := Some (rows_tensor [[1, 3], [2, 0]])\<rparr>"

definition no_image_batch :: data_batch where
  "no_image_batch = demo_batch\<lparr>vae_output := None\<rparr>"

definition demo_config :: "string option \<Rightarrow> sd_lora_config" where
  "demo_config pt =
     \<lparr> seed = None, xformers = False, cache_text_encoder_outputs = False,
       cache_vae_outputs = False, train_unet = True, train_text_encoder = False,
       gradient_checkpointing = False,
       data_loader = \<lparr> loader_type = ''IMAGE_CAPTION_SD_DATA_LOADER'',
                       random_flip = False, center_crop = True \<rparr>,
       gradient_accumulation_steps = 2, max_grad_norm = None,
       max_train_steps = Some 10, max_train_epochs = None,
       save_every_n_steps = None, save_every_n_epochs = Some 1,
       validate_every_n_steps = None, validate_every_n_epochs = Some 1,
       validation_prompts = [], lora_checkpoint_format = ''kohya'',
       min_snr_gamma = None, sd_lora_config.prediction_type = pt \<rparr>"

definition demo_scheduler :: scheduler_config where
  "demo_scheduler = \<lparr> num_train_timesteps = 4, prediction_type = ''epsilon'' \<rparr>"


subsection \<open>Concrete runs\<close>

text \<open>
  A single-process run over \<open>n\<close> batches per epoch in which every forward pass
  returns, with the accelerator's boundaries for the config's accumulation steps.
\<close>

definition demo_env :: "sd_lora_config \<Rightarrow> nat \<Rightarrow> env" where
  "demo_env cfg n =
     \<lparr> is_main_process = True, is_local_main_process = True, num_batches = n,
       sync_gradients = accumulation_boundary (gradient_accumulation_steps cfg) n,
       forward = (\<lambda>epoch idx. Inr 0) \<rparr>"

text \<open>The forward passes and the optimizer updates of a run, in order.\<close>

fun forwards_and_updates :: "event list \<Rightarrow> event list" where
  "forwards_and_updates [] = []"
| "forwards_and_updates (TrainForward e i # evs) = TrainForward e i # forwards_and_updates evs"
| "forwards_and_updates (Log g # evs) = Log g # forwards_and_updates evs"
| "forwards_and_updates (ev # evs) = forwards_and_updates evs"

text \<open>The scenario: ten optimizer updates, two accumulation steps, ten batches.\<close>

definition scenario_config :: sd_lora_config where
  "scenario_config = demo_config None"

definition scenario_env :: env where
  "scenario_env = demo_env scenario_config 10"

text \<open>The scenario with a budget of zero optimizer updates.\<close>

definition zero_budget_config :: sd_lora_config where
  "zero_budget_config = scenario_config\<lparr>max_train_steps := Some 0\<rparr>"

text \<open>The scenario with both stopping bounds set.\<close>

definition both_bounds_config :: sd_lora_config where
  "both_bounds_config = scenario_config\<lparr>max_train_epochs := Some 3\<rparr>"

text \<open>The scenario with text encoder caching and text encoder training.\<close>

definition cache_conflict_config :: sd_lora_config where
  "cache_conflict_config =
     scenario_config\<lparr>cache_text_encoder_outputs := True, train_text_encoder := True\<rparr>"


subsection \<open>\<^verbatim>\<open>build_textual_inversion_sd_dataloader\<close>\<close>

text \<open>
  The datasets, the bucket manager, the batch sampler, the disk cache and the
  transforms are objects of classes that are not among the sources. Each is kept as
  the record of the arguments it is constructed with, and constructing one is taken to
  return.
\<close>

text \<open>
  The dataset configs the function distinguishes by \<^verbatim>\<open>isinstance\<close>; any other type is
  kept by its name.
\<close>

datatype dataset_config =
    HFHubImageCaptionDatasetConfig
  | HFDirImageCaptionDatasetConfig
  | ImageDirDatasetConfig string bool
  | OtherDatasetConfig string

datatype base_dataset =
    HFHubImageCaptionDataset
  | HFDirImageCaptionDataset
  | ImageDirDataset string bool

text \<open>The aspect ratio bucket config is only passed on.\<close>

typedecl aspect_ratio_bucket_config

datatype bucket_manager = AspectRatioBucketManager aspect_ratio_bucket_config

text \<open>
  \<^verbatim>\<open>AspectRatioBucketBatchSampler.from_image_sizes\<close>: bucket manager, the dataset whose
  image dimensions are read, batch size, shuffle, seed.
\<close>

datatype bucket_batch_sampler =
  AspectRatioBucketBatchSampler bucket_manager base_dataset nat bool nat

record textual_inversion_sd_data_loader_config =
  dataset :: dataset_config
  caption_templates :: "string list option"
  caption_preset :: "string option"
  apply_caption_prefix :: bool
  aspect_ratio_buckets :: "aspect_ratio_bucket_config option"
  resolution :: nat
  shuffle_caption_delimiter :: "string option"
  center_crop :: bool
  random_flip :: bool
  dataloader_num_workers :: nat

text \<open>
  The transforms, with the arguments they are constructed with:
  \<^item> \<open>TemplateCaptionTransform field_name placeholder_str caption_templates\<close>
  \<^item> \<open>CaptionPrefixTransform caption_field_name prefix\<close>
  \<^item> \<open>ShuffleCaptionTransform field_name delimiter\<close>
  \<^item> \<open>SDImageTransform resolution aspect_ratio_bucket_manager center_crop random_flip\<close>
  \<^item> \<open>LoadCacheTransform cache_dir cache_key_field cache_field_to_output_field\<close>, the
    cache being the \<^verbatim>\<open>TensorDiskCache\<close> of the directory
  \<^item> \<open>DropFieldTransform field\<close>
\<close>

datatype transform =
    TemplateCaptionTransform string string "string list"
  | CaptionPrefixTransform string string
  | ShuffleCaptionTransform string string
  | SDImageTransform "nat option" "bucket_manager option" bool bool
  | LoadCacheTransform string string "(string \<times> string) list"
  | DropFieldTransform string

datatype transform_dataset = TransformDataset base_dataset "transform list"

fun all_transforms :: "transform_dataset \<Rightarrow> transform list" where
  "all_transforms (TransformDataset base ts) = ts"

text \<open>
  The arguments of a call of torch's \<^verbatim>\<open>DataLoader\<close>; the collate function is always
  \<^verbatim>\<open>sd_image_caption_collate_fn\<close>. \<open>shuffle\<close> and \<open>batch_size\<close> are \<open>None\<close> when a batch
  sampler is given. A loader that has been constructed is the record of its
  arguments.
\<close>

record torch_data_loader =
  loader_dataset :: transform_dataset
  shuffle :: "bool option"
  batch_sampler :: "bucket_batch_sampler option"
  batch_size :: "nat option"
  num_workers :: nat
  persistent_workers :: bool

text \<open>
  The constructor of \<^verbatim>\<open>DataLoader\<close> belongs to torch, which validates its arguments
  and may raise. The validation is a parameter: it gives the exception raised for
  the arguments, or \<open>None\<close> when it accepts them.
\<close>

type_synonym data_loader_init = "torch_data_loader \<Rightarrow> error option"

definition DataLoader :: "data_loader_init \<Rightarrow> torch_data_loader \<Rightarrow> error + torch_data_loader" where
  "DataLoader init args = (case init args of Some e \<Rightarrow> Inl e | None \<Rightarrow> Inr args)"

text \<open>\<^verbatim>\<open>get_preset_ti_caption_templates\<close>, lines 35-89.\<close>

definition get_preset_ti_caption_templates :: "string \<Rightarrow> error + string list" where
  "get_preset_ti_caption_templates preset =
     (if preset = ''object'' then
        Inr
          [''a photo of a {}'',
           ''a rendering of a {}'',
           ''a cropped photo of the {}'',
           ''the photo of a {}'',
           ''a photo of a clean {}'',
           ''a photo of a dirty {}'',
           ''a dark photo of the {}'',
           ''a photo of my {}'',
           ''a photo of the cool {}'',
           ''a close-up photo of a {}'',
           ''a bright photo of the {}'',
           ''a cropped photo of a {}'',
           ''a photo of the {}'',
           ''a good photo of the {}'',
           ''a photo of one {}'',
           ''a close-up photo of the {}'',
           ''a rendition of the {}'',
           ''a photo of the clean {}'',
           ''a rendition of a {}'',
           ''a photo of a nice {}'',
           ''a good photo of a {}'',
           ''a photo of the nice {}'',
           ''a photo of the small {}'',
           ''a photo of the weird {}'',
           ''a photo of the large {}'',
           ''a photo of a cool {}'',
           ''a photo of a small {}'']
      else if preset = ''style'' then
        Inr
          [''a painting in the style of {}'',
           ''a rendering in the style of {}'',
           ''a cropped painting in the style of {}'',
           ''the painting in the style of {}'',
           ''a clean painting in the style of {}'',
           ''a dirty painting in the style of {}'',
           ''a dark painting in the style of {}'',
           ''a picture in the style of {}'',
           ''a cool painting in the style of {}'',
           ''a close-up painting in the style of {}'',
           ''a bright painting in the style of {}'',
           ''a cropped painting in the style of {}'',
           ''a good painting in the style of {}'',
           ''a close-up painting in the style of {}'',
           ''a rendition in the style of {}'',
           ''a nice painting in the style of {}'',
           ''a small painting in the style of {}'',
           ''a weird painting in the style of {}'',
           ''a large painting in the style of {}'']
      else Inl (ValueError (''Unrecognized learnable property type: '' @ quoted preset @ ''.'')))"

text \<open>Lines 111-120.\<close>

definition build_base_dataset :: "dataset_config \<Rightarrow> error + base_dataset" where
  "build_base_dataset dc =
     (case dc of
        HFHubImageCaptionDatasetConfig \<Rightarrow> Inr HFHubImageCaptionDataset
      | HFDirImageCaptionDatasetConfig \<Rightarrow> Inr HFDirImageCaptionDataset
      | ImageDirDatasetConfig dataset_dir keep_in_memory \<Rightarrow>
          Inr (ImageDirDataset dataset_dir keep_in_memory)
      | OtherDatasetConfig type_name \<Rightarrow>
          Inl (ValueError (''Unexpected dataset config type: '' @ quoted type_name @ ''.'')))"

definition exactly_one_caption_source_message :: string where
  "exactly_one_caption_source_message =
     ''Exactly one of caption_templates, caption_preset, or apply_caption_prefix must be set.''"

text \<open>Lines 125-144.\<close>

definition build_caption_tf ::
  "textual_inversion_sd_data_loader_config \<Rightarrow> string \<Rightarrow> error + transform" where
  "build_caption_tf config placeholder_token =
     (case caption_templates config of
        Some templates \<Rightarrow> Inr (TemplateCaptionTransform ''caption'' placeholder_token templates)
      | None \<Rightarrow>
          (case caption_preset config of
             Some preset \<Rightarrow>
               (case get_preset_ti_caption_templates preset of
                  Inl e \<Rightarrow> Inl e
                | Inr templates \<Rightarrow>
                    Inr (TemplateCaptionTransform ''caption'' placeholder_token templates))
           | None \<Rightarrow>
               if apply_caption_prefix config
               then Inr (CaptionPrefixTransform ''caption'' (placeholder_token @ '' ''))
               else Inl (ValueError exactly_one_caption_source_message)))"

text \<open>Lines 168-191: the image part of the transform chain.\<close>

definition image_transforms ::
  "textual_inversion_sd_data_loader_config \<Rightarrow> nat option \<Rightarrow> bucket_manager option
     \<Rightarrow> string option \<Rightarrow> transform list" where
  "image_transforms config target_resolution aspect_ratio_bucket_manager vae_output_cache_dir =
     (case vae_output_cache_dir of
        None \<Rightarrow>
          [SDImageTransform target_resolution aspect_ratio_bucket_manager
             (center_crop config) (random_flip config)]
      | Some dir \<Rightarrow>
          [LoadCacheTransform dir ''id''
             [(''vae_output'', ''vae_output''),
              (''original_size_hw'', ''original_size_hw''),
              (''crop_top_left_yx'', ''crop_top_left_yx'')],
           DropFieldTransform ''image''])"

text \<open>Lines 163-166: the caption part of the transform chain.\<close>

definition caption_transforms ::
  "textual_inversion_sd_data_loader_config \<Rightarrow> transform \<Rightarrow> transform list" where
  "caption_transforms config caption_tf =
     [caption_tf]
     @ (case shuffle_caption_delimiter config of
          None \<Rightarrow> []
        | Some delimiter \<Rightarrow> [ShuffleCaptionTransform ''caption'' delimiter])"

text \<open>\<^verbatim>\<open>build_textual_inversion_sd_dataloader\<close>, lines 92-211.\<close>

definition build_textual_inversion_sd_dataloader ::
  "data_loader_init \<Rightarrow> textual_inversion_sd_data_loader_config \<Rightarrow> string \<Rightarrow> nat
     \<Rightarrow> string option \<Rightarrow> bool \<Rightarrow> error + torch_data_loader" where
  "build_textual_inversion_sd_dataloader init config placeholder_token batch_sz
       vae_output_cache_dir shuffle_arg =
     (case build_base_dataset (dataset config) of
        Inl e \<Rightarrow> Inl e
      | Inr base \<Rightarrow>
     if count_set [caption_templates config \<noteq> None, caption_preset config \<noteq> None,
                   apply_caption_prefix config] \<noteq> 1
     then Inl (ValueError exactly_one_caption_source_message)
     else
     (case build_caption_tf config placeholder_token of
        Inl e \<Rightarrow> Inl e
      | Inr caption_tf \<Rightarrow>
     let target_resolution =
           (case aspect_ratio_buckets config of
              None \<Rightarrow> Some (resolution config) | Some b \<Rightarrow> None);
         aspect_ratio_bucket_manager =
           (case aspect_ratio_buckets config of
              None \<Rightarrow> None | Some b \<Rightarrow> Some (AspectRatioBucketManager b));
         sampler =
           (case aspect_ratio_bucket_manager of
              None \<Rightarrow> None
            | Some mgr \<Rightarrow> Some (AspectRatioBucketBatchSampler mgr base batch_sz shuffle_arg 0));
         transforms =
           caption_transforms config caption_tf
           @ image_transforms config target_resolution aspect_ratio_bucket_manager
               vae_output_cache_dir;
         ds = TransformDataset base transforms
     in
     (case sampler of
        None \<Rightarrow>
          DataLoader init
            \<lparr> loader_dataset = ds, shuffle = Some shuffle_arg, batch_sampler = None,
              batch_size = Some batch_sz,
              num_workers = dataloader_num_workers config,
              persistent_workers = (dataloader_num_workers config > 0) \<rparr>
      | Some bs \<Rightarrow>
          DataLoader init
            \<lparr> loader_dataset = ds, shuffle = None, batch_sampler = Some bs,
              batch_size = None,
              num_workers = dataloader_num_workers config,
              persistent_workers = (dataloader_num_workers config > 0) \<rparr>)))"

text \<open>
  Modelled from the spec: \<^verbatim>\<open>TransformDataset\<close> and \<^verbatim>\<open>DropFieldTransform\<close> are not among
  the sources. The dataset applies its transforms in order to each sample of the base
  dataset, and the drop transform removes the named field from the sample; a sample
  is a dict from field names to values. What the other transforms do to a sample is a
  parameter.
\<close>

definition apply_transform ::
  "(transform \<Rightarrow> (string \<rightharpoonup> 'v) \<Rightarrow> error + (string \<rightharpoonup> 'v)) \<Rightarrow> transform
     \<Rightarrow> (string \<rightharpoonup> 'v) \<Rightarrow> error + (string \<rightharpoonup> 'v)" where
  "apply_transform other t smp =
     (case t of
        DropFieldTransform field \<Rightarrow> Inr (smp(field := None))
      | _ \<Rightarrow> other t smp)"

fun apply_transforms ::
  "(transform \<Rightarrow> (string \<rightharpoonup> 'v) \<Rightarrow> error + (string \<rightharpoonup> 'v)) \<Rightarrow> transform list
     \<Rightarrow> (string \<rightharpoonup> 'v) \<Rightarrow> error + (string \<rightharpoonup> 'v)" where
  "apply_transforms other [] smp = Inr smp"
| "apply_transforms other (t # ts) smp =
     (case apply_transform other t smp of
        Inl e \<Rightarrow> Inl e
      | Inr smp1 \<Rightarrow> apply_transforms other ts smp1)"

text \<open>
  Concrete configs: a directory of images with one caption template and shuffled
  captions, and variants of it.
\<close>

definition demo_ti_config :: textual_inversion_sd_data_loader_config where
  "demo_ti_config =
     \<lparr> dataset = ImageDirDatasetConfig ''images'' False,
       caption_templates = Some [''a photo of {}''],
       caption_preset = None, apply_caption_prefix = False,
       aspect_ratio_buckets = None, resolution = 512,
       shuffle_caption_delimiter = Some '','',
       center_crop = True, random_flip = False, dataloader_num_workers = 0 \<rparr>"

definition demo_ti_preset_config :: textual_inversion_sd_data_loader_config where
  "demo_ti_preset_config =
     demo_ti_config\<lparr>caption_templates := None, caption_preset := Some ''style''\<rparr>"

definition demo_ti_prefix_config :: textual_inversion_sd_data_loader_config where
  "demo_ti_prefix_config =
     demo_ti_config\<lparr>caption_templates := None, apply_caption_prefix := True\<rparr>"

definition demo_ti_no_source_config :: textual_inversion_sd_data_loader_config where
  "demo_ti_no_source_config = demo_ti_config\<lparr>caption_templates := None\<rparr>"

definition demo_ti_two_sources_config :: textual_inversion_sd_data_loader_config where
  "demo_ti_two_sources_config = demo_ti_config\<lparr>apply_caption_prefix := True\<rparr>"

text \<open>
  A validation of the arguments of \<^verbatim>\<open>DataLoader\<close> that refuses a batch size of 0 and
  accepts everything else, and one that accepts everything.
\<close>

definition positive_batch_size_init :: data_loader_init where
  "positive_batch_size_init args =
     (if batch_size args = Some 0
      then Some (ValueError
                   ''batch_size should be a positive integer value, but got batch_size=0'')
      else None)"

definition accepting_init :: data_loader_init where
  "accepting_init args = None"

text \<open>
  The loaders built from \<open>demo_ti_config\<close> for the placeholder token \<^verbatim>\<open><sks>\<close> with batch
  size 4 and shuffling: with the VAE output cache directory \<^verbatim>\<open>vae_cache\<close>, and without
  a cache directory.
\<close>

definition demo_cached_loader :: torch_data_loader where
  "demo_cached_loader =
     \<lparr> loader_dataset =
         TransformDataset (ImageDirDataset ''images'' False)
           [TemplateCaptionTransform ''caption'' ''<sks>'' [''a photo of {}''],
            ShuffleCaptionTransform ''caption'' '','',
            LoadCacheTransform ''vae_cache'' ''id''
              [(''vae_output'', ''vae_output''),
               (''original_size_hw'', ''original_size_hw''),
               (''crop_top_left_yx'', ''crop_top_left_yx'')],
            DropFieldTransform ''image''],
       shuffle = Some True, batch_sampler = None, batch_size = Some 4,
       num_workers = 0, persistent_workers = False \<rparr>"

definition demo_plain_loader :: torch_data_loader where
  "demo_plain_loader =
     \<lparr> loader_dataset =
         TransformDataset (ImageDirDataset ''images'' False)
           [TemplateCaptionTransform ''caption'' ''<sks>'' [''a photo of {}''],
            ShuffleCaptionTransform ''caption'' '','',
            SDImageTransform (Some 512) None True False],
       shuffle = Some True, batch_sampler = None, batch_size = Some 4,
       num_workers = 0, persistent_workers = False \<rparr>"


section \<open>Properties of the forward pass\<close>

subsection \<open>Unfolding the stages\<close>

lemma sample_inputs_eq:
  "sample_inputs m b sched g =
     (case get_latents m b g of
        Inl e \<Rightarrow> (Inl e, g)
      | Inr (lat, g1) \<Rightarrow>
          if num_train_timesteps sched = 0
          then (Inl RuntimeError, g1 + numel (shape lat))
          else
            (case get_encoder_hidden_states m b of
               Inl e \<Rightarrow> (Inl e, g1 + numel (shape lat) + fst (shape lat))
             | Inr ehs \<Rightarrow>
                 (Inr \<lparr> latents = lat, noise = randn_like m g1 lat,
                        timesteps =
                          map (randint_values m (g1 + numel (shape lat))
                                 (num_train_timesteps sched))
                            [0..<fst (shape lat)],
                        noisy_latents =
                          add_noise m sched lat (randn_like m g1 lat)
                            (map (randint_values m (g1 + numel (shape lat))
                                    (num_train_timesteps sched))
                               [0..<fst (shape lat)]),
                        encoder_hidden_states = ehs \<rparr>,
                  g1 + numel (shape lat) + fst (shape lat))))"
  by (simp add: sample_inputs_def randint_def Let_def split: sum.splits prod.splits)

lemma get_latents_eq:
  "get_latents m b g = Inr (lat, g1) \<longleftrightarrow>
     (vae_output b = Some lat \<and> g1 = g) \<or>
     (vae_output b = None \<and>
      (\<exists>img. image_tensor b = Some img \<and>
             lat = scale (scaling_factor m) (vae_encode_sample m g img) \<and>
             g1 = g + numel (shape (vae_encode_sample m g img))))"
  by (auto simp: get_latents_def Let_def split: option.splits)

lemma get_latents_Inl:
  "get_latents m b g = Inl e \<longleftrightarrow>
     vae_output b = None \<and> image_tensor b = None \<and> e = KeyError ''image''"
  by (auto simp: get_latents_def Let_def split: option.splits)

lemma get_encoder_hidden_states_Inl:
  "get_encoder_hidden_states m b = Inl e \<longleftrightarrow>
     text_encoder_output b = None \<and> caption b = None \<and> e = KeyError ''caption''"
  by (auto simp: get_encoder_hidden_states_def split: option.splits)

lemma sample_inputs_InrD:
  assumes "fst (sample_inputs m b sched g) = Inr I"
  shows "\<exists>g1. get_latents m b g = Inr (latents I, g1) \<and>
              noise I = randn_like m g1 (latents I) \<and>
              shape (noise I) = shape (latents I) \<and>
              length (timesteps I) = fst (shape (latents I)) \<and>
              noisy_latents I = add_noise m sched (latents I) (noise I) (timesteps I) \<and>
              get_encoder_hidden_states m b = Inr (encoder_hidden_states I) \<and>
              0 < num_train_timesteps sched \<and>
              snd (sample_inputs m b sched g)
                = g1 + numel (shape (latents I)) + fst (shape (latents I))"
  using assms
  by (auto simp: sample_inputs_eq randn_like_def split: sum.splits prod.splits if_splits)

lemma sample_inputs_returns:
  "(\<exists>I. fst (sample_inputs m b sched g) = Inr I) \<longleftrightarrow>
     (vae_output b \<noteq> None \<or> image_tensor b \<noteq> None) \<and>
     0 < num_train_timesteps sched \<and>
     (text_encoder_output b \<noteq> None \<or> caption b \<noteq> None)"
proof -
  have l: "(\<exists>x. get_latents m b g = Inr x) \<longleftrightarrow> (vae_output b \<noteq> None \<or> image_tensor b \<noteq> None)"
    by (auto simp: get_latents_def Let_def split: option.splits)
  have e: "(\<exists>x. get_encoder_hidden_states m b = Inr x) \<longleftrightarrow>
             (text_encoder_output b \<noteq> None \<or> caption b \<noteq> None)"
    by (auto simp: get_encoder_hidden_states_def split: option.splits)
  show ?thesis
    unfolding l[symmetric] e[symmetric]
    by (cases "get_latents m b g"; cases "get_encoder_hidden_states m b")
       (auto simp: sample_inputs_eq split: prod.splits)
qed

lemma forward_pass_InrD:
  assumes "fst (forward_pass m cfg b sched g gamma) = Inr L"
  shows "fst (sample_inputs m b sched g) = Inr (inputs L)"
    and "select_target m (register_to_config cfg sched) (latents (inputs L))
           (noise (inputs L)) (timesteps (inputs L)) = Inr (target L)"
    and "model_pred L = unet m (noisy_latents (inputs L)) (timesteps (inputs L))
                          (encoder_hidden_states (inputs L))"
    and "compute_min_snr_weights m (register_to_config cfg sched) (timesteps (inputs L)) gamma
           = Inr (min_snr_weights L)"
    and "compute_loss (model_pred L) (target L) (min_snr_weights L) (loss_weight b)
           = Inr (losses L)"
  using assms
  by (auto simp: forward_pass_def Let_def split: sum.splits prod.splits)

lemma forward_pass_InrI:
  assumes "fst (sample_inputs m b sched g) = Inr I"
    and "select_target m (register_to_config cfg sched) (latents I) (noise I) (timesteps I)
           = Inr tgt"
    and "compute_min_snr_weights m (register_to_config cfg sched) (timesteps I) gamma = Inr w"
    and "compute_loss (unet m (noisy_latents I) (timesteps I) (encoder_hidden_states I))
           tgt w (loss_weight b) = Inr R"
  shows "fst (forward_pass m cfg b sched g gamma)
           = Inr \<lparr> inputs = I, target = tgt,
                   model_pred = unet m (noisy_latents I) (timesteps I) (encoder_hidden_states I),
                   min_snr_weights = w, losses = R \<rparr>"
  using assms
  by (auto simp: forward_pass_def Let_def split: sum.splits prod.splits)

lemma forward_pass_unknown_type:
  assumes "fst (sample_inputs m b sched g) = Inr I"
    and "prediction_type (register_to_config cfg sched) \<noteq> ''epsilon''"
    and "prediction_type (register_to_config cfg sched) \<noteq> ''v_prediction''"
  shows "fst (forward_pass m cfg b sched g gamma)
           = Inl (ValueError (''Unknown prediction type ''
                                @ prediction_type (register_to_config cfg sched)))"
  using assms
  by (auto simp: forward_pass_def select_target_def Let_def split: sum.splits prod.splits)

lemma forward_pass_snd:
  "snd (forward_pass m cfg b sched g gamma) =
     \<lparr> the_config = cfg, the_batch = b, the_models = m,
       noise_scheduler =
         (case fst (sample_inputs m b sched g) of
            Inl e \<Rightarrow> sched
          | Inr I \<Rightarrow> register_to_config cfg sched),
       generator = snd (sample_inputs m b sched g) \<rparr>"
  by (auto simp: forward_pass_def Let_def split: sum.splits prod.splits)

lemma train_forward_fst:
  "fst (train_forward m cfg b sched g gamma) =
     (case fst (forward_pass m cfg b sched g gamma) of
        Inl e \<Rightarrow> Inl e
      | Inr L \<Rightarrow> Inr (loss (losses L)))"
  by (auto simp: train_forward_def split: sum.splits prod.splits)

lemma train_forward_snd:
  "snd (train_forward m cfg b sched g gamma) = snd (forward_pass m cfg b sched g gamma)"
  by (auto simp: train_forward_def split: sum.splits prod.splits)

lemma compute_min_snr_weights_ok:
  assumes "prediction_type s = ''epsilon'' \<or> prediction_type s = ''v_prediction''"
  shows "\<exists>w. compute_min_snr_weights m s ts gamma = Inr w"
  using assms by (auto simp: compute_min_snr_weights_def Let_def split: option.splits)

lemma select_target_InrD:
  assumes "select_target m s lat nse ts = Inr tgt"
  shows "prediction_type s = ''epsilon'' \<or> prediction_type s = ''v_prediction''"
  using assms by (auto simp: select_target_def split: if_splits)

lemma compute_loss_Inl:
  assumes "compute_loss pred tgt w lw = Inl e"
  shows "e = RuntimeError"
  using assms
  by (auto simp: compute_loss_def mse_loss_def apply_weights_def mul_1d_def Let_def
           split: sum.splits option.splits)

subsection \<open>Sums and means\<close>

lemma sum_below_sum: "sum_below n f = (\<Sum>i<n. f i)"
  by (simp add: sum_below_def interv_sum_list_conv_sum_set_nat atLeast0LessThan)

lemma foldr_fadd_Finite:
  "foldr fadd (map Finite xs) (Finite 0) = Finite (sum_list xs)"
  by (induction xs) simp_all

lemma fmean_Finite:
  "fmean (map Finite xs) = (if xs = [] then NaN else Finite (sum_list xs / real (length xs)))"
  by (simp add: fmean_def foldr_fadd_Finite)

lemma mean_non_batch_mse:
  assumes "mse_loss pred tgt = Inr sq"
  shows "\<exists>n c h w.
           broadcast_shape (shape pred) (shape tgt) = Some (n, c, h, w) \<and>
           mean_non_batch sq =
             map (\<lambda>i. fdiv (Finite (\<Sum>j<c. \<Sum>k<h. \<Sum>l<w.
                                      (expanded pred i j k l - expanded tgt i j k l)\<^sup>2))
                            (Finite (real (c * h * w))))
                 [0..<n]"
  using assms
  by (auto simp: mse_loss_def mean_non_batch_def sum_below_sum split: option.splits)

lemma broadcast_dim_same: "broadcast_dim n n = Some n"
  by (simp add: broadcast_dim_def)

lemma broadcast_dim_one: "broadcast_dim n 1 = Some n" "broadcast_dim n (Suc 0) = Some n"
  by (simp_all add: broadcast_dim_def)

lemma broadcast_shape_same: "broadcast_shape s s = Some s"
  by (cases s) (simp add: broadcast_dim_same)

lemma expanded_in_range:
  assumes "shape t = (n, c, h, w)" and "i < n" and "j < c" and "k < h" and "l < w"
  shows "expanded t i j k l = elem t i j k l"
  using assms by (auto simp: expanded_def bidx_def)

lemma pick_in_range: "i < length xs \<Longrightarrow> pick xs i = xs ! i"
  by (auto simp: pick_def bidx_def)

lemma mul_1d_same:
  assumes "length b = length a"
  shows "mul_1d a b = Inr (map (\<lambda>i. fmul (a ! i) (b ! i)) [0..<length a])"
  using assms by (simp add: mul_1d_def broadcast_dim_same pick_in_range)

lemma mul_1d_one:
  assumes "length b = 1"
  shows "mul_1d a b = Inr (map (\<lambda>x. fmul x (b ! 0)) a)"
proof -
  have "map (\<lambda>i. fmul (pick a i) (pick b i)) [0..<length a]
          = map (\<lambda>i. fmul (a ! i) (b ! 0)) [0..<length a]"
    using assms by (auto simp: pick_def bidx_def)
  also have "\<dots> = map (\<lambda>x. fmul x (b ! 0)) (map ((!) a) [0..<length a])"
    by simp
  also have "\<dots> = map (\<lambda>x. fmul x (b ! 0)) a"
    by (simp only: map_nth)
  finally show ?thesis using assms by (simp add: mul_1d_def broadcast_dim_one)
qed

lemma mul_1d_length:
  assumes "mul_1d a b = Inr r"
  shows "broadcast_dim (length a) (length b) = Some (length r)"
  using assms by (auto simp: mul_1d_def split: option.splits)

lemma mul_1d_returns:
  assumes "length b = length a \<or> length b = 1"
  shows "\<exists>r. mul_1d a b = Inr r \<and> length r = length a"
  using assms by (auto simp: mul_1d_def broadcast_dim_def)

lemma apply_weights_returns:
  assumes "\<forall>ws. w = Some ws \<longrightarrow> length ws = length a \<or> length ws = 1"
  shows "\<exists>r. apply_weights a w = Inr r \<and> length r = length a"
  using assms mul_1d_returns[of _ a] by (cases w) (auto simp: apply_weights_def)

lemma mean_non_batch_length:
  "shape t = (n, c, h, w) \<Longrightarrow> length (mean_non_batch t) = n"
  by (simp add: mean_non_batch_def)

lemma compute_loss_returns:
  assumes "broadcast_shape (shape pred) (shape tgt) = Some (n, c, h, wd)"
    and "\<forall>ws. w = Some ws \<longrightarrow> length ws = n \<or> length ws = 1"
    and "\<forall>ws. lw = Some ws \<longrightarrow> length ws = n \<or> length ws = 1"
  shows "\<exists>R. compute_loss pred tgt w lw = Inr R \<and> length (weighted_loss R) = n"
proof -
  let ?sq = "\<lparr> shape = (n, c, h, wd),
               elem = (\<lambda>i j k l. (expanded pred i j k l - expanded tgt i j k l)\<^sup>2) \<rparr>"
  have sq: "mse_loss pred tgt = Inr ?sq"
    using assms(1) by (simp add: mse_loss_def)
  have len: "length (mean_non_batch ?sq) = n"
    by (simp add: mean_non_batch_length)
  from apply_weights_returns[of w "mean_non_batch ?sq"] assms(2) len
  obtain l1 where l1: "apply_weights (mean_non_batch ?sq) w = Inr l1" "length l1 = n"
    by auto
  have "\<forall>ws. map_option (map Finite) lw = Some ws \<longrightarrow> length ws = length l1 \<or> length ws = 1"
    using assms(3) l1(2) by auto
  from apply_weights_returns[OF this]
  obtain l2 where l2: "apply_weights l1 (map_option (map Finite) lw) = Inr l2" "length l2 = n"
    using l1(2) by auto
  from sq l1 l2 show ?thesis
    by (simp add: compute_loss_def Let_def)
qed

lemma compute_loss_InrD:
  assumes "compute_loss pred tgt w lw = Inr R"
  shows "\<exists>sq. mse_loss pred tgt = Inr sq \<and> per_example_loss R = mean_non_batch sq"
    and "apply_weights (per_example_loss R) w = Inr (snr_weighted_loss R)"
    and "apply_weights (snr_weighted_loss R) (map_option (map Finite) lw)
           = Inr (weighted_loss R)"
    and "loss R = fmean (weighted_loss R)"
  using assms by (auto simp: compute_loss_def Let_def split: sum.splits)

lemma compute_loss_no_broadcast:
  assumes "broadcast_shape (shape pred) (shape tgt) = None"
  shows "compute_loss pred tgt w lw = Inl RuntimeError"
  using assms by (simp add: compute_loss_def mse_loss_def)

lemma compute_min_snr_weights_length:
  assumes "compute_min_snr_weights m s ts gamma = Inr (Some ws)"
  shows "length ws = length (compute_snr m s ts) \<and> gamma \<noteq> None"
  using assms
  by (auto simp: compute_min_snr_weights_def Let_def split: option.splits if_splits)

lemma forward_pass_returns:
  assumes I: "fst (sample_inputs m b sched g) = Inr I"
    and tgt: "select_target m (register_to_config cfg sched) (latents I) (noise I) (timesteps I)
           = Inr tgt"
    and shp: "broadcast_shape
            (shape (unet m (noisy_latents I) (timesteps I) (encoder_hidden_states I)))
            (shape tgt) = Some (n, c, h, wd)"
    and snr: "gamma \<noteq> None \<longrightarrow>
            length (compute_snr m (register_to_config cfg sched) (timesteps I)) = n
            \<or> length (compute_snr m (register_to_config cfg sched) (timesteps I)) = 1"
    and lw: "\<forall>ws. loss_weight b = Some ws \<longrightarrow> length ws = n \<or> length ws = 1"
  shows "\<exists>L. fst (forward_pass m cfg b sched g gamma) = Inr L \<and> inputs L = I \<and> target L = tgt
             \<and> length (weighted_loss (losses L)) = n"
proof -
  from compute_min_snr_weights_ok[OF select_target_InrD[OF tgt]] obtain w where
    w: "compute_min_snr_weights m (register_to_config cfg sched) (timesteps I) gamma = Inr w"
    by blast
  have "\<forall>ws. w = Some ws \<longrightarrow> length ws = n \<or> length ws = 1"
    using compute_min_snr_weights_length w snr by metis
  from compute_loss_returns[OF shp this lw] obtain R where
    R: "compute_loss (unet m (noisy_latents I) (timesteps I) (encoder_hidden_states I))
          tgt w (loss_weight b) = Inr R" "length (weighted_loss R) = n"
    by blast
  from forward_pass_InrI[OF I tgt w R(1)] R(2) show ?thesis by simp
qed

subsection \<open>The forward pass on concrete inputs\<close>

lemmas forward_defs = train_forward_def forward_pass_def sample_inputs_def get_latents_def
  randn_like_def randint_def get_encoder_hidden_states_def register_to_config_def
  select_target_def compute_min_snr_weights_def min_snr_weight_def compute_loss_def
  mse_loss_def mean_non_batch_def expanded_def apply_weights_def mul_1d_def broadcast_dim_def
  bidx_def pick_def fmean_def sum_below_def scale_def inf_times_def Let_def

lemmas demo_forward_defs = demo_models_def demo_batch_def demo_config_def demo_scheduler_def
  rows_tensor_def one_weight_batch_def empty_batch_def image_batch_def no_image_batch_def
  zero_snr_models_def

lemma demo_sample_inputs:
  "sample_inputs demo_models demo_batch demo_scheduler 0 =
     (Inr \<lparr> latents = rows_tensor [[1, 3], [2, 0]],
            noise = \<lparr> shape = (2, 1, 1, 2), elem = (\<lambda>i j k l. 1) \<rparr>,
            timesteps = [0, 1],
            noisy_latents =
              \<lparr> shape = (2, 1, 1, 2), elem = (\<lambda>i j k l. [[1, 3], [2, 0]] ! i ! l + 1) \<rparr>,
            encoder_hidden_states = [[[0]]] \<rparr>, 6)"
  by (simp add: sample_inputs_eq get_latents_def get_encoder_hidden_states_def randn_like_def
        demo_forward_defs upt_rec)

lemma demo_register:
  "register_to_config (demo_config None) demo_scheduler = demo_scheduler"
  "register_to_config (demo_config (Some p)) demo_scheduler
     = demo_scheduler\<lparr>prediction_type := p\<rparr>"
  by (simp_all add: register_to_config_def demo_config_def)

lemma demo_unet_shape:
  "shape (unet demo_models
            \<lparr> shape = (2, 1, 1, 2), elem = x \<rparr> ts c) = (2, 1, 1, 2)"
  by (simp add: demo_models_def)

lemma zero_snr_sample_inputs:
  "sample_inputs zero_snr_models demo_batch demo_scheduler 0 =
     (Inr \<lparr> latents = rows_tensor [[1, 3], [2, 0]],
            noise = \<lparr> shape = (2, 1, 1, 2), elem = (\<lambda>i j k l. 1) \<rparr>,
            timesteps = [0, 1],
            noisy_latents =
              \<lparr> shape = (2, 1, 1, 2), elem = (\<lambda>i j k l. [[1, 3], [2, 0]] ! i ! l + 1) \<rparr>,
            encoder_hidden_states = [[[0]]] \<rparr>, 6)"
  by (simp add: sample_inputs_eq get_latents_def get_encoder_hidden_states_def randn_like_def
        demo_forward_defs upt_rec)

lemma demo_select_target:
  "select_target m demo_scheduler lat nse ts = Inr nse"
  "select_target m (demo_scheduler\<lparr>prediction_type := ''v_prediction''\<rparr>) lat nse ts
     = Inr (get_velocity m (demo_scheduler\<lparr>prediction_type := ''v_prediction''\<rparr>) lat nse ts)"
  by (simp_all add: select_target_def demo_scheduler_def)

subsection \<open>The regression target\<close>

text \<open>
  Claim C1. The selection of the target (lines 211-216) returns the sampled noise
  itself for the prediction type \<^verbatim>\<open>epsilon\<close>, the scheduler's velocity of (latents,
  noise, timesteps) for \<^verbatim>\<open>v_prediction\<close>, and raises
  \<^verbatim>\<open>ValueError("Unknown prediction type ...")\<close> for any other value. In
  \<^verbatim>\<open>train_forward\<close> the prediction type is the one of the scheduler after the training
  config's \<^verbatim>\<open>prediction_type\<close>, if any, has been registered. Whenever a loss is
  returned, the inputs are those sampled from the batch, the noise is the one drawn
  for the latents, the target is the one selected for them, and the prediction type
  is one of the two. Once the inputs have been sampled, any other prediction type
  makes the call raise the \<^verbatim>\<open>ValueError\<close>; with one of the two types the call returns
  with the selected target unless the loss computation raises a \<^verbatim>\<open>RuntimeError\<close>, and
  it does return when the shapes of prediction and target can be broadcast and the
  weights have one entry for each example or a single entry. The inputs are sampled
  exactly when the batch supplies latents or an image, and a text encoder output or a
  caption, and the scheduler has at least one timestep.
\<close>

theorem train_forward_target:
  "(prediction_type s = ''epsilon'' \<longrightarrow> select_target m s lat nse ts = Inr nse)
   \<and> (prediction_type s = ''v_prediction'' \<longrightarrow>
        select_target m s lat nse ts = Inr (get_velocity m s lat nse ts))
   \<and> (prediction_type s \<noteq> ''epsilon'' \<and> prediction_type s \<noteq> ''v_prediction'' \<longrightarrow>
        select_target m s lat nse ts
          = Inl (ValueError (''Unknown prediction type '' @ prediction_type s)))
   \<and> (fst (forward_pass m cfg b sched g gamma) = Inr L \<longrightarrow>
        fst (sample_inputs m b sched g) = Inr (inputs L)
        \<and> (\<exists>g1. get_latents m b g = Inr (latents (inputs L), g1)
                 \<and> noise (inputs L) = randn_like m g1 (latents (inputs L)))
        \<and> select_target m (register_to_config cfg sched) (latents (inputs L))
              (noise (inputs L)) (timesteps (inputs L)) = Inr (target L)
        \<and> (prediction_type (register_to_config cfg sched) = ''epsilon''
              \<longrightarrow> target L = noise (inputs L))
        \<and> (prediction_type (register_to_config cfg sched) = ''v_prediction''
              \<longrightarrow> target L = get_velocity m (register_to_config cfg sched)
                                (latents (inputs L)) (noise (inputs L)) (timesteps (inputs L)))
        \<and> (prediction_type (register_to_config cfg sched) = ''epsilon''
             \<or> prediction_type (register_to_config cfg sched) = ''v_prediction''))
   \<and> (fst (sample_inputs m b sched g) = Inr I
       \<and> prediction_type (register_to_config cfg sched) \<noteq> ''epsilon''
       \<and> prediction_type (register_to_config cfg sched) \<noteq> ''v_prediction'' \<longrightarrow>
        fst (train_forward m cfg b sched g gamma)
          = Inl (ValueError (''Unknown prediction type ''
                               @ prediction_type (register_to_config cfg sched))))
   \<and> (fst (sample_inputs m b sched g) = Inr I
       \<and> select_target m (register_to_config cfg sched) (latents I) (noise I) (timesteps I)
           = Inr tgt \<longrightarrow>
        (\<exists>L. fst (forward_pass m cfg b sched g gamma) = Inr L \<and> inputs L = I \<and> target L = tgt)
        \<or> fst (train_forward m cfg b sched g gamma) = Inl RuntimeError)
   \<and> (fst (sample_inputs m b sched g) = Inr I
       \<and> select_target m (register_to_config cfg sched) (latents I) (noise I) (timesteps I)
           = Inr tgt
       \<and> broadcast_shape
            (shape (unet m (noisy_latents I) (timesteps I) (encoder_hidden_states I)))
            (shape tgt) = Some (n, c, h, wd)
       \<and> (gamma \<noteq> None \<longrightarrow>
            length (compute_snr m (register_to_config cfg sched) (timesteps I)) = n
            \<or> length (compute_snr m (register_to_config cfg sched) (timesteps I)) = 1)
       \<and> (\<forall>ws. loss_weight b = Some ws \<longrightarrow> length ws = n \<or> length ws = 1) \<longrightarrow>
        (\<exists>L. fst (forward_pass m cfg b sched g gamma) = Inr L \<and> inputs L = I \<and> target L = tgt))
   \<and> ((\<exists>I. fst (sample_inputs m b sched g) = Inr I) \<longleftrightarrow>
        (vae_output b \<noteq> None \<or> image_tensor b \<noteq> None)
        \<and> 0 < num_train_timesteps sched
        \<and> (text_encoder_output b \<noteq> None \<or> caption b \<noteq> None))"
proof (intro conjI impI)
  show "select_target m s lat nse ts = Inr nse" if "prediction_type s = ''epsilon''"
    using that by (simp add: select_target_def)
  show "select_target m s lat nse ts = Inr (get_velocity m s lat nse ts)"
    if "prediction_type s = ''v_prediction''"
    using that by (simp add: select_target_def)
  show "select_target m s lat nse ts
          = Inl (ValueError (''Unknown prediction type '' @ prediction_type s))"
    if "prediction_type s \<noteq> ''epsilon'' \<and> prediction_type s \<noteq> ''v_prediction''"
    using that by (simp add: select_target_def)
next
  assume L: "fst (forward_pass m cfg b sched g gamma) = Inr L"
  note D = forward_pass_InrD[OF L]
  from D(1) show "fst (sample_inputs m b sched g) = Inr (inputs L)" .
  from sample_inputs_InrD[OF D(1)]
  show "\<exists>g1. get_latents m b g = Inr (latents (inputs L), g1)
                 \<and> noise (inputs L) = randn_like m g1 (latents (inputs L))"
    by blast
  from D(2) show "select_target m (register_to_config cfg sched) (latents (inputs L))
              (noise (inputs L)) (timesteps (inputs L)) = Inr (target L)" .
  from D(2) show "target L = noise (inputs L)"
    if "prediction_type (register_to_config cfg sched) = ''epsilon''"
    using that by (simp add: select_target_def)
  from D(2) show "target L = get_velocity m (register_to_config cfg sched)
                                (latents (inputs L)) (noise (inputs L)) (timesteps (inputs L))"
    if "prediction_type (register_to_config cfg sched) = ''v_prediction''"
    using that by (simp add: select_target_def)
  from select_target_InrD[OF D(2)]
  show "prediction_type (register_to_config cfg sched) = ''epsilon''
             \<or> prediction_type (register_to_config cfg sched) = ''v_prediction''" .
next
  assume "fst (sample_inputs m b sched g) = Inr I
       \<and> prediction_type (register_to_config cfg sched) \<noteq> ''epsilon''
       \<and> prediction_type (register_to_config cfg sched) \<noteq> ''v_prediction''"
  then show "fst (train_forward m cfg b sched g gamma)
          = Inl (ValueError (''Unknown prediction type ''
                               @ prediction_type (register_to_config cfg sched)))"
    by (simp add: train_forward_fst forward_pass_unknown_type)
next
  assume a: "fst (sample_inputs m b sched g) = Inr I
       \<and> select_target m (register_to_config cfg sched) (latents I) (noise I) (timesteps I)
           = Inr tgt"
  then obtain w where
    w: "compute_min_snr_weights m (register_to_config cfg sched) (timesteps I) gamma = Inr w"
    using compute_min_snr_weights_ok select_target_InrD by blast
  show "(\<exists>L. fst (forward_pass m cfg b sched g gamma) = Inr L \<and> inputs L = I \<and> target L = tgt)
        \<or> fst (train_forward m cfg b sched g gamma) = Inl RuntimeError"
  proof (cases "compute_loss (unet m (noisy_latents I) (timesteps I) (encoder_hidden_states I))
                  tgt w (loss_weight b)")
    case (Inl e)
    with compute_loss_Inl have "e = RuntimeError" by blast
    with Inl a w have "fst (forward_pass m cfg b sched g gamma) = Inl RuntimeError"
      by (auto simp: forward_pass_def Let_def split: sum.splits prod.splits)
    then show ?thesis by (simp add: train_forward_fst)
  next
    case (Inr R)
    from forward_pass_InrI[OF _ _ w Inr] a show ?thesis by simp
  qed
next
  assume a: "fst (sample_inputs m b sched g) = Inr I
       \<and> select_target m (register_to_config cfg sched) (latents I) (noise I) (timesteps I)
           = Inr tgt
       \<and> broadcast_shape
            (shape (unet m (noisy_latents I) (timesteps I) (encoder_hidden_states I)))
            (shape tgt) = Some (n, c, h, wd)
       \<and> (gamma \<noteq> None \<longrightarrow>
            length (compute_snr m (register_to_config cfg sched) (timesteps I)) = n
            \<or> length (compute_snr m (register_to_config cfg sched) (timesteps I)) = 1)
       \<and> (\<forall>ws. loss_weight b = Some ws \<longrightarrow> length ws = n \<or> length ws = 1)"
  from forward_pass_returns[of m b sched g I cfg tgt n c h wd gamma] a
  show "\<exists>L. fst (forward_pass m cfg b sched g gamma) = Inr L \<and> inputs L = I \<and> target L = tgt"
    by blast
next
  show "(\<exists>I. fst (sample_inputs m b sched g) = Inr I) \<longleftrightarrow>
        (vae_output b \<noteq> None \<or> image_tensor b \<noteq> None)
        \<and> 0 < num_train_timesteps sched
        \<and> (text_encoder_output b \<noteq> None \<or> caption b \<noteq> None)"
    by (rule sample_inputs_returns)
qed

text \<open>
  C1 on a batch of two cached latents: with the scheduler's own type \<^verbatim>\<open>epsilon\<close> the
  target is the noise drawn, with \<^verbatim>\<open>v_prediction\<close> set by the config it is the velocity
  (here noise minus latents), and with the type \<^verbatim>\<open>sample\<close> the call raises.
\<close>

theorem train_forward_target_witness:
  "(\<exists>L. fst (forward_pass demo_models (demo_config None) demo_batch demo_scheduler 0 None)
          = Inr L
        \<and> fst (sample_inputs demo_models demo_batch demo_scheduler 0) = Inr (inputs L)
        \<and> target L = noise (inputs L)
        \<and> target L = \<lparr> shape = (2, 1, 1, 2), elem = (\<lambda>i j k l. 1) \<rparr>)
   \<and> (\<exists>L. fst (forward_pass demo_models (demo_config (Some ''v_prediction'')) demo_batch
                  demo_scheduler 0 None) = Inr L
        \<and> target L = get_velocity demo_models
                        (demo_scheduler\<lparr>prediction_type := ''v_prediction''\<rparr>)
                        (latents (inputs L)) (noise (inputs L)) (timesteps (inputs L))
        \<and> shape (target L) = (2, 1, 1, 2)
        \<and> map (\<lambda>i. map (elem (target L) i 0 0) [0, 1]) [0, 1] = [[0, - 2], [- 1, 1]])
   \<and> fst (train_forward demo_models (demo_config (Some ''sample'')) demo_batch
            demo_scheduler 0 None)
       = Inl (ValueError ''Unknown prediction type sample'')"
proof -
  let ?I = "fst (sample_inputs demo_models demo_batch demo_scheduler 0)"
  obtain I where I: "?I = Inr I"
    and I_def: "I = \<lparr> latents = rows_tensor [[1, 3], [2, 0]],
            noise = \<lparr> shape = (2, 1, 1, 2), elem = (\<lambda>i j k l. 1) \<rparr>,
            timesteps = [0, 1],
            noisy_latents =
              \<lparr> shape = (2, 1, 1, 2), elem = (\<lambda>i j k l. [[1, 3], [2, 0]] ! i ! l + 1) \<rparr>,
            encoder_hidden_states = [[[0]]] \<rparr>"
    by (simp add: demo_sample_inputs)
  have lw: "\<forall>ws. loss_weight demo_batch = Some ws \<longrightarrow> length ws = 2 \<or> length ws = 1"
    by (simp add: demo_batch_def)
  have shp: "broadcast_shape
            (shape (unet demo_models (noisy_latents I) (timesteps I) (encoder_hidden_states I)))
            (shape t) = Some (2, 1, 1, 2)" if "shape t = (2, 1, 1, 2)" for t
    using that by (simp add: I_def demo_models_def broadcast_dim_def)
  have g: "(None :: real option) \<noteq> None \<longrightarrow> P" for P by simp
  \<comment> \<open>epsilon\<close>
  let ?e = "register_to_config (demo_config None) demo_scheduler"
  have "prediction_type ?e = ''epsilon''"
    unfolding demo_register by (simp add: demo_scheduler_def)
  with train_forward_target[where s = ?e and m = demo_models, THEN conjunct1]
  have sel: "select_target demo_models ?e (latents I) (noise I) (timesteps I) = Inr (noise I)"
    by blast
  have shn: "shape (noise I) = (2, 1, 1, 2)" by (simp add: I_def)
  from train_forward_target[where m = demo_models and cfg = "demo_config None"
      and b = demo_batch and sched = demo_scheduler and g = 0 and gamma = None and I = I
      and tgt = "noise I" and n = 2 and c = 1 and h = 1 and wd = 2,
      THEN conjunct2, THEN conjunct2, THEN conjunct2, THEN conjunct2, THEN conjunct2,
      THEN conjunct2, THEN conjunct1]
    I sel shp[OF shn] lw g
  obtain L where
    L: "fst (forward_pass demo_models (demo_config None) demo_batch demo_scheduler 0 None)
          = Inr L" "inputs L = I" "target L = noise I"
    by blast
  from L I have 1: "\<exists>L. fst (forward_pass demo_models (demo_config None) demo_batch
                            demo_scheduler 0 None) = Inr L
        \<and> ?I = Inr (inputs L)
        \<and> target L = noise (inputs L)
        \<and> target L = \<lparr> shape = (2, 1, 1, 2), elem = (\<lambda>i j k l. 1) \<rparr>"
    by (simp add: I_def)
  \<comment> \<open>v_prediction\<close>
  let ?s = "demo_scheduler\<lparr>prediction_type := ''v_prediction''\<rparr>"
  let ?r = "register_to_config (demo_config (Some ''v_prediction'')) demo_scheduler"
  let ?v = "get_velocity demo_models ?r (latents I) (noise I) (timesteps I)"
  have r: "?r = ?s" by (simp add: demo_register)
  have "prediction_type ?r = ''v_prediction''"
    by (simp add: demo_register)
  with train_forward_target[where s = ?r and m = demo_models,
      THEN conjunct2, THEN conjunct1]
  have selv: "select_target demo_models ?r (latents I) (noise I) (timesteps I) = Inr ?v"
    by blast
  have shv: "shape ?v = (2, 1, 1, 2)"
    by (simp add: I_def demo_models_def rows_tensor_def)
  from train_forward_target[where m = demo_models
      and cfg = "demo_config (Some ''v_prediction'')"
      and b = demo_batch and sched = demo_scheduler and g = 0 and gamma = None and I = I
      and tgt = ?v and n = 2 and c = 1 and h = 1 and wd = 2,
      THEN conjunct2, THEN conjunct2, THEN conjunct2, THEN conjunct2, THEN conjunct2,
      THEN conjunct2, THEN conjunct1]
    I selv shp[OF shv] lw g
  obtain Lv where
    Lv: "fst (forward_pass demo_models (demo_config (Some ''v_prediction'')) demo_batch
               demo_scheduler 0 None) = Inr Lv" "inputs Lv = I" "target Lv = ?v"
    by blast
  have "map (\<lambda>i. map (elem ?v i 0 0) [0, 1]) [0, 1] = [[0, - 2], [- 1, 1]]"
    by (simp add: I_def demo_models_def rows_tensor_def)
  with Lv shv have 2: "\<exists>L. fst (forward_pass demo_models (demo_config (Some ''v_prediction''))
                  demo_batch demo_scheduler 0 None) = Inr L
        \<and> target L = get_velocity demo_models ?s
                        (latents (inputs L)) (noise (inputs L)) (timesteps (inputs L))
        \<and> shape (target L) = (2, 1, 1, 2)
        \<and> map (\<lambda>i. map (elem (target L) i 0 0) [0, 1]) [0, 1] = [[0, - 2], [- 1, 1]]"
    by (simp add: r)
  \<comment> \<open>another type\<close>
  have "prediction_type (register_to_config (demo_config (Some ''sample'')) demo_scheduler)
          = ''sample''"
    by (simp add: demo_register)
  with I train_forward_target[where m = demo_models
      and cfg = "demo_config (Some ''sample'')"
      and b = demo_batch and sched = demo_scheduler and g = 0 and gamma = None and I = I,
      THEN conjunct2, THEN conjunct2, THEN conjunct2, THEN conjunct2, THEN conjunct1]
  have 3: "fst (train_forward demo_models (demo_config (Some ''sample''))
            demo_batch demo_scheduler 0 None)
       = Inl (ValueError ''Unknown prediction type sample'')"
    by simp
  from 1 2 3 show ?thesis by blast
qed

lemma sum_list_upt: "sum_list (map f [0..<n]) = (\<Sum>i<n. f i)"
  by (simp add: interv_sum_list_conv_sum_set_nat atLeast0LessThan)

lemma mean_non_batch_same_shape:
  assumes p: "shape pred = (n, c, h, wd)" and t: "shape tgt = (n, c, h, wd)"
    and pos: "0 < c * h * wd"
  shows "mse_loss pred tgt
           = Inr \<lparr> shape = (n, c, h, wd),
                   elem = (\<lambda>i j k l. (expanded pred i j k l - expanded tgt i j k l)\<^sup>2) \<rparr>"
    and "mean_non_batch
           \<lparr> shape = (n, c, h, wd),
             elem = (\<lambda>i j k l. (expanded pred i j k l - expanded tgt i j k l)\<^sup>2) \<rparr>
         = map (\<lambda>i. Finite ((\<Sum>j<c. \<Sum>k<h. \<Sum>l<wd.
                                 (elem pred i j k l - elem tgt i j k l)\<^sup>2)
                              / real (c * h * wd)))
               [0..<n]"
proof -
  show "mse_loss pred tgt
           = Inr \<lparr> shape = (n, c, h, wd),
                   elem = (\<lambda>i j k l. (expanded pred i j k l - expanded tgt i j k l)\<^sup>2) \<rparr>"
    using p t by (simp add: mse_loss_def broadcast_dim_same)
  have e: "(\<Sum>j<c. \<Sum>k<h. \<Sum>l<wd. (expanded pred i j k l - expanded tgt i j k l)\<^sup>2)
           = (\<Sum>j<c. \<Sum>k<h. \<Sum>l<wd. (elem pred i j k l - elem tgt i j k l)\<^sup>2)"
    if "i < n" for i
    using that p t by (intro sum.cong refl) (simp add: expanded_in_range)
  from pos have nz: "real (c * h * wd) \<noteq> 0" by simp
  show "mean_non_batch
           \<lparr> shape = (n, c, h, wd),
             elem = (\<lambda>i j k l. (expanded pred i j k l - expanded tgt i j k l)\<^sup>2) \<rparr>
         = map (\<lambda>i. Finite ((\<Sum>j<c. \<Sum>k<h. \<Sum>l<wd.
                                 (elem pred i j k l - elem tgt i j k l)\<^sup>2)
                              / real (c * h * wd)))
               [0..<n]"
    unfolding mean_non_batch_def sum_below_sum
    using nz e by (auto simp del: of_nat_mult)
qed

lemma mul_1d_Finite:
  assumes "length ws = n"
  shows "mul_1d (map (\<lambda>i. Finite (f i)) [0..<n]) (map Finite ws)
           = Inr (map (\<lambda>i. Finite (f i * ws ! i)) [0..<n])"
  using assms by (simp add: mul_1d_same)

lemma fmean_upt:
  "fmean (map (\<lambda>i. Finite (f i)) [0..<n])
     = (if n = 0 then NaN else Finite ((\<Sum>i<n. f i) / real n))"
  using fmean_Finite[of "map f [0..<n]"] by (simp add: sum_list_upt comp_def)

lemma compute_loss_same_shape:
  assumes p: "shape pred = (n, c, h, wd)" and t: "shape tgt = (n, c, h, wd)"
    and pos: "0 < c * h * wd"
  defines "mse \<equiv> (\<lambda>i. (\<Sum>j<c. \<Sum>k<h. \<Sum>l<wd. (elem pred i j k l - elem tgt i j k l)\<^sup>2)
                         / real (c * h * wd))"
  shows "\<exists>R. compute_loss pred tgt None None = Inr R
             \<and> per_example_loss R = map (\<lambda>i. Finite (mse i)) [0..<n]
             \<and> weighted_loss R = map (\<lambda>i. Finite (mse i)) [0..<n]
             \<and> loss R = (if n = 0 then NaN else Finite ((\<Sum>i<n. mse i) / real n))"
    and "length ws = n \<Longrightarrow>
         \<exists>R. compute_loss pred tgt None (Some ws) = Inr R
             \<and> per_example_loss R = map (\<lambda>i. Finite (mse i)) [0..<n]
             \<and> weighted_loss R = map (\<lambda>i. Finite (mse i * ws ! i)) [0..<n]
             \<and> loss R = (if n = 0 then NaN else Finite ((\<Sum>i<n. mse i * ws ! i) / real n))"
proof -
  note m1 = mean_non_batch_same_shape(1)[OF p t pos]
  have m2: "mean_non_batch
           \<lparr> shape = (n, c, h, wd),
             elem = (\<lambda>i j k l. (expanded pred i j k l - expanded tgt i j k l)\<^sup>2) \<rparr>
         = map (\<lambda>i. Finite (mse i)) [0..<n]"
    unfolding mse_def by (rule mean_non_batch_same_shape(2)[OF p t pos])
  note m = m1 m2
  show "\<exists>R. compute_loss pred tgt None None = Inr R
             \<and> per_example_loss R = map (\<lambda>i. Finite (mse i)) [0..<n]
             \<and> weighted_loss R = map (\<lambda>i. Finite (mse i)) [0..<n]
             \<and> loss R = (if n = 0 then NaN else Finite ((\<Sum>i<n. mse i) / real n))"
    by (simp add: compute_loss_def m apply_weights_def fmean_upt Let_def)
  show "\<exists>R. compute_loss pred tgt None (Some ws) = Inr R
             \<and> per_example_loss R = map (\<lambda>i. Finite (mse i)) [0..<n]
             \<and> weighted_loss R = map (\<lambda>i. Finite (mse i * ws ! i)) [0..<n]
             \<and> loss R = (if n = 0 then NaN else Finite ((\<Sum>i<n. mse i * ws ! i) / real n))"
    if "length ws = n"
    using mul_1d_Finite[OF that, of mse]
    by (simp add: compute_loss_def m apply_weights_def fmean_upt Let_def)
qed

subsection \<open>The loss\<close>

text \<open>
  Claim C2. Whenever \<^verbatim>\<open>train_forward\<close> returns, the prediction is the UNet's output for
  the noisy latents, and the value returned is the loss computed by lines 241-254
  from the prediction, the target, the min-SNR weights and the \<^verbatim>\<open>loss_weight\<close> entry of
  the batch. Whenever that computation returns: the shapes of prediction and target
  broadcast to a shape (n, c, h, w); the per-example loss has n entries, the one of
  example i being the sum of the squared differences over all other dimensions divided
  by their number c * h * w; the min-SNR weights, if any, are multiplied in; if the
  batch has a \<^verbatim>\<open>loss_weight\<close>, the losses are multiplied by it, entry by entry when both
  have the same length and all by the same weight when it has a single entry, and
  otherwise they are left as they are; the value returned is the sum of the weighted
  losses divided by their number. For prediction and target of the same shape with
  at least one element for each example and no min-SNR weights, this is the weighted
  mean over the batch of the mean squared errors, and NaN for a batch without
  examples. The computation returns when the shapes can be broadcast and the weights
  have n entries or one; it raises a \<^verbatim>\<open>RuntimeError\<close> when the shapes cannot be
  broadcast. \<^verbatim>\<open>train_forward\<close> returns the loss when the inputs have been sampled, the
  target has been selected and these conditions hold; the inputs are sampled exactly
  when the batch supplies latents or an image, and a text encoder output or a caption,
  and the scheduler has at least one timestep.
\<close>

theorem train_forward_loss:
  "(fst (forward_pass m cfg b sched g gamma) = Inr L \<longrightarrow>
      model_pred L = unet m (noisy_latents (inputs L)) (timesteps (inputs L))
                       (encoder_hidden_states (inputs L))
      \<and> compute_loss (model_pred L) (target L) (min_snr_weights L) (loss_weight b)
          = Inr (losses L)
      \<and> fst (train_forward m cfg b sched g gamma) = Inr (loss (losses L)))
   \<and> (compute_loss pred tgt w lw = Inr R \<longrightarrow>
        (\<exists>n c h wd.
           broadcast_shape (shape pred) (shape tgt) = Some (n, c, h, wd)
           \<and> per_example_loss R =
               map (\<lambda>i. fdiv (Finite (\<Sum>j<c. \<Sum>k<h. \<Sum>l<wd.
                                        (expanded pred i j k l - expanded tgt i j k l)\<^sup>2))
                              (Finite (real (c * h * wd))))
                   [0..<n])
        \<and> apply_weights (per_example_loss R) w = Inr (snr_weighted_loss R)
        \<and> (lw = None \<longrightarrow> weighted_loss R = snr_weighted_loss R)
        \<and> (\<forall>ws. lw = Some ws \<longrightarrow>
              mul_1d (snr_weighted_loss R) (map Finite ws) = Inr (weighted_loss R))
        \<and> (\<forall>ws. lw = Some ws \<and> length ws = length (snr_weighted_loss R) \<longrightarrow>
              weighted_loss R
                = map (\<lambda>i. fmul (snr_weighted_loss R ! i) (Finite (ws ! i))) [0..<length ws])
        \<and> (\<forall>v. lw = Some [v] \<longrightarrow>
              weighted_loss R = map (\<lambda>x. fmul x (Finite v)) (snr_weighted_loss R))
        \<and> loss R = fmean (weighted_loss R)
        \<and> loss R = fdiv (foldr fadd (weighted_loss R) (Finite 0))
                      (Finite (real (length (weighted_loss R)))))
   \<and> (shape pred = (n, c, h, wd) \<and> shape tgt = (n, c, h, wd) \<and> 0 < c * h * wd \<longrightarrow>
        (let mse = (\<lambda>i. (\<Sum>j<c. \<Sum>k<h. \<Sum>l<wd. (elem pred i j k l - elem tgt i j k l)\<^sup>2)
                          / real (c * h * wd))
         in (\<exists>R. compute_loss pred tgt None None = Inr R
                 \<and> per_example_loss R = map (\<lambda>i. Finite (mse i)) [0..<n]
                 \<and> weighted_loss R = map (\<lambda>i. Finite (mse i)) [0..<n]
                 \<and> loss R = (if n = 0 then NaN else Finite ((\<Sum>i<n. mse i) / real n)))
            \<and> (length ws = n \<longrightarrow>
                 (\<exists>R. compute_loss pred tgt None (Some ws) = Inr R
                      \<and> per_example_loss R = map (\<lambda>i. Finite (mse i)) [0..<n]
                      \<and> weighted_loss R = map (\<lambda>i. Finite (mse i * ws ! i)) [0..<n]
                      \<and> loss R = (if n = 0 then NaN
                                   else Finite ((\<Sum>i<n. mse i * ws ! i) / real n))))))
   \<and> (broadcast_shape (shape pred) (shape tgt) = Some (n, c, h, wd)
       \<and> (\<forall>ws. w = Some ws \<longrightarrow> length ws = n \<or> length ws = 1)
       \<and> (\<forall>ws. lw = Some ws \<longrightarrow> length ws = n \<or> length ws = 1) \<longrightarrow>
        (\<exists>R. compute_loss pred tgt w lw = Inr R \<and> length (weighted_loss R) = n))
   \<and> (broadcast_shape (shape pred) (shape tgt) = None \<longrightarrow>
        compute_loss pred tgt w lw = Inl RuntimeError)
   \<and> (fst (sample_inputs m b sched g) = Inr I
       \<and> select_target m (register_to_config cfg sched) (latents I) (noise I) (timesteps I)
           = Inr tgt
       \<and> broadcast_shape
            (shape (unet m (noisy_latents I) (timesteps I) (encoder_hidden_states I)))
            (shape tgt) = Some (n, c, h, wd)
       \<and> (gamma \<noteq> None \<longrightarrow>
            length (compute_snr m (register_to_config cfg sched) (timesteps I)) = n
            \<or> length (compute_snr m (register_to_config cfg sched) (timesteps I)) = 1)
       \<and> (\<forall>ws. loss_weight b = Some ws \<longrightarrow> length ws = n \<or> length ws = 1) \<longrightarrow>
        (\<exists>L. fst (forward_pass m cfg b sched g gamma) = Inr L \<and> inputs L = I \<and> target L = tgt
             \<and> length (weighted_loss (losses L)) = n
             \<and> fst (train_forward m cfg b sched g gamma) = Inr (loss (losses L))))
   \<and> ((\<exists>I. fst (sample_inputs m b sched g) = Inr I) \<longleftrightarrow>
        (vae_output b \<noteq> None \<or> image_tensor b \<noteq> None)
        \<and> 0 < num_train_timesteps sched
        \<and> (text_encoder_output b \<noteq> None \<or> caption b \<noteq> None))"
proof (intro conjI impI)
  assume L: "fst (forward_pass m cfg b sched g gamma) = Inr L"
  note D = forward_pass_InrD[OF L]
  from D(3) show "model_pred L = unet m (noisy_latents (inputs L)) (timesteps (inputs L))
                       (encoder_hidden_states (inputs L))" .
  from D(5) show "compute_loss (model_pred L) (target L) (min_snr_weights L) (loss_weight b)
          = Inr (losses L)" .
  from L show "fst (train_forward m cfg b sched g gamma) = Inr (loss (losses L))"
    by (simp add: train_forward_fst)
next
  assume R: "compute_loss pred tgt w lw = Inr R"
  note D = compute_loss_InrD[OF R]
  from D(1) mean_non_batch_mse
  show "\<exists>n c h wd.
           broadcast_shape (shape pred) (shape tgt) = Some (n, c, h, wd)
           \<and> per_example_loss R =
               map (\<lambda>i. fdiv (Finite (\<Sum>j<c. \<Sum>k<h. \<Sum>l<wd.
                                        (expanded pred i j k l - expanded tgt i j k l)\<^sup>2))
                              (Finite (real (c * h * wd))))
                   [0..<n]"
    by fastforce
  from D(2) show "apply_weights (per_example_loss R) w = Inr (snr_weighted_loss R)" .
  from D(3) show "weighted_loss R = snr_weighted_loss R" if "lw = None"
    using that by (simp add: apply_weights_def)
  from D(3) show aw: "\<forall>ws. lw = Some ws \<longrightarrow>
              mul_1d (snr_weighted_loss R) (map Finite ws) = Inr (weighted_loss R)"
    by (cases lw) (simp_all add: apply_weights_def)
  show "\<forall>ws. lw = Some ws \<and> length ws = length (snr_weighted_loss R) \<longrightarrow>
              weighted_loss R
                = map (\<lambda>i. fmul (snr_weighted_loss R ! i) (Finite (ws ! i))) [0..<length ws]"
  proof (intro allI impI)
    fix ws assume ws: "lw = Some ws \<and> length ws = length (snr_weighted_loss R)"
    with aw mul_1d_same[of "map Finite ws" "snr_weighted_loss R"]
    have "Inr (weighted_loss R)
            = (Inr (map (\<lambda>i. fmul (snr_weighted_loss R ! i) (map Finite ws ! i))
                      [0..<length ws]) :: error + fnum list)"
      by simp
    then show "weighted_loss R
                = map (\<lambda>i. fmul (snr_weighted_loss R ! i) (Finite (ws ! i))) [0..<length ws]"
      by simp
  qed
  show "\<forall>v. lw = Some [v] \<longrightarrow>
              weighted_loss R = map (\<lambda>x. fmul x (Finite v)) (snr_weighted_loss R)"
  proof (intro allI impI)
    fix v assume "lw = Some [v]"
    with aw mul_1d_one[of "map Finite [v]" "snr_weighted_loss R"]
    show "weighted_loss R = map (\<lambda>x. fmul x (Finite v)) (snr_weighted_loss R)"
      by simp
  qed
  from D(4) show "loss R = fmean (weighted_loss R)" .
  from D(4) show "loss R = fdiv (foldr fadd (weighted_loss R) (Finite 0))
                      (Finite (real (length (weighted_loss R))))"
    by (simp add: fmean_def)
next
  assume a: "shape pred = (n, c, h, wd) \<and> shape tgt = (n, c, h, wd) \<and> 0 < c * h * wd"
  then have p: "shape pred = (n, c, h, wd)" and t: "shape tgt = (n, c, h, wd)"
    and pos: "0 < c * h * wd"
    by simp_all
  from compute_loss_same_shape[OF p t pos]
  show "let mse = (\<lambda>i. (\<Sum>j<c. \<Sum>k<h. \<Sum>l<wd. (elem pred i j k l - elem tgt i j k l)\<^sup>2)
                          / real (c * h * wd))
         in (\<exists>R. compute_loss pred tgt None None = Inr R
                 \<and> per_example_loss R = map (\<lambda>i. Finite (mse i)) [0..<n]
                 \<and> weighted_loss R = map (\<lambda>i. Finite (mse i)) [0..<n]
                 \<and> loss R = (if n = 0 then NaN else Finite ((\<Sum>i<n. mse i) / real n)))
            \<and> (length ws = n \<longrightarrow>
                 (\<exists>R. compute_loss pred tgt None (Some ws) = Inr R
                      \<and> per_example_loss R = map (\<lambda>i. Finite (mse i)) [0..<n]
                      \<and> weighted_loss R = map (\<lambda>i. Finite (mse i * ws ! i)) [0..<n]
                      \<and> loss R = (if n = 0 then NaN
                                   else Finite ((\<Sum>i<n. mse i * ws ! i) / real n))))"
    unfolding Let_def by blast
next
  assume "broadcast_shape (shape pred) (shape tgt) = Some (n, c, h, wd)
       \<and> (\<forall>ws. w = Some ws \<longrightarrow> length ws = n \<or> length ws = 1)
       \<and> (\<forall>ws. lw = Some ws \<longrightarrow> length ws = n \<or> length ws = 1)"
  with compute_loss_returns[of pred tgt n c h wd w lw]
  show "\<exists>R. compute_loss pred tgt w lw = Inr R \<and> length (weighted_loss R) = n"
    by blast
next
  assume "broadcast_shape (shape pred) (shape tgt) = None"
  then show "compute_loss pred tgt w lw = Inl RuntimeError"
    by (rule compute_loss_no_broadcast)
next
  assume a: "fst (sample_inputs m b sched g) = Inr I
       \<and> select_target m (register_to_config cfg sched) (latents I) (noise I) (timesteps I)
           = Inr tgt
       \<and> broadcast_shape
            (shape (unet m (noisy_latents I) (timesteps I) (encoder_hidden_states I)))
            (shape tgt) = Some (n, c, h, wd)
       \<and> (gamma \<noteq> None \<longrightarrow>
            length (compute_snr m (register_to_config cfg sched) (timesteps I)) = n
            \<or> length (compute_snr m (register_to_config cfg sched) (timesteps I)) = 1)
       \<and> (\<forall>ws. loss_weight b = Some ws \<longrightarrow> length ws = n \<or> length ws = 1)"
  from forward_pass_returns[of m b sched g I cfg tgt n c h wd gamma] a
  obtain L where L: "fst (forward_pass m cfg b sched g gamma) = Inr L" "inputs L = I"
    "target L = tgt" "length (weighted_loss (losses L)) = n"
    by blast
  from L(1) have "fst (train_forward m cfg b sched g gamma) = Inr (loss (losses L))"
    by (simp add: train_forward_fst)
  with L show "\<exists>L. fst (forward_pass m cfg b sched g gamma) = Inr L \<and> inputs L = I
             \<and> target L = tgt \<and> length (weighted_loss (losses L)) = n
             \<and> fst (train_forward m cfg b sched g gamma) = Inr (loss (losses L))"
    by blast
next
  show "(\<exists>I. fst (sample_inputs m b sched g) = Inr I) \<longleftrightarrow>
        (vae_output b \<noteq> None \<or> image_tensor b \<noteq> None)
        \<and> 0 < num_train_timesteps sched
        \<and> (text_encoder_output b \<noteq> None \<or> caption b \<noteq> None)"
    by (rule sample_inputs_returns)
qed

text \<open>
  C2 on a batch of two cached latents with rows (1, 3) and (2, 0), where the squared
  error is the square of the latents: the per-example losses are 5 and 2, with the
  loss weights 1 and 2 the weighted losses are 5 and 4 and the loss is 9/2; a single
  loss weight 2 applies to both examples and gives the loss 7; a batch without
  examples gives NaN; a target whose shape cannot be broadcast raises.
\<close>

theorem train_forward_loss_witness:
  "(\<exists>L. fst (forward_pass demo_models (demo_config None) demo_batch demo_scheduler 0 None)
          = Inr L
        \<and> per_example_loss (losses L) = [Finite 5, Finite 2]
        \<and> weighted_loss (losses L) = [Finite 5, Finite 4]
        \<and> loss (losses L) = Finite (9 / 2))
   \<and> fst (train_forward demo_models (demo_config None) demo_batch demo_scheduler 0 None)
       = Inr (Finite (9 / 2))
   \<and> fst (train_forward demo_models (demo_config None) one_weight_batch demo_scheduler 0 None)
       = Inr (Finite 7)
   \<and> fst (train_forward demo_models (demo_config None) empty_batch demo_scheduler 0 None)
       = Inr NaN
   \<and> compute_loss (rows_tensor [[1, 3], [2, 0]]) (rows_tensor [[0, 0, 0]]) None None
       = Inl RuntimeError"
proof -
  let ?I = "\<lparr> latents = rows_tensor [[1, 3], [2, 0]],
            noise = \<lparr> shape = (2, 1, 1, 2), elem = (\<lambda>i j k l. 1) \<rparr>,
            timesteps = [0, 1],
            noisy_latents =
              \<lparr> shape = (2, 1, 1, 2), elem = (\<lambda>i j k l. [[1, 3], [2, 0]] ! i ! l + 1) \<rparr>,
            encoder_hidden_states = [[[0::real]]] \<rparr>"
  have I: "fst (sample_inputs demo_models demo_batch demo_scheduler 0) = Inr ?I"
    by (simp add: demo_sample_inputs)
  have lw: "\<forall>ws. loss_weight demo_batch = Some ws \<longrightarrow> length ws = 2 \<or> length ws = 1"
    by (simp add: demo_batch_def)
  have shp: "broadcast_shape
            (shape (unet demo_models (noisy_latents ?I) (timesteps ?I)
                      (encoder_hidden_states ?I)))
            (shape (noise ?I)) = Some (2, 1, 1, 2)"
    by (simp add: demo_models_def broadcast_dim_def)
  have g: "(None :: real option) \<noteq> None \<longrightarrow> P" for P by simp
  from train_forward_loss[where m = demo_models and cfg = "demo_config None"
      and b = demo_batch and sched = demo_scheduler and g = 0 and gamma = None and I = ?I
      and tgt = "noise ?I" and n = 2 and c = 1 and h = 1 and wd = 2,
      THEN conjunct2, THEN conjunct2, THEN conjunct2, THEN conjunct2, THEN conjunct2,
      THEN conjunct1, unfolded demo_register]
    I demo_select_target(1)[of demo_models "latents ?I" "noise ?I" "timesteps ?I"] shp lw g
  obtain L where
    L: "fst (forward_pass demo_models (demo_config None) demo_batch demo_scheduler 0 None)
          = Inr L" "inputs L = ?I" "target L = noise ?I"
       "fst (train_forward demo_models (demo_config None) demo_batch demo_scheduler 0 None)
          = Inr (loss (losses L))"
    by blast
  from train_forward_loss[where m = demo_models and cfg = "demo_config None"
      and b = demo_batch and sched = demo_scheduler and g = 0 and gamma = None and L = L,
      THEN conjunct1] L(1)
  have P: "model_pred L = unet demo_models (noisy_latents (inputs L)) (timesteps (inputs L))
                       (encoder_hidden_states (inputs L))"
    and C: "compute_loss (model_pred L) (target L) (min_snr_weights L) (loss_weight demo_batch)
          = Inr (losses L)"
    by blast+
  from forward_pass_InrD(4)[OF L(1)] have W: "min_snr_weights L = None"
    by (simp add: compute_min_snr_weights_def)
  have lwv: "loss_weight demo_batch = Some [1, 2]"
    by (simp add: demo_batch_def)
  have sp: "shape (model_pred L) = (2, 1, 1, 2)"
    and st: "shape (target L) = (2, 1, 1, 2)"
    by (simp_all add: P L demo_models_def)
  from train_forward_loss[where pred = "model_pred L" and tgt = "target L"
      and n = 2 and c = 1 and h = 1 and wd = 2 and ws = "[1, 2]",
      THEN conjunct2, THEN conjunct2, THEN conjunct1, unfolded Let_def] sp st
  obtain R where
    R: "compute_loss (model_pred L) (target L) None (Some [1, 2]) = Inr R"
       "per_example_loss R
          = map (\<lambda>i. Finite ((\<Sum>j<1. \<Sum>k<1. \<Sum>l<2.
                                 (elem (model_pred L) i j k l - elem (target L) i j k l)\<^sup>2)
                              / real (1 * 1 * 2)))
              [0..<2]"
       "weighted_loss R
          = map (\<lambda>i. Finite ((\<Sum>j<1. \<Sum>k<1. \<Sum>l<2.
                                 (elem (model_pred L) i j k l - elem (target L) i j k l)\<^sup>2)
                              / real (1 * 1 * 2) * [1, 2] ! i))
              [0..<2]"
       "loss R
          = (if (2::nat) = 0 then NaN
             else Finite ((\<Sum>i<2. (\<Sum>j<1. \<Sum>k<1. \<Sum>l<2.
                                 (elem (model_pred L) i j k l - elem (target L) i j k l)\<^sup>2)
                              / real (1 * 1 * 2) * [1, 2] ! i) / real 2))"
    by auto
  from R(1) C have RL: "R = losses L"
    by (simp add: W lwv)
  have el: "elem (model_pred L) i j k l - elem (target L) i j k l = [[1, 3], [2, 0]] ! i ! l"
    for i j k l
    by (simp add: P L demo_models_def)
  have two: "{..<(2::nat)} = {0, 1}" by auto
  from R(2) have 1: "per_example_loss (losses L) = [Finite 5, Finite 2]"
    by (simp add: RL el two upt_rec)
  from R(3) have 2: "weighted_loss (losses L) = [Finite 5, Finite 4]"
    by (simp add: RL el two upt_rec)
  from R(4) have 3: "loss (losses L) = Finite (9 / 2)"
    by (simp add: RL el two)
  have 4: "fst (train_forward demo_models (demo_config None) one_weight_batch demo_scheduler
                  0 None) = Inr (Finite 7)"
    by (simp add: forward_defs demo_forward_defs upt_rec)
  have 5: "fst (train_forward demo_models (demo_config None) empty_batch demo_scheduler
                  0 None) = Inr NaN"
    by (simp add: forward_defs demo_forward_defs)
  have "broadcast_shape (shape (rows_tensor [[1, 3], [2, 0]])) (shape (rows_tensor [[0, 0, 0]]))
          = None"
    by (simp add: rows_tensor_def broadcast_dim_def)
  with train_forward_loss[where pred = "rows_tensor [[1, 3], [2, 0]]"
      and tgt = "rows_tensor [[0, 0, 0]]" and w = None and lw = None,
      THEN conjunct2, THEN conjunct2, THEN conjunct2, THEN conjunct2, THEN conjunct1]
  have 6: "compute_loss (rows_tensor [[1, 3], [2, 0]]) (rows_tensor [[0, 0, 0]]) None None
       = Inl RuntimeError"
    by blast
  from L(1) L(4) 1 2 3 4 5 6 show ?thesis by auto
qed

subsection \<open>The min-SNR weights\<close>

text \<open>
  Claim C3. Without a gamma there are no min-SNR weights. With a gamma, the weights
  computed by lines 221-239 are, for each signal-to-noise ratio of the timesteps,
  \<^verbatim>\<open>clamp(snr, max=gamma) / snr\<close> for the prediction type \<^verbatim>\<open>epsilon\<close> and that value plus
  1 for \<^verbatim>\<open>v_prediction\<close>; any other type raises
  \<^verbatim>\<open>ValueError("Unknown prediction type ...")\<close>. For a signal-to-noise ratio other than
  0 the weight is the number min(snr, gamma) / snr, plus 1 for \<^verbatim>\<open>v_prediction\<close>; for a
  signal-to-noise ratio of 0 and a gamma that is not negative the division is 0 / 0
  and the weight is NaN for both types. Whenever \<^verbatim>\<open>train_forward\<close> returns, the
  weights are those computed for the timesteps drawn and the scheduler's type after the
  config's type has been registered, and the per-example losses have been multiplied
  by them, entry by entry. Once the inputs have been sampled, \<^verbatim>\<open>train_forward\<close> with a
  gamma raises the \<^verbatim>\<open>ValueError\<close> for any other type, and for the two types it returns
  with these weights when the loss can be computed. The inputs are sampled exactly
  when the batch supplies latents or an image, and a text encoder output or a caption,
  and the scheduler has at least one timestep.
\<close>

theorem train_forward_min_snr:
  "compute_min_snr_weights m s ts None = Inr None
   \<and> (prediction_type s = ''epsilon'' \<longrightarrow>
        compute_min_snr_weights m s ts (Some \<gamma>)
          = Inr (Some (map (min_snr_weight \<gamma>) (compute_snr m s ts))))
   \<and> (prediction_type s = ''v_prediction'' \<longrightarrow>
        compute_min_snr_weights m s ts (Some \<gamma>)
          = Inr (Some (map (\<lambda>x. fadd (min_snr_weight \<gamma> x) (Finite 1)) (compute_snr m s ts))))
   \<and> (prediction_type s \<noteq> ''epsilon'' \<and> prediction_type s \<noteq> ''v_prediction'' \<longrightarrow>
        compute_min_snr_weights m s ts (Some \<gamma>)
          = Inl (ValueError (''Unknown prediction type '' @ prediction_type s)))
   \<and> (x \<noteq> 0 \<longrightarrow>
        min_snr_weight \<gamma> (Finite x) = Finite (min x \<gamma> / x)
        \<and> fadd (min_snr_weight \<gamma> (Finite x)) (Finite 1) = Finite (min x \<gamma> / x + 1))
   \<and> (0 \<le> \<gamma> \<longrightarrow>
        min_snr_weight \<gamma> (Finite 0) = NaN
        \<and> fadd (min_snr_weight \<gamma> (Finite 0)) (Finite 1) = NaN)
   \<and> (fst (forward_pass m cfg b sched g gamma) = Inr L \<longrightarrow>
        compute_min_snr_weights m (register_to_config cfg sched) (timesteps (inputs L)) gamma
          = Inr (min_snr_weights L)
        \<and> apply_weights (per_example_loss (losses L)) (min_snr_weights L)
            = Inr (snr_weighted_loss (losses L))
        \<and> (gamma = None \<longrightarrow>
              min_snr_weights L = None
              \<and> snr_weighted_loss (losses L) = per_example_loss (losses L))
        \<and> (\<forall>ws. min_snr_weights L = Some ws
                 \<and> length ws = length (per_example_loss (losses L)) \<longrightarrow>
              snr_weighted_loss (losses L)
                = map (\<lambda>i. fmul (per_example_loss (losses L) ! i) (ws ! i)) [0..<length ws]))
   \<and> (fst (sample_inputs m b sched g) = Inr I
       \<and> prediction_type (register_to_config cfg sched) \<noteq> ''epsilon''
       \<and> prediction_type (register_to_config cfg sched) \<noteq> ''v_prediction'' \<longrightarrow>
        fst (train_forward m cfg b sched g (Some \<gamma>))
          = Inl (ValueError (''Unknown prediction type ''
                               @ prediction_type (register_to_config cfg sched))))
   \<and> (fst (sample_inputs m b sched g) = Inr I
       \<and> select_target m (register_to_config cfg sched) (latents I) (noise I) (timesteps I)
           = Inr tgt
       \<and> broadcast_shape
            (shape (unet m (noisy_latents I) (timesteps I) (encoder_hidden_states I)))
            (shape tgt) = Some (n, c, h, wd)
       \<and> length (compute_snr m (register_to_config cfg sched) (timesteps I)) = n
       \<and> (\<forall>ws. loss_weight b = Some ws \<longrightarrow> length ws = n \<or> length ws = 1) \<longrightarrow>
        (\<exists>L. fst (forward_pass m cfg b sched g (Some \<gamma>)) = Inr L \<and> inputs L = I
             \<and> min_snr_weights L
                 = Some (map (\<lambda>x. if prediction_type (register_to_config cfg sched) = ''epsilon''
                                   then min_snr_weight \<gamma> x
                                   else fadd (min_snr_weight \<gamma> x) (Finite 1))
                           (compute_snr m (register_to_config cfg sched) (timesteps I)))))
   \<and> ((\<exists>I. fst (sample_inputs m b sched g) = Inr I) \<longleftrightarrow>
        (vae_output b \<noteq> None \<or> image_tensor b \<noteq> None)
        \<and> 0 < num_train_timesteps sched
        \<and> (text_encoder_output b \<noteq> None \<or> caption b \<noteq> None))"
proof (intro conjI impI)
  show "compute_min_snr_weights m s ts None = Inr None"
    by (simp add: compute_min_snr_weights_def)
  show "compute_min_snr_weights m s ts (Some \<gamma>)
          = Inr (Some (map (min_snr_weight \<gamma>) (compute_snr m s ts)))"
    if "prediction_type s = ''epsilon''"
    using that by (simp add: compute_min_snr_weights_def)
  show "compute_min_snr_weights m s ts (Some \<gamma>)
          = Inr (Some (map (\<lambda>x. fadd (min_snr_weight \<gamma> x) (Finite 1)) (compute_snr m s ts)))"
    if "prediction_type s = ''v_prediction''"
    using that by (simp add: compute_min_snr_weights_def)
  show "compute_min_snr_weights m s ts (Some \<gamma>)
          = Inl (ValueError (''Unknown prediction type '' @ prediction_type s))"
    if "prediction_type s \<noteq> ''epsilon'' \<and> prediction_type s \<noteq> ''v_prediction''"
    using that by (simp add: compute_min_snr_weights_def)
  show "min_snr_weight \<gamma> (Finite x) = Finite (min x \<gamma> / x)" if "x \<noteq> 0"
    using that by (simp add: min_snr_weight_def)
  show "fadd (min_snr_weight \<gamma> (Finite x)) (Finite 1) = Finite (min x \<gamma> / x + 1)" if "x \<noteq> 0"
    using that by (simp add: min_snr_weight_def)
  show "min_snr_weight \<gamma> (Finite 0) = NaN" if "0 \<le> \<gamma>"
    using that by (simp add: min_snr_weight_def)
  show "fadd (min_snr_weight \<gamma> (Finite 0)) (Finite 1) = NaN" if "0 \<le> \<gamma>"
    using that by (simp add: min_snr_weight_def)
next
  assume L: "fst (forward_pass m cfg b sched g gamma) = Inr L"
  note D = forward_pass_InrD[OF L]
  from D(4) show "compute_min_snr_weights m (register_to_config cfg sched)
                    (timesteps (inputs L)) gamma = Inr (min_snr_weights L)" .
  from compute_loss_InrD(2)[OF D(5)]
  show aw: "apply_weights (per_example_loss (losses L)) (min_snr_weights L)
            = Inr (snr_weighted_loss (losses L))" .
  from D(4) have n: "min_snr_weights L = None" if "gamma = None"
    using that by (simp add: compute_min_snr_weights_def)
  with aw show "min_snr_weights L = None" "snr_weighted_loss (losses L) = per_example_loss (losses L)"
    if "gamma = None"
    using that by (simp_all add: apply_weights_def)
  show "\<forall>ws. min_snr_weights L = Some ws
                 \<and> length ws = length (per_example_loss (losses L)) \<longrightarrow>
              snr_weighted_loss (losses L)
                = map (\<lambda>i. fmul (per_example_loss (losses L) ! i) (ws ! i)) [0..<length ws]"
    using aw by (auto simp: apply_weights_def mul_1d_same)
next
  assume "fst (sample_inputs m b sched g) = Inr I
       \<and> prediction_type (register_to_config cfg sched) \<noteq> ''epsilon''
       \<and> prediction_type (register_to_config cfg sched) \<noteq> ''v_prediction''"
  then show "fst (train_forward m cfg b sched g (Some \<gamma>))
          = Inl (ValueError (''Unknown prediction type ''
                               @ prediction_type (register_to_config cfg sched)))"
    by (simp add: train_forward_fst forward_pass_unknown_type)
next
  assume a: "fst (sample_inputs m b sched g) = Inr I
       \<and> select_target m (register_to_config cfg sched) (latents I) (noise I) (timesteps I)
           = Inr tgt
       \<and> broadcast_shape
            (shape (unet m (noisy_latents I) (timesteps I) (encoder_hidden_states I)))
            (shape tgt) = Some (n, c, h, wd)
       \<and> length (compute_snr m (register_to_config cfg sched) (timesteps I)) = n
       \<and> (\<forall>ws. loss_weight b = Some ws \<longrightarrow> length ws = n \<or> length ws = 1)"
  from forward_pass_returns[of m b sched g I cfg tgt n c h wd "Some \<gamma>"] a
  obtain L where L: "fst (forward_pass m cfg b sched g (Some \<gamma>)) = Inr L" "inputs L = I"
    by blast
  from a select_target_InrD have t:
    "prediction_type (register_to_config cfg sched) = ''epsilon''
     \<or> prediction_type (register_to_config cfg sched) = ''v_prediction''"
    by blast
  from forward_pass_InrD(4)[OF L(1)] L(2) t
  have "min_snr_weights L
          = Some (map (\<lambda>x. if prediction_type (register_to_config cfg sched) = ''epsilon''
                            then min_snr_weight \<gamma> x
                            else fadd (min_snr_weight \<gamma> x) (Finite 1))
                    (compute_snr m (register_to_config cfg sched) (timesteps I)))"
    by (auto simp: compute_min_snr_weights_def Let_def comp_def)
  with L show "\<exists>L. fst (forward_pass m cfg b sched g (Some \<gamma>)) = Inr L \<and> inputs L = I
             \<and> min_snr_weights L
                 = Some (map (\<lambda>x. if prediction_type (register_to_config cfg sched) = ''epsilon''
                                   then min_snr_weight \<gamma> x
                                   else fadd (min_snr_weight \<gamma> x) (Finite 1))
                           (compute_snr m (register_to_config cfg sched) (timesteps I)))"
    by blast
next
  show "(\<exists>I. fst (sample_inputs m b sched g) = Inr I) \<longleftrightarrow>
        (vae_output b \<noteq> None \<or> image_tensor b \<noteq> None)
        \<and> 0 < num_train_timesteps sched
        \<and> (text_encoder_output b \<noteq> None \<or> caption b \<noteq> None)"
    by (rule sample_inputs_returns)
qed

text \<open>
  C3 on a batch of two examples whose timesteps have the signal-to-noise ratios 1 and
  2, with gamma 1: the weights are 1 and 1/2 for \<^verbatim>\<open>epsilon\<close>, 2 and 3/2 for
  \<^verbatim>\<open>v_prediction\<close>; with a signal-to-noise ratio of 0 the weights and the loss are NaN;
  with the type \<^verbatim>\<open>sample\<close> the call raises.
\<close>

theorem train_forward_min_snr_witness:
  "(\<exists>L. fst (forward_pass demo_models (demo_config None) demo_batch demo_scheduler 0 (Some 1))
          = Inr L
        \<and> compute_snr demo_models demo_scheduler (timesteps (inputs L)) = [Finite 1, Finite 2]
        \<and> min_snr_weights L = Some [Finite 1, Finite (1 / 2)])
   \<and> fst (train_forward demo_models (demo_config None) demo_batch demo_scheduler 0 (Some 1))
       = Inr (Finite (7 / 2))
   \<and> (\<exists>L. fst (forward_pass demo_models (demo_config (Some ''v_prediction'')) demo_batch
                  demo_scheduler 0 (Some 1)) = Inr L
        \<and> min_snr_weights L = Some [Finite 2, Finite (3 / 2)])
   \<and> fst (train_forward demo_models (demo_config (Some ''v_prediction'')) demo_batch
            demo_scheduler 0 (Some 1))
       = Inr (Finite 32)
   \<and> (\<exists>L. fst (forward_pass zero_snr_models (demo_config None) demo_batch demo_scheduler 0
                  (Some 1)) = Inr L
        \<and> compute_snr zero_snr_models demo_scheduler (timesteps (inputs L))
            = [Finite 0, Finite 0]
        \<and> min_snr_weights L = Some [NaN, NaN])
   \<and> fst (train_forward zero_snr_models (demo_config None) demo_batch demo_scheduler 0 (Some 1))
       = Inr NaN
   \<and> fst (train_forward demo_models (demo_config (Some ''sample'')) demo_batch
            demo_scheduler 0 (Some 1))
       = Inl (ValueError ''Unknown prediction type sample'')"
proof -
  let ?I = "\<lparr> latents = rows_tensor [[1, 3], [2, 0]],
            noise = \<lparr> shape = (2, 1, 1, 2), elem = (\<lambda>i j k l. 1) \<rparr>,
            timesteps = [0, 1],
            noisy_latents =
              \<lparr> shape = (2, 1, 1, 2), elem = (\<lambda>i j k l. [[1, 3], [2, 0]] ! i ! l + 1) \<rparr>,
            encoder_hidden_states = [[[0::real]]] \<rparr>"
  let ?v = "demo_scheduler\<lparr>prediction_type := ''v_prediction''\<rparr>"
  have I: "fst (sample_inputs demo_models demo_batch demo_scheduler 0) = Inr ?I"
    by (simp add: demo_sample_inputs)
  have Iz: "fst (sample_inputs zero_snr_models demo_batch demo_scheduler 0) = Inr ?I"
    by (simp add: zero_snr_sample_inputs)
  have lw: "\<forall>ws. loss_weight demo_batch = Some ws \<longrightarrow> length ws = 2 \<or> length ws = 1"
    by (simp add: demo_batch_def)
  have snr: "compute_snr demo_models s [0, 1] = [Finite 1, Finite 2]" for s
    by (simp add: demo_models_def)
  have snrz: "compute_snr zero_snr_models s [0, 1] = [Finite 0, Finite 0]" for s
    by (simp add: zero_snr_models_def)
  have len: "length (compute_snr demo_models s (timesteps ?I)) = 2" for s
    by (simp add: demo_models_def)
  have lenz: "length (compute_snr zero_snr_models s (timesteps ?I)) = 2" for s
    by (simp add: zero_snr_models_def)
  have shp: "broadcast_shape
            (shape (unet demo_models (noisy_latents ?I) (timesteps ?I)
                      (encoder_hidden_states ?I)))
            (shape (noise ?I)) = Some (2, 1, 1, 2)"
    by (simp add: demo_models_def broadcast_dim_def)
  have shpz: "broadcast_shape
            (shape (unet zero_snr_models (noisy_latents ?I) (timesteps ?I)
                      (encoder_hidden_states ?I)))
            (shape (noise ?I)) = Some (2, 1, 1, 2)"
    by (simp add: zero_snr_models_def demo_models_def broadcast_dim_def)
  have shpv: "broadcast_shape
            (shape (unet demo_models (noisy_latents ?I) (timesteps ?I)
                      (encoder_hidden_states ?I)))
            (shape (get_velocity demo_models ?v (latents ?I) (noise ?I) (timesteps ?I)))
          = Some (2, 1, 1, 2)"
    by (simp add: demo_models_def broadcast_dim_def rows_tensor_def)
  \<comment> \<open>epsilon\<close>
  from train_forward_min_snr[where m = demo_models and cfg = "demo_config None"
      and b = demo_batch and sched = demo_scheduler and g = 0 and I = ?I
      and tgt = "noise ?I" and n = 2 and c = 1 and h = 1 and wd = 2 and \<gamma> = 1,
      THEN conjunct2, THEN conjunct2, THEN conjunct2, THEN conjunct2, THEN conjunct2,
      THEN conjunct2, THEN conjunct2, THEN conjunct2, THEN conjunct1,
      unfolded demo_register]
    I demo_select_target(1)[of demo_models "latents ?I" "noise ?I" "timesteps ?I"] shp lw len
  obtain L where
    L: "fst (forward_pass demo_models (demo_config None) demo_batch demo_scheduler 0 (Some 1))
          = Inr L" "inputs L = ?I"
       "min_snr_weights L
          = Some (map (\<lambda>x. if prediction_type demo_scheduler = ''epsilon''
                            then min_snr_weight 1 x
                            else fadd (min_snr_weight 1 x) (Finite 1))
                    (compute_snr demo_models demo_scheduler (timesteps ?I)))"
    by blast
  from L(3) have "min_snr_weights L = Some [Finite 1, Finite (1 / 2)]"
    by (simp add: demo_models_def min_snr_weight_def demo_scheduler_def)
  with L snr have 1: "\<exists>L. fst (forward_pass demo_models (demo_config None) demo_batch
                             demo_scheduler 0 (Some 1)) = Inr L
        \<and> compute_snr demo_models demo_scheduler (timesteps (inputs L)) = [Finite 1, Finite 2]
        \<and> min_snr_weights L = Some [Finite 1, Finite (1 / 2)]"
    by auto
  have 2: "fst (train_forward demo_models (demo_config None) demo_batch demo_scheduler 0
                  (Some 1)) = Inr (Finite (7 / 2))"
    by (simp add: forward_defs demo_forward_defs upt_rec)
  \<comment> \<open>v_prediction\<close>
  from train_forward_min_snr[where m = demo_models
      and cfg = "demo_config (Some ''v_prediction'')"
      and b = demo_batch and sched = demo_scheduler and g = 0 and I = ?I
      and tgt = "get_velocity demo_models ?v (latents ?I) (noise ?I) (timesteps ?I)"
      and n = 2 and c = 1 and h = 1 and wd = 2 and \<gamma> = 1,
      THEN conjunct2, THEN conjunct2, THEN conjunct2, THEN conjunct2, THEN conjunct2,
      THEN conjunct2, THEN conjunct2, THEN conjunct2, THEN conjunct1,
      unfolded demo_register]
    I demo_select_target(2)[of demo_models "latents ?I" "noise ?I" "timesteps ?I"] shpv lw len
  obtain Lv where
    Lv: "fst (forward_pass demo_models (demo_config (Some ''v_prediction'')) demo_batch
               demo_scheduler 0 (Some 1)) = Inr Lv"
       "min_snr_weights Lv
          = Some (map (\<lambda>x. if prediction_type ?v = ''epsilon''
                            then min_snr_weight 1 x
                            else fadd (min_snr_weight 1 x) (Finite 1))
                    (compute_snr demo_models ?v (timesteps ?I)))"
    by blast
  from Lv(2) have "min_snr_weights Lv = Some [Finite 2, Finite (3 / 2)]"
    by (simp add: demo_models_def min_snr_weight_def)
  with Lv have 3: "\<exists>L. fst (forward_pass demo_models (demo_config (Some ''v_prediction''))
                  demo_batch demo_scheduler 0 (Some 1)) = Inr L
        \<and> min_snr_weights L = Some [Finite 2, Finite (3 / 2)]"
    by auto
  have 4: "fst (train_forward demo_models (demo_config (Some ''v_prediction'')) demo_batch
            demo_scheduler 0 (Some 1)) = Inr (Finite 32)"
    by (simp add: forward_defs demo_forward_defs upt_rec)
  \<comment> \<open>signal-to-noise ratio 0\<close>
  from train_forward_min_snr[where m = zero_snr_models and cfg = "demo_config None"
      and b = demo_batch and sched = demo_scheduler and g = 0 and I = ?I
      and tgt = "noise ?I" and n = 2 and c = 1 and h = 1 and wd = 2 and \<gamma> = 1,
      THEN conjunct2, THEN conjunct2, THEN conjunct2, THEN conjunct2, THEN conjunct2,
      THEN conjunct2, THEN conjunct2, THEN conjunct2, THEN conjunct1,
      unfolded demo_register]
    Iz demo_select_target(1)[of zero_snr_models "latents ?I" "noise ?I" "timesteps ?I"] shpz lw lenz
  obtain Lz where
    Lz: "fst (forward_pass zero_snr_models (demo_config None) demo_batch demo_scheduler 0
                (Some 1)) = Inr Lz" "inputs Lz = ?I"
       "min_snr_weights Lz
          = Some (map (\<lambda>x. if prediction_type demo_scheduler = ''epsilon''
                            then min_snr_weight 1 x
                            else fadd (min_snr_weight 1 x) (Finite 1))
                    (compute_snr zero_snr_models demo_scheduler (timesteps ?I)))"
    by blast
  from train_forward_min_snr[where \<gamma> = 1,
      THEN conjunct2, THEN conjunct2, THEN conjunct2, THEN conjunct2, THEN conjunct2,
      THEN conjunct1]
  have z: "min_snr_weight 1 (Finite 0) = NaN"
    by simp
  from Lz(3) have "min_snr_weights Lz = Some [NaN, NaN]"
    by (simp add: zero_snr_models_def z demo_scheduler_def)
  with Lz snrz have 5: "\<exists>L. fst (forward_pass zero_snr_models (demo_config None) demo_batch
                  demo_scheduler 0 (Some 1)) = Inr L
        \<and> compute_snr zero_snr_models demo_scheduler (timesteps (inputs L))
            = [Finite 0, Finite 0]
        \<and> min_snr_weights L = Some [NaN, NaN]"
    by auto
  have 6: "fst (train_forward zero_snr_models (demo_config None) demo_batch demo_scheduler 0
                  (Some 1)) = Inr NaN"
    by (simp add: forward_defs demo_forward_defs upt_rec)
  \<comment> \<open>another type\<close>
  have "prediction_type (register_to_config (demo_config (Some ''sample'')) demo_scheduler)
          = ''sample''"
    by (simp add: demo_register)
  with I train_forward_min_snr[where m = demo_models
      and cfg = "demo_config (Some ''sample'')"
      and b = demo_batch and sched = demo_scheduler and g = 0 and I = ?I and \<gamma> = 1,
      THEN conjunct2, THEN conjunct2, THEN conjunct2, THEN conjunct2, THEN conjunct2,
      THEN conjunct2, THEN conjunct2, THEN conjunct1]
  have 7: "fst (train_forward demo_models (demo_config (Some ''sample'')) demo_batch
            demo_scheduler 0 (Some 1))
       = Inl (ValueError ''Unknown prediction type sample'')"
    by simp
  from 1 2 3 4 5 6 7 show ?thesis by blast
qed

subsection \<open>What the call changes\<close>

text \<open>
  Claim C8, as stated, fails: \<^verbatim>\<open>train_forward\<close> is not a pure function of its
  arguments. With \<^verbatim>\<open>prediction_type = "v_prediction"\<close> in the training config and a
  scheduler configured for \<^verbatim>\<open>epsilon\<close>, the scheduler is configured for
  \<^verbatim>\<open>v_prediction\<close> after the call; the call draws from the global random generator,
  which it leaves in another state; and the same arguments give another loss at
  another state of the generator.
\<close>

theorem train_forward_not_pure_counterexample:
  "noise_scheduler (snd (train_forward demo_models (demo_config (Some ''v_prediction''))
                           demo_batch demo_scheduler 0 None))
     \<noteq> demo_scheduler
   \<and> generator (snd (train_forward demo_models (demo_config None) demo_batch
                        demo_scheduler 0 None)) \<noteq> 0
   \<and> fst (train_forward demo_models (demo_config None) demo_batch demo_scheduler 0 (Some 1))
       \<noteq> fst (train_forward demo_models (demo_config None) demo_batch demo_scheduler 6
                 (Some 1))"
proof -
  have 1: "noise_scheduler (snd (train_forward demo_models (demo_config (Some ''v_prediction''))
                           demo_batch demo_scheduler 0 None))
             = demo_scheduler\<lparr>prediction_type := ''v_prediction''\<rparr>"
    by (simp add: train_forward_snd forward_pass_snd demo_sample_inputs demo_register)
  have 2: "generator (snd (train_forward demo_models (demo_config None) demo_batch
                        demo_scheduler 0 None)) = 6"
    by (simp add: train_forward_snd forward_pass_snd demo_sample_inputs)
  have 3: "fst (train_forward demo_models (demo_config None) demo_batch demo_scheduler 0
                  (Some 1)) = Inr (Finite (7 / 2))"
    by (simp add: forward_defs demo_forward_defs upt_rec)
  have 4: "fst (train_forward demo_models (demo_config None) demo_batch demo_scheduler 6
                  (Some 1)) = Inr (Finite (4 / 3))"
    by (simp add: forward_defs demo_forward_defs upt_rec)
  show ?thesis
    unfolding 1 2 3 4 by (simp add: demo_scheduler_def)
qed

text \<open>
  Claim C8, amended. \<^verbatim>\<open>train_forward\<close> returns a scalar loss or raises, and leaves the
  training config, the batch and the models as they were. It has two effects outside
  its return value. It overwrites the scheduler's prediction type with the one of the
  training config whenever the config defines one and the call reaches the selection
  of the target, that is when the batch supplies latents or an image, and a text
  encoder output or a caption, and the scheduler has at least one timestep; this
  holds whether or not a loss is returned afterwards. Otherwise the scheduler is
  left as it was, and nothing else of the scheduler changes. And it draws from the
  global random generator: when the batch has neither latents nor an image nothing
  is drawn; otherwise one value for each element of the latents (the noise), one
  value for each example (the timesteps) unless the scheduler has no timestep, and
  before that the VAE's sample when the latents are not cached.
\<close>

theorem train_forward_effects:
  "the_config (snd (train_forward m cfg b sched g gamma)) = cfg
   \<and> the_batch (snd (train_forward m cfg b sched g gamma)) = b
   \<and> the_models (snd (train_forward m cfg b sched g gamma)) = m
   \<and> noise_scheduler (snd (train_forward m cfg b sched g gamma))
       = (case fst (sample_inputs m b sched g) of
            Inl e \<Rightarrow> sched
          | Inr I \<Rightarrow>
              (case sd_lora_config.prediction_type cfg of
                 None \<Rightarrow> sched
               | Some p \<Rightarrow> sched\<lparr>prediction_type := p\<rparr>))
   \<and> num_train_timesteps (noise_scheduler (snd (train_forward m cfg b sched g gamma)))
       = num_train_timesteps sched
   \<and> generator (snd (train_forward m cfg b sched g gamma)) = snd (sample_inputs m b sched g)
   \<and> ((\<exists>I. fst (sample_inputs m b sched g) = Inr I) \<longleftrightarrow>
        (vae_output b \<noteq> None \<or> image_tensor b \<noteq> None)
        \<and> 0 < num_train_timesteps sched
        \<and> (text_encoder_output b \<noteq> None \<or> caption b \<noteq> None))
   \<and> (\<forall>e. fst (sample_inputs m b sched g) = Inl e \<longrightarrow>
          fst (train_forward m cfg b sched g gamma) = Inl e)
   \<and> (vae_output b = None \<and> image_tensor b = None \<longrightarrow>
        snd (sample_inputs m b sched g) = g)
   \<and> (\<forall>lat. vae_output b = Some lat \<longrightarrow>
          snd (sample_inputs m b sched g)
            = g + numel (shape lat)
                + (if num_train_timesteps sched = 0 then 0 else fst (shape lat)))
   \<and> (\<forall>img. vae_output b = None \<and> image_tensor b = Some img \<longrightarrow>
          snd (sample_inputs m b sched g)
            = g + numel (shape (vae_encode_sample m g img))
                + numel (shape (vae_encode_sample m g img))
                + (if num_train_timesteps sched = 0 then 0
                   else fst (shape (vae_encode_sample m g img))))"
proof (intro conjI allI impI)
  show "the_config (snd (train_forward m cfg b sched g gamma)) = cfg"
    "the_batch (snd (train_forward m cfg b sched g gamma)) = b"
    "the_models (snd (train_forward m cfg b sched g gamma)) = m"
    "generator (snd (train_forward m cfg b sched g gamma)) = snd (sample_inputs m b sched g)"
    by (simp_all add: train_forward_snd forward_pass_snd)
  show ns: "noise_scheduler (snd (train_forward m cfg b sched g gamma))
       = (case fst (sample_inputs m b sched g) of
            Inl e \<Rightarrow> sched
          | Inr I \<Rightarrow>
              (case sd_lora_config.prediction_type cfg of
                 None \<Rightarrow> sched
               | Some p \<Rightarrow> sched\<lparr>prediction_type := p\<rparr>))"
    by (simp add: train_forward_snd forward_pass_snd register_to_config_def split: sum.splits)
  show "num_train_timesteps (noise_scheduler (snd (train_forward m cfg b sched g gamma)))
       = num_train_timesteps sched"
    unfolding ns by (simp split: sum.splits option.splits)
  show "(\<exists>I. fst (sample_inputs m b sched g) = Inr I) \<longleftrightarrow>
        (vae_output b \<noteq> None \<or> image_tensor b \<noteq> None)
        \<and> 0 < num_train_timesteps sched
        \<and> (text_encoder_output b \<noteq> None \<or> caption b \<noteq> None)"
    by (rule sample_inputs_returns)
next
  fix e assume "fst (sample_inputs m b sched g) = Inl e"
  then show "fst (train_forward m cfg b sched g gamma) = Inl e"
    by (auto simp: train_forward_fst forward_pass_def Let_def split: sum.splits prod.splits)
next
  assume "vae_output b = None \<and> image_tensor b = None"
  then show "snd (sample_inputs m b sched g) = g"
    by (simp add: sample_inputs_eq get_latents_def)
next
  fix lat assume "vae_output b = Some lat"
  then show "snd (sample_inputs m b sched g)
            = g + numel (shape lat)
                + (if num_train_timesteps sched = 0 then 0 else fst (shape lat))"
    by (simp add: sample_inputs_eq get_latents_def split: sum.splits)
next
  fix img assume "vae_output b = None \<and> image_tensor b = Some img"
  then show "snd (sample_inputs m b sched g)
            = g + numel (shape (vae_encode_sample m g img))
                + numel (shape (vae_encode_sample m g img))
                + (if num_train_timesteps sched = 0 then 0
                   else fst (shape (vae_encode_sample m g img)))"
    by (simp add: sample_inputs_eq get_latents_def scale_def Let_def split: sum.splits)
qed

text \<open>
  The effects on concrete calls: with \<^verbatim>\<open>v_prediction\<close> configured the scheduler is
  overwritten and six values are drawn (four for the noise, two for the timesteps);
  with the type \<^verbatim>\<open>sample\<close> the scheduler is overwritten although the call raises; when
  the batch has neither latents nor an image nothing changes; when the latents are
  computed from the image, four more values are drawn.
\<close>

theorem train_forward_effects_witness:
  "snd (train_forward demo_models (demo_config (Some ''v_prediction'')) demo_batch
          demo_scheduler 0 None)
     = \<lparr> the_config = demo_config (Some ''v_prediction''), the_batch = demo_batch,
         the_models = demo_models,
         noise_scheduler = demo_scheduler\<lparr>prediction_type := ''v_prediction''\<rparr>,
         generator = 6 \<rparr>
   \<and> fst (train_forward demo_models (demo_config (Some ''sample'')) demo_batch
            demo_scheduler 0 None)
       = Inl (ValueError ''Unknown prediction type sample'')
   \<and> noise_scheduler (snd (train_forward demo_models (demo_config (Some ''sample''))
                             demo_batch demo_scheduler 0 None))
       = demo_scheduler\<lparr>prediction_type := ''sample''\<rparr>
   \<and> train_forward demo_models (demo_config (Some ''v_prediction'')) no_image_batch
        demo_scheduler 0 None
       = (Inl (KeyError ''image''),
          \<lparr> the_config = demo_config (Some ''v_prediction''), the_batch = no_image_batch,
            the_models = demo_models, noise_scheduler = demo_scheduler, generator = 0 \<rparr>)
   \<and> generator (snd (train_forward demo_models (demo_config None) image_batch
                        demo_scheduler 0 None)) = 10"
proof -
  let ?I = "\<lparr> latents = rows_tensor [[1, 3], [2, 0]],
            noise = \<lparr> shape = (2, 1, 1, 2), elem = (\<lambda>i j k l. 1) \<rparr>,
            timesteps = [0, 1],
            noisy_latents =
              \<lparr> shape = (2, 1, 1, 2), elem = (\<lambda>i j k l. [[1, 3], [2, 0]] ! i ! l + 1) \<rparr>,
            encoder_hidden_states = [[[0::real]]] \<rparr>"
  have I: "fst (sample_inputs demo_models demo_batch demo_scheduler 0) = Inr ?I"
    by (simp add: demo_sample_inputs)
  have cached: "vae_output demo_batch = Some (rows_tensor [[1, 3], [2, 0]])"
    by (simp add: demo_batch_def)
  have pt: "sd_lora_config.prediction_type (demo_config p) = p" for p
    by (simp add: demo_config_def)
  have T: "num_train_timesteps demo_scheduler = 4"
    by (simp add: demo_scheduler_def)
  \<comment> \<open>a call that returns a loss\<close>
  let ?w = "snd (train_forward demo_models (demo_config (Some ''v_prediction'')) demo_batch
                   demo_scheduler 0 None)"
  note E = train_forward_effects[where m = demo_models
      and cfg = "demo_config (Some ''v_prediction'')" and b = demo_batch
      and sched = demo_scheduler and g = 0 and gamma = None]
  from E have c: "the_config ?w = demo_config (Some ''v_prediction'')"
    and b: "the_batch ?w = demo_batch" and m: "the_models ?w = demo_models"
    by simp_all
  from E I have s: "noise_scheduler ?w = demo_scheduler\<lparr>prediction_type := ''v_prediction''\<rparr>"
    by (simp add: pt)
  from E cached have "generator ?w
      = 0 + numel (shape (rows_tensor [[1, 3], [2, 0]]))
          + (if num_train_timesteps demo_scheduler = 0 then 0
             else fst (shape (rows_tensor [[1, 3], [2, 0]])))"
    by simp
  then have r: "generator ?w = 6"
    by (simp add: T rows_tensor_def)
  from c b m s r have 1: "?w = \<lparr> the_config = demo_config (Some ''v_prediction''),
         the_batch = demo_batch, the_models = demo_models,
         noise_scheduler = demo_scheduler\<lparr>prediction_type := ''v_prediction''\<rparr>,
         generator = 6 \<rparr>"
    by (cases ?w) simp
  \<comment> \<open>a call that raises at the selection of the target\<close>
  have 2: "fst (train_forward demo_models (demo_config (Some ''sample'')) demo_batch
            demo_scheduler 0 None)
       = Inl (ValueError ''Unknown prediction type sample'')"
    using forward_pass_unknown_type[OF I, of "demo_config (Some ''sample'')" None]
    by (simp add: train_forward_fst demo_register)
  from train_forward_effects[where m = demo_models
      and cfg = "demo_config (Some ''sample'')" and b = demo_batch
      and sched = demo_scheduler and g = 0 and gamma = None] I
  have 3: "noise_scheduler (snd (train_forward demo_models (demo_config (Some ''sample''))
                             demo_batch demo_scheduler 0 None))
       = demo_scheduler\<lparr>prediction_type := ''sample''\<rparr>"
    by (simp add: pt)
  \<comment> \<open>a call that raises before\<close>
  let ?t = "train_forward demo_models (demo_config (Some ''v_prediction'')) no_image_batch
              demo_scheduler 0 None"
  have none: "vae_output no_image_batch = None \<and> image_tensor no_image_batch = None"
    by (simp add: no_image_batch_def demo_batch_def)
  have In: "sample_inputs demo_models no_image_batch demo_scheduler 0
              = (Inl (KeyError ''image''), 0)"
    using none by (simp add: sample_inputs_eq get_latents_def)
  note N = train_forward_effects[where m = demo_models
      and cfg = "demo_config (Some ''v_prediction'')" and b = no_image_batch
      and sched = demo_scheduler and g = 0 and gamma = None]
  from N have nc: "the_config (snd ?t) = demo_config (Some ''v_prediction'')"
    and nb: "the_batch (snd ?t) = no_image_batch" and nm: "the_models (snd ?t) = demo_models"
    by simp_all
  from N In have ns: "noise_scheduler (snd ?t) = demo_scheduler"
    by simp
  from N none have nr: "generator (snd ?t) = 0"
    by simp
  from N In have nf: "fst ?t = Inl (KeyError ''image'')"
    by simp
  from nc nb nm ns nr have "snd ?t = \<lparr> the_config = demo_config (Some ''v_prediction''),
            the_batch = no_image_batch, the_models = demo_models,
            noise_scheduler = demo_scheduler, generator = 0 \<rparr>"
    by (cases "snd ?t") simp
  with nf have 4: "?t = (Inl (KeyError ''image''),
          \<lparr> the_config = demo_config (Some ''v_prediction''), the_batch = no_image_batch,
            the_models = demo_models, noise_scheduler = demo_scheduler, generator = 0 \<rparr>)"
    by (cases ?t) simp
  \<comment> \<open>latents computed from the image\<close>
  have img: "vae_output image_batch = None
             \<and> image_tensor image_batch = Some (rows_tensor [[1, 3], [2, 0]])"
    by (simp add: image_batch_def demo_batch_def)
  from train_forward_effects[where m = demo_models and cfg = "demo_config None"
      and b = image_batch and sched = demo_scheduler and g = 0 and gamma = None] img
  have "generator (snd (train_forward demo_models (demo_config None) image_batch
                        demo_scheduler 0 None))
      = 0 + numel (shape (vae_encode_sample demo_models 0 (rows_tensor [[1, 3], [2, 0]])))
          + numel (shape (vae_encode_sample demo_models 0 (rows_tensor [[1, 3], [2, 0]])))
          + (if num_train_timesteps demo_scheduler = 0 then 0
             else fst (shape (vae_encode_sample demo_models 0 (rows_tensor [[1, 3], [2, 0]]))))"
    by simp
  then have 5: "generator (snd (train_forward demo_models (demo_config None) image_batch
                        demo_scheduler 0 None)) = 10"
    by (simp add: T rows_tensor_def demo_models_def)
  from 1 2 3 4 5 show ?thesis by blast
qed

section \<open>Properties of the training run\<close>

subsection \<open>Counters and failures of the single steps\<close>

lemma emit_simps [simp]:
  "events (emit e s) = events s @ [e]"
  "failed (emit e s) = failed s"
  "global_step (emit e s) = global_step s"
  "completed_epochs (emit e s) = completed_epochs s"
  by (simp_all add: emit_def)

lemma raise_error_simps [simp]:
  "events (raise_error e s) = events s"
  "failed (raise_error e s) = Some e"
  "global_step (raise_error e s) = global_step s"
  "completed_epochs (raise_error e s) = completed_epochs s"
  by (simp_all add: raise_error_def)

lemma save_checkpoint_counters [simp]:
  "global_step (save_checkpoint cfg ev a b s) = global_step s"
  "completed_epochs (save_checkpoint cfg ev a b s) = completed_epochs s"
  by (simp_all add: save_checkpoint_def save_sd_lora_checkpoint_def step_if_def Let_def)

lemma validate_counters [simp]:
  "global_step (validate ev a b s) = global_step s"
  "completed_epochs (validate ev a b s) = completed_epochs s"
  "failed (validate ev a b s) = failed s"
  by (simp_all add: validate_def step_if_def)

lemma save_if_due_counters [simp]:
  "global_step (save_if_due cfg ev every c s) = global_step s"
  "completed_epochs (save_if_due cfg ev every c s) = completed_epochs s"
  by (simp_all add: save_if_due_def split: sum.splits)

lemma validate_if_due_counters [simp]:
  "global_step (validate_if_due cfg ev every c s) = global_step s"
  "completed_epochs (validate_if_due cfg ev every c s) = completed_epochs s"
  by (simp_all add: validate_if_due_def split: sum.splits)

lemma on_sync_global_step [simp]:
  "global_step (on_sync cfg ev epoch idx s) = global_step s + 1"
  by (simp add: on_sync_def Let_def)

lemma train_batch_global_step:
  "failed s = None \<Longrightarrow>
   global_step (train_batch cfg ev epoch idx s) =
     global_step s +
       (if sync_gradients ev epoch idx \<and> (\<exists>l. forward ev epoch idx = Inr l) then 1 else 0)"
  by (auto simp: train_batch_def Let_def step_if_def split: sum.splits)

lemma train_batch_mono: "global_step s \<le> global_step (train_batch cfg ev epoch idx s)"
  by (auto simp: train_batch_def Let_def step_if_def split: sum.splits)

lemma batch_loop_mono: "global_step s \<le> global_step (batch_loop cfg ev N epoch idxs s)"
proof (induction idxs arbitrary: s)
  case Nil
  then show ?case by simp
next
  case (Cons idx rest)
  have "global_step s \<le> global_step (train_batch cfg ev epoch idx s)"
    by (rule train_batch_mono)
  moreover have "global_step (train_batch cfg ev epoch idx s)
     \<le> global_step (batch_loop cfg ev N epoch rest (train_batch cfg ev epoch idx s))"
    by (rule Cons.IH)
  ultimately show ?case by (simp add: Let_def)
qed

lemma train_epoch_mono: "global_step s \<le> global_step (train_epoch cfg ev N epoch s)"
  using batch_loop_mono[of s cfg ev N epoch "[0..<num_batches ev]"]
  by (simp add: train_epoch_def)

lemma save_if_due_clean:
  assumes "runs_cleanly cfg ev" and "every \<noteq> Some 0"
  shows "failed (save_if_due cfg ev every c s) = failed s"
  using assms
  by (auto simp: save_if_due_def cadence_hit_def save_checkpoint_def step_if_def
        save_sd_lora_checkpoint_def runs_cleanly_def Let_def split: option.splits)

lemma validate_if_due_clean:
  assumes "every \<noteq> Some 0"
  shows "failed (validate_if_due cfg ev every c s) = failed s"
  using assms
  by (auto simp: validate_if_due_def cadence_hit_def split: option.splits)

lemma on_sync_clean:
  assumes "runs_cleanly cfg ev" and "failed s = None"
  shows "failed (on_sync cfg ev epoch idx s) = None"
proof -
  from assms(1) have a: "save_every_n_steps cfg \<noteq> Some 0"
    and b: "validate_every_n_steps cfg \<noteq> Some 0"
    by (simp_all add: runs_cleanly_def)
  show ?thesis
    using assms(2)
    by (simp add: on_sync_def Let_def save_if_due_clean[OF assms(1) a]
          validate_if_due_clean[OF b])
qed

lemma train_batch_clean:
  assumes "runs_cleanly cfg ev" and "failed s = None"
  shows "failed (train_batch cfg ev epoch idx s) = None"
proof -
  from assms(1) obtain l where "forward ev epoch idx = Inr l"
    by (auto simp: runs_cleanly_def)
  then show ?thesis
    using assms(2) on_sync_clean[OF assms(1)]
    by (simp add: train_batch_def Let_def step_if_def)
qed

lemma train_batch_clean_step:
  assumes "runs_cleanly cfg ev" and "failed s = None"
  shows "global_step (train_batch cfg ev epoch idx s) =
           global_step s + (if sync_gradients ev epoch idx then 1 else 0)"
proof -
  from assms(1) obtain l where "forward ev epoch idx = Inr l"
    by (auto simp: runs_cleanly_def)
  then show ?thesis
    using train_batch_global_step[OF assms(2), of cfg ev epoch idx] by auto
qed

lemma batch_loop_clean:
  assumes "runs_cleanly cfg ev" and "failed s = None" and "int (global_step s) < N"
  shows "failed (batch_loop cfg ev N epoch idxs s) = None \<and>
         global_step (batch_loop cfg ev N epoch idxs s) =
           min (nat N) (global_step s + length (filter (sync_gradients ev epoch) idxs))"
  using assms(2,3)
proof (induction idxs arbitrary: s)
  case Nil
  then show ?case by simp
next
  case (Cons idx rest)
  let ?s1 = "train_batch cfg ev epoch idx s"
  have f1: "failed ?s1 = None"
    by (rule train_batch_clean[OF assms(1) Cons.prems(1)])
  have g1: "global_step ?s1 = global_step s + (if sync_gradients ev epoch idx then 1 else 0)"
    by (rule train_batch_clean_step[OF assms(1) Cons.prems(1)])
  show ?case
  proof (cases "int (global_step ?s1) \<ge> N")
    case True
    with g1 Cons.prems(2) have "sync_gradients ev epoch idx" and "global_step ?s1 = nat N"
      by (auto split: if_splits)
    with True f1 g1 show ?thesis by (simp add: Let_def)
  next
    case False
    then have lt: "int (global_step ?s1) < N" by simp
    from Cons.IH[OF f1 lt] False f1 g1 show ?thesis
      by (simp add: Let_def)
  qed
qed

lemma count_multiples:
  fixes g :: nat
  assumes "0 < g"
  shows "length (filter (\<lambda>i. Suc i mod g = 0) [0..<m]) = m div g"
  by (induction m) (simp_all add: div_Suc)

lemma neg_div_Suc:
  fixes m k :: nat
  assumes "0 < k"
  shows "(- int (Suc m)) div int k = - int (m div k) - 1"
proof -
  have "(- int (Suc m)) div int k =
        (if int (Suc m) mod int k = 0 then - (int (Suc m) div int k)
         else - (int (Suc m) div int k) - 1)"
    using assms by (intro zdiv_zminus1_eq_if) simp
  also have "\<dots> = (if Suc m mod k = 0 then - int (Suc m div k) else - int (Suc m div k) - 1)"
    by (simp only: flip: of_nat_div of_nat_mod) simp
  also have "\<dots> = - int (m div k) - 1"
    by (simp add: div_Suc)
  finally show ?thesis .
qed

lemma count_boundaries:
  assumes "0 < n" and "0 < g"
  shows "length (filter (accumulation_boundary g n epoch) [0..<n]) = nat (- ((- int n) div g))"
proof -
  obtain m where n: "n = Suc m" using assms(1) by (cases n) auto
  obtain k where g: "g = int k" and k: "0 < k"
    using assms(2) by (metis nat_0_le order_less_imp_le zero_less_nat_eq)
  have 1: "filter (accumulation_boundary g n epoch) [0..<m] = filter (\<lambda>i. Suc i mod k = 0) [0..<m]"
  proof (rule filter_cong[OF refl])
    fix i assume "i \<in> set [0..<m]"
    then have "i + 1 \<noteq> n" using n by simp
    moreover have "((int i + 1) mod int k = 0) = (Suc i mod k = 0)"
      by (metis Suc_eq_plus1 of_nat_Suc of_nat_eq_0_iff of_nat_mod add.commute)
    ultimately show "accumulation_boundary g n epoch i = (Suc i mod k = 0)"
      by (simp add: accumulation_boundary_def g)
  qed
  have "length (filter (accumulation_boundary g n epoch) [0..<n]) = m div k + 1"
    using count_multiples[OF k, of m] 1
    by (simp add: n accumulation_boundary_def)
  moreover have "nat (- ((- int n) div g)) = m div k + 1"
  proof -
    have "(- int (Suc m)) div int k = - int (m div k) - 1"
      by (rule neg_div_Suc[OF k])
    then show ?thesis by (simp add: n g)
  qed
  ultimately show ?thesis by simp
qed

lemma run_steps_failed: "failed s \<noteq> None \<Longrightarrow> run_steps fs s = s"
  by (cases fs) auto

lemma run_steps_append: "run_steps (fs @ gs) s = run_steps gs (run_steps fs s)"
  by (induction fs arbitrary: s) (simp_all add: run_steps_failed)

lemma train_epoch_clean:
  assumes "runs_cleanly cfg ev" and "failed s = None" and "int (global_step s) < N"
  shows "failed (train_epoch cfg ev N epoch s) = None \<and>
         global_step (train_epoch cfg ev N epoch s) =
           min (nat N)
             (global_step s + length (filter (sync_gradients ev epoch) [0..<num_batches ev]))"
proof -
  from assms(1) have a: "save_every_n_epochs cfg \<noteq> Some 0"
    and b: "validate_every_n_epochs cfg \<noteq> Some 0"
    by (simp_all add: runs_cleanly_def)
  from batch_loop_clean[OF assms, of epoch "[0..<num_batches ev]"] assms(2)
  show ?thesis
    by (simp add: train_epoch_def save_if_due_clean[OF assms(1) a] validate_if_due_clean[OF b])
qed

lemma epochs_clean:
  assumes clean: "runs_cleanly cfg ev"
    and per_epoch: "\<And>epoch. length (filter (sync_gradients ev epoch) [0..<num_batches ev]) = c"
    and last: "(E - 1) * c < nat N" and enough: "nat N \<le> E * c"
    and k: "k < E" and s: "failed s = None" "global_step s = k * c"
  shows "failed (run_steps (map (train_epoch cfg ev N) [k..<E]) s) = None \<and>
         global_step (run_steps (map (train_epoch cfg ev N) [k..<E]) s) = nat N"
  using k s
proof (induction "E - k" arbitrary: k s)
  case 0
  then show ?case by simp
next
  case (Suc d)
  let ?s1 = "train_epoch cfg ev N k s"
  have "k \<le> E - 1" using Suc.prems(1) by simp
  then have "k * c \<le> (E - 1) * c" by (rule mult_le_mono1)
  with last have lt: "int (global_step s) < N" using Suc.prems(3) by linarith
  from train_epoch_clean[OF clean Suc.prems(2) lt, of k] per_epoch
  have f1: "failed ?s1 = None" and g1: "global_step ?s1 = min (nat N) (k * c + c)"
    by (simp_all add: Suc.prems(3))
  have unfold: "run_steps (map (train_epoch cfg ev N) [k..<E]) s =
                run_steps (map (train_epoch cfg ev N) [Suc k..<E]) ?s1"
    using Suc.prems(1,2) by (simp add: upt_conv_Cons)
  show ?case
  proof (cases "Suc k < E")
    case True
    then have "Suc k \<le> E - 1" by simp
    then have "Suc k * c \<le> (E - 1) * c" by (rule mult_le_mono1)
    with last g1 have g1': "global_step ?s1 = Suc k * c" by simp
    have "d = E - Suc k" using Suc.hyps(2) by simp
    from Suc.hyps(1)[OF this True f1 g1'] unfold show ?thesis by simp
  next
    case False
    with Suc.prems(1) have E: "E = Suc k" by simp
    with enough g1 have "global_step ?s1 = nat N" by simp
    with f1 unfold E show ?thesis by simp
  qed
qed

lemma ceil_div_bounds:
  fixes N spe :: int
  assumes "0 < N" and "0 < spe"
  shows "0 < - ((- N) div spe)"
    and "(- ((- N) div spe) - 1) * spe < N"
    and "N \<le> - ((- N) div spe) * spe"
proof -
  let ?q = "(- N) div spe" and ?r = "(- N) mod spe"
  have eq: "?q * spe + ?r = - N" by (rule div_mult_mod_eq)
  have r: "0 \<le> ?r" "?r < spe" using assms(2) by simp_all
  have m1: "- ?q * spe = - (?q * spe)" and m2: "(- ?q - 1) * spe = - (?q * spe) - spe"
    by (simp_all add: algebra_simps)
  from eq r show "N \<le> - ?q * spe" unfolding m1 by linarith
  from eq r show "(- ?q - 1) * spe < N" unfolding m2 by linarith
  have "?q * spe < 0" using eq r assms(1) by linarith
  then have "?q < 0" using assms(2)
    by (simp add: mult_less_0_iff)
  then show "0 < - ?q" by simp
qed

lemma nat_epoch_bounds:
  fixes E spe N :: int
  assumes "0 < E" and "0 < spe" and "(E - 1) * spe < N" and "N \<le> E * spe"
  shows "(nat E - 1) * nat spe < nat N" and "nat N \<le> nat E * nat spe"
proof -
  have a: "int (nat E - 1) = E - 1" using assms(1) by simp
  have "int ((nat E - 1) * nat spe) = (E - 1) * spe"
    using assms(2) by (simp only: of_nat_mult a) simp
  with assms(3) show "(nat E - 1) * nat spe < nat N" by linarith
  have "int (nat E * nat spe) = E * spe"
    using assms(1,2) by simp
  with assms(4) show "nat N \<le> nat E * nat spe" by linarith
qed

lemma training_loop_clean:
  assumes clean: "runs_cleanly cfg ev"
    and n: "0 < num_batches ev" and g: "0 < gradient_accumulation_steps cfg"
    and sync: "sync_gradients ev =
                 accumulation_boundary (gradient_accumulation_steps cfg) (num_batches ev)"
    and budget: "num_train_steps cfg
                   (- ((- int (num_batches ev)) div gradient_accumulation_steps cfg)) = Inr N"
    and N: "0 \<le> N"
    and s: "failed s = None"
  shows "failed (training_loop cfg ev s) = None \<and>
         global_step (training_loop cfg ev s) = nat N \<and>
         last (events (training_loop cfg ev s)) = EndTraining"
proof -
  let ?g = "gradient_accumulation_steps cfg" and ?n = "num_batches ev"
  let ?spe = "- ((- int ?n) div ?g)"
  let ?E = "- ((- N) div ?spe)"
  let ?s0 = "s\<lparr>global_step := 0, completed_epochs := 0\<rparr>"
  let ?pre = "[emit (CreateLrScheduler N), emit Prepare,
               step_if (is_main_process ev) (emit InitTrackers)]"
  let ?s1 = "run_steps ?pre ?s0"
  let ?s2 = "run_steps (map (train_epoch cfg ev N) [0..<nat ?E]) ?s1"
  have c: "\<And>epoch. length (filter (sync_gradients ev epoch) [0..<?n]) = nat ?spe"
    using count_boundaries[OF n g] by (simp add: sync)
  have spe: "0 < ?spe"
    using ceil_div_bounds(1)[of "int ?n" ?g] n g by simp
  have s1: "failed ?s1 = None" "global_step ?s1 = 0"
    using s by (simp_all add: step_if_def)
  have s2: "failed ?s2 = None \<and> global_step ?s2 = nat N"
  proof (cases "N = 0")
    case True
    then show ?thesis using s1 by simp
  next
    case False
    with N have pos: "0 < N" by simp
    note b = ceil_div_bounds[OF pos spe]
    note last = nat_epoch_bounds(1)[OF b(1) spe b(2) b(3)]
    note enough = nat_epoch_bounds(2)[OF b(1) spe b(2) b(3)]
    have k: "0 < nat ?E" using b(1) by simp
    from epochs_clean[OF clean c last enough k s1(1)] s1(2) show ?thesis by simp
  qed
  have cd1: "ceil_div (int ?n) ?g = Inr ?spe" using g by (simp add: ceil_div_def)
  have cd2: "ceil_div N ?spe = Inr ?E" using spe by (simp add: ceil_div_def)
  have "training_loop cfg ev s =
          run_steps (?pre @ map (train_epoch cfg ev N) [0..<nat ?E] @ [emit EndTraining]) ?s0"
    by (simp only: training_loop_def cd1 budget cd2 sum.case)
  then have "training_loop cfg ev s = run_steps [emit EndTraining] ?s2"
    by (simp only: run_steps_append)
  with s2 show ?thesis by simp
qed

subsection \<open>The phases of \<^verbatim>\<open>train\<close>\<close>

lemma run_steps_invariant:
  assumes "I s" and "\<And>f t. f \<in> set fs \<Longrightarrow> I t \<Longrightarrow> failed t = None \<Longrightarrow> I (f t)"
  shows "I (run_steps fs s)"
  using assms
proof (induction fs arbitrary: s)
  case Nil
  then show ?case by simp
next
  case (Cons f fs)
  show ?case
  proof (cases "failed s = None")
    case True
    have "I (f s)" using Cons.prems True by simp
    then have "I (run_steps fs (f s))"
      using Cons.prems(2) by (intro Cons.IH) simp_all
    with True show ?thesis by simp
  next
    case False
    with Cons.prems(1) show ?thesis by auto
  qed
qed

lemma train_phases:
  "train cfg ev =
     run_steps [training_loop cfg ev]
       (run_steps (assertion_steps cfg) (run_steps (setup_steps cfg ev) initial_state))"
proof -
  have "train cfg ev =
          run_steps (setup_steps cfg ev @ assertion_steps cfg @ [training_loop cfg ev])
            initial_state"
    by (simp add: train_def setup_steps_def assertion_steps_def)
  then show ?thesis by (simp only: run_steps_append)
qed

lemma build_data_loader_before:
  "before_training t \<Longrightarrow> failed t = None \<Longrightarrow> before_training (build_data_loader dl t)"
  by (auto simp: before_training_def build_data_loader_def)

lemma setup_before_training: "before_training (run_steps (setup_steps cfg ev) initial_state)"
proof (rule run_steps_invariant)
  show "before_training initial_state"
    by (simp add: before_training_def initial_state_def)
next
  fix f t
  assume f: "f \<in> set (setup_steps cfg ev)" and t: "before_training t" "failed t = None"
  have emit: "before_training (emit e t)" if "\<And>a b. e \<noteq> TrainForward a b" for e
    using t that by (auto simp: before_training_def)
  have bdl: "before_training (build_data_loader (data_loader cfg) t)"
    by (rule build_data_loader_before[OF t])
  have bdl': "failed (build_data_loader (data_loader cfg) t) = None \<Longrightarrow>
      before_training (emit e (build_data_loader (data_loader cfg) t))"
    if "\<And>a b. e \<noteq> TrainForward a b" for e
    using bdl that by (auto simp: before_training_def)
  have raise: "before_training (raise_error (ValueError m) t)" for m
    using t by (auto simp: before_training_def)
  from f consider
      (emit) e where "f = emit e" "\<And>a b. e \<noteq> TrainForward a b"
    | (id) "f = id"
    | (cond) c e where "f = step_if c (emit e)" "\<And>a b. e \<noteq> TrainForward a b"
    | (te) "f = prepare_text_encoder_cache cfg ev"
    | (vae) "f = prepare_vae_cache cfg ev"
    | (dl) "f = build_data_loader (data_loader cfg)"
    by (auto simp: setup_steps_def split: option.splits)
  then show "before_training (f t)"
  proof cases
    case emit
    then show ?thesis using \<open>\<And>e. (\<And>a b. e \<noteq> TrainForward a b) \<Longrightarrow> before_training (emit e t)\<close> by simp
  next
    case id
    then show ?thesis using t by simp
  next
    case cond
    then show ?thesis
      using \<open>\<And>e. (\<And>a b. e \<noteq> TrainForward a b) \<Longrightarrow> before_training (emit e t)\<close> t
      by (simp add: step_if_def)
  next
    case te
    then show ?thesis
      using t bdl bdl'[of CacheTextEncoderOutputs] raise
      by (auto simp: prepare_text_encoder_cache_def step_if_def cache_text_encoder_outputs_fn_def)
  next
    case vae
    then show ?thesis
      using t bdl bdl'[of CacheVaeOutputs] raise
      by (auto simp: prepare_vae_cache_def step_if_def)
  next
    case dl
    then show ?thesis using bdl by simp
  qed
qed

lemma check_exactly_one_cases:
  "check_exactly_one a b t = (if (a \<noteq> None) \<noteq> (b \<noteq> None) then t else raise_error AssertionError t)"
  by (cases a; cases b) (simp_all add: check_exactly_one_def count_set_def)

lemma assertions_pass:
  "exactly_one_each cfg \<Longrightarrow> run_steps (assertion_steps cfg) t = t"
  by (cases "failed t = None")
     (simp_all add: assertion_steps_def check_exactly_one_cases exactly_one_each_def)

lemma assertions_fail:
  assumes "\<not> exactly_one_each cfg" and "failed t = None"
  shows "run_steps (assertion_steps cfg) t = raise_error AssertionError t"
  using assms
  by (auto simp: assertion_steps_def check_exactly_one_cases exactly_one_each_def)

lemma train_rejects:
  assumes "\<not> exactly_one_each cfg"
  shows "(failed (train cfg ev) = Some AssertionError \<or>
          (\<exists>m. failed (train cfg ev) = Some (ValueError m))) \<and>
         (\<forall>e i. TrainForward e i \<notin> set (events (train cfg ev))) \<and>
         global_step (train cfg ev) = 0"
proof -
  let ?p = "run_steps (setup_steps cfg ev) initial_state"
  have p: "before_training ?p" by (rule setup_before_training)
  show ?thesis
  proof (cases "failed ?p = None")
    case True
    then have "train cfg ev = raise_error AssertionError ?p"
      by (simp add: train_phases assertions_fail[OF assms True])
    with p show ?thesis by (simp add: before_training_def)
  next
    case False
    then have "train cfg ev = ?p"
      by (simp add: train_phases run_steps_failed del: run_steps.simps)
    with p False show ?thesis by (auto simp: before_training_def)
  qed
qed

lemma train_text_encoder_cache_conflict:
  assumes "cache_text_encoder_outputs cfg" and "train_text_encoder cfg"
  shows "failed (train cfg ev) =
           Some (ValueError (quoted ''cache_text_encoder_outputs'' @ '' and '' @
                  quoted ''train_text_encoder'' @ '' cannot both be True.''))"
    and "events (train cfg ev) =
           [MakeOutputDirs, InitializeAccelerator]
           @ (case seed cfg of None \<Rightarrow> [] | Some sd \<Rightarrow> [SetSeed sd])
           @ [WriteConfigJson, LoadModels]
           @ (if xformers cfg then [EnableXformers] else [])"
  using assms
  by (auto simp: train_def initial_state_def step_if_def prepare_text_encoder_cache_def
        split: option.splits)


subsection \<open>Logged updates\<close>

lemma count_updates_append [simp]:
  "count_updates (xs @ ys) = count_updates xs + count_updates ys"
  by (induction xs rule: count_updates.induct) simp_all

lemma emit_counted:
  "updates_counted s \<Longrightarrow> (\<And>g. e \<noteq> Log g) \<Longrightarrow> updates_counted (emit e s)"
  by (cases e) (auto simp: updates_counted_def)

lemma raise_counted: "updates_counted s \<Longrightarrow> updates_counted (raise_error e s)"
  by (simp add: updates_counted_def)

lemma save_if_due_counted:
  "updates_counted s \<Longrightarrow> updates_counted (save_if_due cfg ev every c s)"
  by (auto simp: save_if_due_def save_checkpoint_def save_sd_lora_checkpoint_def step_if_def
        Let_def updates_counted_def split: sum.splits)

lemma validate_if_due_counted:
  "updates_counted s \<Longrightarrow> updates_counted (validate_if_due cfg ev every c s)"
  by (auto simp: validate_if_due_def validate_def step_if_def updates_counted_def
        split: sum.splits)

lemma on_sync_counted:
  assumes "updates_counted s" and "failed s = None"
  shows "updates_counted (on_sync cfg ev epoch idx s)"
proof -
  let ?s1 = "emit (Log (global_step s + 1))
               (s\<lparr>global_step := global_step s + 1,
                   completed_epochs :=
                     (if idx + 1 < num_batches ev then epoch else epoch + 1)\<rparr>)"
  have s1: "updates_counted ?s1"
    using assms(1) by (simp add: updates_counted_def)
  have "on_sync cfg ev epoch idx s =
          run_steps [save_if_due cfg ev (save_every_n_steps cfg) (global_step s + 1),
                     validate_if_due cfg ev (validate_every_n_steps cfg) (global_step s + 1)]
            ?s1"
    using assms(2) by (simp add: on_sync_def Let_def)
  moreover have "updates_counted (run_steps
          [save_if_due cfg ev (save_every_n_steps cfg) (global_step s + 1),
           validate_if_due cfg ev (validate_every_n_steps cfg) (global_step s + 1)] ?s1)"
    by (rule run_steps_invariant[where I = updates_counted, OF s1])
       (auto simp: save_if_due_counted validate_if_due_counted)
  ultimately show ?thesis by simp
qed

lemma train_batch_counted:
  assumes "updates_counted s" and "failed s = None"
  shows "updates_counted (train_batch cfg ev epoch idx s)"
proof (cases "forward ev epoch idx")
  case (Inl e)
  with assms(1) show ?thesis
    by (simp add: train_batch_def Let_def updates_counted_def)
next
  case (Inr l)
  have s1: "updates_counted (emit (TrainForward epoch idx) s)"
    using assms(1) by (simp add: emit_counted)
  have "updates_counted (run_steps
            [emit Backward,
             step_if (sync_gradients ev epoch idx \<and> max_grad_norm cfg \<noteq> None)
               (emit ClipGradNorm),
             emit OptimizerStep,
             step_if (sync_gradients ev epoch idx) (on_sync cfg ev epoch idx)]
            (emit (TrainForward epoch idx) s))"
    by (rule run_steps_invariant[where I = updates_counted, OF s1])
       (auto simp: emit_counted on_sync_counted step_if_def)
  with Inr show ?thesis by (simp add: train_batch_def Let_def)
qed

lemma batch_loop_counted:
  assumes "updates_counted s" and "failed s = None"
  shows "updates_counted (batch_loop cfg ev N epoch idxs s)"
  using assms
proof (induction idxs arbitrary: s)
  case Nil
  then show ?case by simp
next
  case (Cons idx rest)
  have 1: "updates_counted (train_batch cfg ev epoch idx s)"
    by (rule train_batch_counted[OF Cons.prems])
  show ?case
    using 1 Cons.IH[OF 1] by (auto simp: Let_def)
qed

lemma train_epoch_counted:
  assumes "updates_counted s" and "failed s = None"
  shows "updates_counted (train_epoch cfg ev N epoch s)"
  unfolding train_epoch_def
  by (rule run_steps_invariant[where I = updates_counted, OF assms(1)])
     (auto simp: batch_loop_counted save_if_due_counted validate_if_due_counted)

lemma training_loop_counted:
  assumes "count_updates (events s) = 0" and "global_step s = 0"
  shows "updates_counted (training_loop cfg ev s)"
proof -
  have s0: "updates_counted (s\<lparr>global_step := 0, completed_epochs := 0\<rparr>)"
    using assms by (simp add: updates_counted_def)
  have loop: "updates_counted
       (run_steps
         ([emit (CreateLrScheduler n), emit Prepare,
           step_if (is_main_process ev) (emit InitTrackers)]
          @ map (train_epoch cfg ev n) [0..<nat e] @ [emit EndTraining])
         (s\<lparr>global_step := 0, completed_epochs := 0\<rparr>))" for n e
    by (rule run_steps_invariant[where I = updates_counted, OF s0])
       (auto simp: emit_counted train_epoch_counted step_if_def)
  have r: "updates_counted (raise_error e s)" for e
    using assms by (simp add: updates_counted_def)
  show ?thesis
    using loop r
    by (auto simp: training_loop_def split: sum.splits)
qed

lemma setup_no_updates:
  "count_updates (events (run_steps (setup_steps cfg ev) initial_state)) = 0 \<and>
   global_step (run_steps (setup_steps cfg ev) initial_state) = 0"
proof (rule run_steps_invariant[where I = "\<lambda>t::train_state. count_updates (events t) = 0 \<and> global_step t = 0"])
  show "count_updates (events initial_state) = 0 \<and> global_step initial_state = 0"
    by (simp add: initial_state_def)
next
  fix f and t :: train_state
  assume f: "f \<in> set (setup_steps cfg ev)"
    and t: "count_updates (events t) = 0 \<and> global_step t = 0" "failed t = None"
  from f t show "count_updates (events (f t)) = 0 \<and> global_step (f t) = 0"
    by (auto simp: setup_steps_def step_if_def prepare_text_encoder_cache_def
          prepare_vae_cache_def cache_text_encoder_outputs_fn_def build_data_loader_def
          split: option.splits)
qed

lemma assertions_no_updates:
  assumes "count_updates (events t) = 0 \<and> global_step t = 0"
  shows "count_updates (events (run_steps (assertion_steps cfg) t)) = 0 \<and>
         global_step (run_steps (assertion_steps cfg) t) = 0"
  by (rule run_steps_invariant[where I = "\<lambda>t::train_state. count_updates (events t) = 0 \<and> global_step t = 0",
            OF assms])
     (auto simp: assertion_steps_def check_exactly_one_cases)

lemma train_counted: "count_updates (events (train cfg ev)) = global_step (train cfg ev)"
proof -
  let ?q = "run_steps (assertion_steps cfg) (run_steps (setup_steps cfg ev) initial_state)"
  have q: "count_updates (events ?q) = 0 \<and> global_step ?q = 0"
    by (rule assertions_no_updates[OF setup_no_updates])
  then have "updates_counted (training_loop cfg ev ?q)"
    by (intro training_loop_counted) simp_all
  with q have "updates_counted (run_steps [training_loop cfg ev] ?q)"
    by (simp add: updates_counted_def)
  then show ?thesis by (simp add: train_phases updates_counted_def)
qed

subsection \<open>Concrete runs\<close>

lemmas loop_defs = train_def initial_state_def step_if_def prepare_text_encoder_cache_def
  prepare_vae_cache_def build_data_loader_def check_exactly_one_def count_set_def
  training_loop_def ceil_div_def num_train_steps_def train_epoch_def train_batch_def
  on_sync_def save_if_due_def validate_if_due_def cadence_hit_def save_checkpoint_def
  save_sd_lora_checkpoint_def validate_def accumulation_boundary_def
  cache_text_encoder_outputs_fn_def emit_def raise_error_def demo_env_def demo_config_def
  scenario_config_def scenario_env_def Let_def

lemma scenario_runs_cleanly: "runs_cleanly scenario_config scenario_env"
  by (simp add: runs_cleanly_def scenario_config_def scenario_env_def demo_config_def
        demo_env_def)

text \<open>
  The scenario run: two epochs of ten batches with an optimizer update after every
  second batch, five updates per epoch, ten in all; the loop is left after the last
  batch of the second epoch.
\<close>

lemma scenario_run:
  "failed (train scenario_config scenario_env) = None"
  "global_step (train scenario_config scenario_env) = 10"
  "completed_epochs (train scenario_config scenario_env) = 2"
  "forwards_and_updates (events (train scenario_config scenario_env)) =
     [TrainForward 0 0, TrainForward 0 1, Log 1, TrainForward 0 2, TrainForward 0 3, Log 2,
      TrainForward 0 4, TrainForward 0 5, Log 3, TrainForward 0 6, TrainForward 0 7, Log 4,
      TrainForward 0 8, TrainForward 0 9, Log 5,
      TrainForward 1 0, TrainForward 1 1, Log 6, TrainForward 1 2, TrainForward 1 3, Log 7,
      TrainForward 1 4, TrainForward 1 5, Log 8, TrainForward 1 6, TrainForward 1 7, Log 9,
      TrainForward 1 8, TrainForward 1 9, Log 10]"
  by (simp_all add: loop_defs upt_rec)

subsection \<open>The step counter\<close>

lemma epochs_mono:
  "global_step s \<le> global_step (run_steps (map (train_epoch cfg ev N) epochs) s)"
proof (induction epochs arbitrary: s)
  case Nil
  then show ?case by simp
next
  case (Cons e es)
  have "global_step s \<le> global_step (train_epoch cfg ev N e s)"
    by (rule train_epoch_mono)
  also have "\<dots> \<le> global_step (run_steps (map (train_epoch cfg ev N) es)
                                  (train_epoch cfg ev N e s))"
    by (rule Cons.IH)
  finally show ?case by simp
qed

text \<open>
  Claim C5. A batch whose forward pass returns raises \<^verbatim>\<open>global_step\<close> by exactly one
  when the accelerator reports a synchronisation of the gradients after it, and leaves
  it as it is otherwise (a batch by itself never counts). Over any part of a training
  run, a list of batches, an epoch or a list of epochs, \<^verbatim>\<open>global_step\<close> never decreases.
  At the end of every run of \<^verbatim>\<open>train\<close>, \<^verbatim>\<open>global_step\<close> is the number of updates logged
  at the synchronisation points.
\<close>

theorem global_step_counts_sync_boundaries:
  "(failed s = None \<longrightarrow>
      global_step (train_batch cfg ev epoch idx s) =
        global_step s +
          (if sync_gradients ev epoch idx \<and> (\<exists>l. forward ev epoch idx = Inr l)
           then 1 else 0))
   \<and> global_step s \<le> global_step (batch_loop cfg ev N epoch idxs s)
   \<and> global_step s \<le> global_step (train_epoch cfg ev N epoch s)
   \<and> global_step s \<le> global_step (run_steps (map (train_epoch cfg ev N) epochs) s)
   \<and> global_step (train cfg ev) = count_updates (events (train cfg ev))"
  using train_batch_global_step[of s cfg ev epoch idx] batch_loop_mono[of s cfg ev N epoch idxs]
    train_epoch_mono[of s cfg ev N epoch] epochs_mono[of s cfg ev N epochs]
    train_counted[of cfg ev]
  by simp

text \<open>
  C5 on the first two batches of the scenario: no update after the first batch, one
  after the second.
\<close>

theorem global_step_counts_sync_boundaries_witness:
  "failed initial_state = None
   \<and> \<not> sync_gradients scenario_env 0 0
   \<and> global_step (train_batch scenario_config scenario_env 0 0 initial_state) = 0
   \<and> sync_gradients scenario_env 0 1
   \<and> global_step (train_batch scenario_config scenario_env 0 1 initial_state) = 1
   \<and> count_updates (events (train scenario_config scenario_env)) = 10"
proof -
  have f: "failed initial_state = None" and g: "global_step initial_state = 0"
    by (simp_all add: initial_state_def)
  have s0: "\<not> sync_gradients scenario_env 0 0" and s1: "sync_gradients scenario_env 0 1"
    and fw: "forward scenario_env 0 1 = Inr 0"
    by (simp_all add: scenario_env_def scenario_config_def demo_env_def demo_config_def
          accumulation_boundary_def)
  from f s0 g
    global_step_counts_sync_boundaries[of initial_state scenario_config scenario_env 0 0]
  have 0: "global_step (train_batch scenario_config scenario_env 0 0 initial_state) = 0"
    by simp
  from f s1 fw g
    global_step_counts_sync_boundaries[of initial_state scenario_config scenario_env 0 1]
  have 1: "global_step (train_batch scenario_config scenario_env 0 1 initial_state) = 1"
    by simp
  from scenario_run(2)
    global_step_counts_sync_boundaries[of initial_state scenario_config scenario_env 0 0]
  have 2: "count_updates (events (train scenario_config scenario_env)) = 10"
    by simp
  from f s0 0 s1 1 2 show ?thesis by blast
qed

subsection \<open>The end of training\<close>

text \<open>
  The \<^verbatim>\<open>break\<close> of line 619: once a batch has brought \<^verbatim>\<open>global_step\<close> to the budget, the
  remaining batches of the epoch are not processed.
\<close>

lemma batch_loop_break:
  assumes "failed (train_batch cfg ev epoch idx s) = None"
    and "num_steps \<le> int (global_step (train_batch cfg ev epoch idx s))"
  shows "batch_loop cfg ev num_steps epoch (idx # rest) s = train_batch cfg ev epoch idx s"
  using assms by (simp add: Let_def)

text \<open>
  With at least one batch per epoch, positive accumulation steps, the accelerator's
  accumulation boundaries and nothing raising, the loop ends with \<^verbatim>\<open>global_step\<close> equal
  to the budget: a positive \<^verbatim>\<open>max_train_steps\<close>, or \<^verbatim>\<open>max_train_epochs\<close> times the number of
  steps per epoch when \<^verbatim>\<open>max_train_steps\<close> is \<^verbatim>\<open>None\<close>.
\<close>

lemma training_loop_reaches_budget:
  assumes "runs_cleanly cfg ev"
    and "0 < num_batches ev" and "0 < gradient_accumulation_steps cfg"
    and "sync_gradients ev =
           accumulation_boundary (gradient_accumulation_steps cfg) (num_batches ev)"
    and "failed s = None"
    and "(max_train_steps cfg = Some N \<and> 0 < N) \<or>
         (max_train_steps cfg = None \<and> max_train_epochs cfg = Some E \<and> 0 \<le> E \<and>
          N = E * (- ((- int (num_batches ev)) div gradient_accumulation_steps cfg)))"
  shows "failed (training_loop cfg ev s) = None"
    and "global_step (training_loop cfg ev s) = nat N"
    and "last (events (training_loop cfg ev s)) = EndTraining"
proof -
  let ?spe = "- ((- int (num_batches ev)) div gradient_accumulation_steps cfg)"
  have spe: "0 < ?spe"
    using ceil_div_bounds(1)[of "int (num_batches ev)" "gradient_accumulation_steps cfg"]
      assms(2,3) by simp
  have nonneg: "0 \<le> E * ?spe" if "0 \<le> E"
    using that spe by (intro mult_nonneg_nonneg) simp_all
  from assms(6) have budget: "num_train_steps cfg ?spe = Inr N"
    by (auto simp: num_train_steps_def)
  from assms(6) nonneg have N: "0 \<le> N"
    by (elim disjE conjE) simp_all
  note r = training_loop_clean[OF assms(1-4) budget N assms(5)]
  from r show "failed (training_loop cfg ev s) = None" by simp
  from r show "global_step (training_loop cfg ev s) = nat N" by simp
  from r show "last (events (training_loop cfg ev s)) = EndTraining" by simp
qed

text \<open>
  Claim C4 says that the budget \<^verbatim>\<open>num_train_steps\<close> equals \<^verbatim>\<open>max_train_steps\<close> when given.
  With \<^verbatim>\<open>max_train_steps = 0\<close> (and \<^verbatim>\<open>max_train_epochs = None\<close>) the configuration passes the
  assertions of lines 441-443, which count \<^verbatim>\<open>0\<close> as set, but line 449 evaluates
  \<^verbatim>\<open>0 or None * num_steps_per_epoch\<close>: the run ends with a \<^verbatim>\<open>TypeError\<close> before the training
  loop, instead of a training of zero steps.
\<close>

theorem train_zero_max_train_steps:
  "max_train_steps zero_budget_config = Some 0
   \<and> max_train_epochs zero_budget_config = None
   \<and> exactly_one_each zero_budget_config
   \<and> failed (train zero_budget_config scenario_env) = Some TypeError
   \<and> events (train zero_budget_config scenario_env) =
        [MakeOutputDirs, InitializeAccelerator, WriteConfigJson, LoadModels,
         InjectLora ''unet'', InitializeOptimizer, BuildDataLoader]"
  by (simp add: loop_defs zero_budget_config_def exactly_one_each_def)

subsection \<open>Configuration errors\<close>

text \<open>
  Claim C6, as stated, fails: with \<^verbatim>\<open>cache_text_encoder_outputs\<close> and
  \<^verbatim>\<open>train_text_encoder\<close> both set, the run does end with an error, but the models have
  been loaded by then.
\<close>

theorem models_loaded_before_cache_check_counterexample:
  "cache_text_encoder_outputs cache_conflict_config
   \<and> train_text_encoder cache_conflict_config
   \<and> failed (train cache_conflict_config scenario_env) \<noteq> None
   \<and> LoadModels \<in> set (events (train cache_conflict_config scenario_env))"
  by (simp add: loop_defs cache_conflict_config_def)

text \<open>
  Claim C6, amended. With \<^verbatim>\<open>cache_text_encoder_outputs\<close> and \<^verbatim>\<open>train_text_encoder\<close> both
  set, \<^verbatim>\<open>train\<close> raises a \<^verbatim>\<open>ValueError\<close> after it has created the output directory,
  initialised the accelerator, written the config and loaded the models (and enabled
  xformers if configured), and before anything else: no cache is computed, no adapter
  is injected and no training step is taken.
\<close>

theorem train_cache_conflict:
  "cache_text_encoder_outputs cfg \<and> train_text_encoder cfg \<longrightarrow>
     failed (train cfg ev) =
       Some (ValueError (quoted ''cache_text_encoder_outputs'' @ '' and '' @
               quoted ''train_text_encoder'' @ '' cannot both be True.''))
     \<and> events (train cfg ev) =
         [MakeOutputDirs, InitializeAccelerator]
         @ (case seed cfg of None \<Rightarrow> [] | Some sd \<Rightarrow> [SetSeed sd])
         @ [WriteConfigJson, LoadModels]
         @ (if xformers cfg then [EnableXformers] else [])
     \<and> global_step (train cfg ev) = 0"
  using train_text_encoder_cache_conflict[of cfg ev]
  by (auto simp: train_def initial_state_def step_if_def prepare_text_encoder_cache_def
        split: option.splits)

text \<open>
  C6 amended, on the scenario config with both options set.
\<close>

theorem train_cache_conflict_witness:
  "cache_text_encoder_outputs cache_conflict_config
   \<and> train_text_encoder cache_conflict_config
   \<and> failed (train cache_conflict_config scenario_env) =
       Some (ValueError (quoted ''cache_text_encoder_outputs'' @ '' and '' @
               quoted ''train_text_encoder'' @ '' cannot both be True.''))
   \<and> events (train cache_conflict_config scenario_env) =
       [MakeOutputDirs, InitializeAccelerator, WriteConfigJson, LoadModels]"
proof -
  have h: "cache_text_encoder_outputs cache_conflict_config"
          "train_text_encoder cache_conflict_config"
    and c: "seed cache_conflict_config = None" "\<not> xformers cache_conflict_config"
    by (simp_all add: cache_conflict_config_def scenario_config_def demo_config_def)
  from h c train_cache_conflict[of cache_conflict_config scenario_env]
  show ?thesis by simp
qed

text \<open>
  Claim C7. A run of \<^verbatim>\<open>train\<close> that ends without an exception has exactly one of
  \<^verbatim>\<open>max_train_steps\<close>, \<^verbatim>\<open>max_train_epochs\<close> set, exactly one of \<^verbatim>\<open>save_every_n_steps\<close>,
  \<^verbatim>\<open>save_every_n_epochs\<close> and exactly one of \<^verbatim>\<open>validate_every_n_steps\<close>,
  \<^verbatim>\<open>validate_every_n_epochs\<close>. A configuration that violates one of the three
  constraints ends with an \<^verbatim>\<open>AssertionError\<close> (or with the \<^verbatim>\<open>ValueError\<close> of an earlier
  configuration check) before the training loop: no forward pass has been made and
  \<^verbatim>\<open>global_step\<close> is 0.
\<close>

theorem train_exactly_one_constraints:
  "(failed (train cfg ev) = None \<longrightarrow> exactly_one_each cfg)
   \<and> (\<not> exactly_one_each cfg \<longrightarrow>
        (failed (train cfg ev) = Some AssertionError \<or>
         (\<exists>m. failed (train cfg ev) = Some (ValueError m)))
        \<and> (\<forall>e i. TrainForward e i \<notin> set (events (train cfg ev)))
        \<and> global_step (train cfg ev) = 0)"
proof (cases "exactly_one_each cfg")
  case True
  then show ?thesis by simp
next
  case False
  from train_rejects[OF False, of ev] False show ?thesis by auto
qed

text \<open>
  C7 on the scenario config, which is accepted, and on the scenario config with both
  stopping bounds set, which is rejected.
\<close>

theorem train_exactly_one_constraints_witness:
  "failed (train scenario_config scenario_env) = None
   \<and> exactly_one_each scenario_config
   \<and> \<not> exactly_one_each both_bounds_config
   \<and> failed (train both_bounds_config scenario_env) = Some AssertionError
   \<and> TrainForward 0 0 \<notin> set (events (train both_bounds_config scenario_env))"
proof -
  have ok: "failed (train scenario_config scenario_env) = None"
    by (rule scenario_run(1))
  have bad: "\<not> exactly_one_each both_bounds_config"
    by (simp add: exactly_one_each_def both_bounds_config_def scenario_config_def
          demo_config_def)
  have nv: "\<And>m. failed (train both_bounds_config scenario_env) \<noteq> Some (ValueError m)"
    by (simp add: loop_defs both_bounds_config_def)
  from ok train_exactly_one_constraints[of scenario_config scenario_env]
  have 1: "exactly_one_each scenario_config" by blast
  from bad nv train_exactly_one_constraints[of both_bounds_config scenario_env]
  have 2: "failed (train both_bounds_config scenario_env) = Some AssertionError
           \<and> TrainForward 0 0 \<notin> set (events (train both_bounds_config scenario_env))"
    by blast
  from ok 1 bad 2 show ?thesis by blast
qed

section \<open>Properties of the textual inversion data loader\<close>

subsection \<open>Unfolding the construction\<close>

lemma build_dataloader_InrD:
  assumes "build_textual_inversion_sd_dataloader init config tok bs cache shf = Inr dl"
  shows "\<exists>base caption_tf.
           build_base_dataset (dataset config) = Inr base \<and>
           count_set [caption_templates config \<noteq> None, caption_preset config \<noteq> None,
                      apply_caption_prefix config] = 1 \<and>
           build_caption_tf config tok = Inr caption_tf \<and>
           all_transforms (loader_dataset dl) =
             caption_transforms config caption_tf
             @ image_transforms config
                 (case aspect_ratio_buckets config of
                    None \<Rightarrow> Some (resolution config) | Some b \<Rightarrow> None)
                 (case aspect_ratio_buckets config of
                    None \<Rightarrow> None | Some b \<Rightarrow> Some (AspectRatioBucketManager b))
                 cache"
  using assms
  by (auto simp: build_textual_inversion_sd_dataloader_def DataLoader_def Let_def
           split: sum.splits if_splits option.splits)

lemma build_caption_tf_InrD:
  assumes "build_caption_tf config tok = Inr caption_tf"
  shows "caption_tf =
           (case caption_templates config of
              Some templates \<Rightarrow> TemplateCaptionTransform ''caption'' tok templates
            | None \<Rightarrow>
                (case caption_preset config of
                   Some preset \<Rightarrow>
                     TemplateCaptionTransform ''caption'' tok
                       (projr (get_preset_ti_caption_templates preset))
                 | None \<Rightarrow> CaptionPrefixTransform ''caption'' (tok @ '' '')))"
    and "caption_templates config = None \<Longrightarrow> caption_preset config = Some preset \<Longrightarrow>
           preset = ''object'' \<or> preset = ''style''"
  using assms
  by (auto simp: build_caption_tf_def get_preset_ti_caption_templates_def
           split: option.splits sum.splits if_splits)

lemma build_caption_tf_kind:
  assumes "build_caption_tf config tok = Inr caption_tf"
  shows "(\<exists>a b c. caption_tf = TemplateCaptionTransform a b c) \<or>
         (\<exists>a b. caption_tf = CaptionPrefixTransform a b)"
  using assms
  by (auto simp: build_caption_tf_def split: option.splits sum.splits if_splits)

lemma caption_transforms_set:
  "t \<in> set (caption_transforms config caption_tf) \<Longrightarrow>
     t = caption_tf \<or> (\<exists>d. t = ShuffleCaptionTransform ''caption'' d)"
  by (auto simp: caption_transforms_def split: option.splits)

lemma apply_transforms_drop_last:
  assumes "apply_transforms other (ts @ [DropFieldTransform f]) smp = Inr smp'"
  shows "smp' f = None"
  using assms
proof (induction ts arbitrary: smp)
  case Nil
  then show ?case by (auto simp: apply_transform_def)
next
  case (Cons t ts)
  then show ?case by (auto split: sum.splits)
qed

lemma count_set_one:
  "count_set [a, b, c] = 1 \<longleftrightarrow> (a \<and> \<not> b \<and> \<not> c) \<or> (\<not> a \<and> b \<and> \<not> c) \<or> (\<not> a \<and> \<not> b \<and> c)"
  by (cases a; cases b; cases c) (simp_all add: count_set_def)

lemma hd_caption_transforms:
  "caption_transforms config caption_tf @ ts \<noteq> []"
  "hd (caption_transforms config caption_tf @ ts) = caption_tf"
  by (simp_all add: caption_transforms_def)

lemmas dataloader_defs = build_textual_inversion_sd_dataloader_def DataLoader_def
  positive_batch_size_init_def accepting_init_def build_base_dataset_def
  build_caption_tf_def get_preset_ti_caption_templates_def caption_transforms_def
  image_transforms_def count_set_def exactly_one_caption_source_message_def Let_def

lemmas demo_ti_defs = demo_ti_config_def demo_ti_preset_config_def demo_ti_prefix_config_def
  demo_ti_no_source_config_def demo_ti_two_sources_config_def

lemma demo_loaders:
  "build_textual_inversion_sd_dataloader positive_batch_size_init demo_ti_config ''<sks>'' 4
       (Some ''vae_cache'') True
     = Inr demo_cached_loader"
  "build_textual_inversion_sd_dataloader positive_batch_size_init demo_ti_config ''<sks>'' 4
       None True
     = Inr demo_plain_loader"
  by (simp_all add: dataloader_defs demo_ti_defs demo_cached_loader_def demo_plain_loader_def)

subsection \<open>The image part of the transform chain\<close>

text \<open>
  Claim C9. For every data loader the function returns: if a VAE output cache
  directory is supplied, the transform chain is the caption transforms followed by the
  cache-load transform of that directory, keyed by the field \<^verbatim>\<open>id\<close> and filling
  \<^verbatim>\<open>vae_output\<close>, \<^verbatim>\<open>original_size_hw\<close> and \<^verbatim>\<open>crop_top_left_yx\<close>, and by the transform that
  drops the field \<^verbatim>\<open>image\<close>; the chain contains no image transform, and every sample
  that passes the chain has no \<^verbatim>\<open>image\<close> field. If no cache directory is supplied, the
  chain is the caption transforms followed by the image transform (with the config's
  \<^verbatim>\<open>center_crop\<close> and \<^verbatim>\<open>random_flip\<close>), and it contains neither a drop transform nor a
  cache-load transform.
\<close>

theorem dataloader_cache_replaces_image_transform:
  assumes "build_textual_inversion_sd_dataloader init config tok bs cache shf = Inr dl"
  shows "(\<forall>dir. cache = Some dir \<longrightarrow>
            (\<exists>caption_tf.
               all_transforms (loader_dataset dl) =
                 caption_transforms config caption_tf
                 @ [LoadCacheTransform dir ''id''
                      [(''vae_output'', ''vae_output''),
                       (''original_size_hw'', ''original_size_hw''),
                       (''crop_top_left_yx'', ''crop_top_left_yx'')],
                    DropFieldTransform ''image''])
            \<and> (\<forall>r m c f. SDImageTransform r m c f \<notin> set (all_transforms (loader_dataset dl)))
            \<and> (\<forall>other smp smp'.
                  apply_transforms other (all_transforms (loader_dataset dl)) smp = Inr smp'
                  \<longrightarrow> smp' ''image'' = None))
       \<and> (cache = None \<longrightarrow>
            (\<exists>caption_tf r m.
               all_transforms (loader_dataset dl) =
                 caption_transforms config caption_tf
                 @ [SDImageTransform r m (center_crop config) (random_flip config)])
            \<and> (\<forall>f. DropFieldTransform f \<notin> set (all_transforms (loader_dataset dl)))
            \<and> (\<forall>d k fs. LoadCacheTransform d k fs \<notin> set (all_transforms (loader_dataset dl))))"
proof -
  from build_dataloader_InrD[OF assms] obtain base caption_tf where
    ctf: "build_caption_tf config tok = Inr caption_tf"
    and ts: "all_transforms (loader_dataset dl) =
             caption_transforms config caption_tf
             @ image_transforms config
                 (case aspect_ratio_buckets config of
                    None \<Rightarrow> Some (resolution config) | Some b \<Rightarrow> None)
                 (case aspect_ratio_buckets config of
                    None \<Rightarrow> None | Some b \<Rightarrow> Some (AspectRatioBucketManager b))
                 cache"
    by blast
  note kind = build_caption_tf_kind[OF ctf]
  note inset = caption_transforms_set[of _ config caption_tf]
  show ?thesis
  proof (intro conjI allI impI)
    fix dir assume c: "cache = Some dir"
    show "\<exists>caption_tf.
               all_transforms (loader_dataset dl) =
                 caption_transforms config caption_tf
                 @ [LoadCacheTransform dir ''id''
                      [(''vae_output'', ''vae_output''),
                       (''original_size_hw'', ''original_size_hw''),
                       (''crop_top_left_yx'', ''crop_top_left_yx'')],
                    DropFieldTransform ''image'']"
      using ts c by (auto simp: image_transforms_def)
  next
    fix dir r m c f assume c: "cache = Some dir"
    show "SDImageTransform r m c f \<notin> set (all_transforms (loader_dataset dl))"
      using ts c kind inset by (fastforce simp: image_transforms_def)
  next
    fix dir other and smp smp' :: "string \<rightharpoonup> 'a"
    assume c: "cache = Some dir"
      and a: "apply_transforms other (all_transforms (loader_dataset dl)) smp = Inr smp'"
    have "all_transforms (loader_dataset dl) =
            (caption_transforms config caption_tf
             @ [LoadCacheTransform dir ''id''
                      [(''vae_output'', ''vae_output''),
                       (''original_size_hw'', ''original_size_hw''),
                       (''crop_top_left_yx'', ''crop_top_left_yx'')]])
            @ [DropFieldTransform ''image'']"
      using ts c by (simp add: image_transforms_def)
    with a show "smp' ''image'' = None"
      by (simp only: apply_transforms_drop_last[of other _ "''image''" smp smp'])
  next
    assume c: "cache = None"
    show "\<exists>caption_tf r m.
               all_transforms (loader_dataset dl) =
                 caption_transforms config caption_tf
                 @ [SDImageTransform r m (center_crop config) (random_flip config)]"
      using ts c by (auto simp: image_transforms_def)
  next
    fix f assume c: "cache = None"
    show "DropFieldTransform f \<notin> set (all_transforms (loader_dataset dl))"
      using ts c kind inset by (fastforce simp: image_transforms_def)
  next
    fix d k fs assume c: "cache = None"
    show "LoadCacheTransform d k fs \<notin> set (all_transforms (loader_dataset dl))"
      using ts c kind inset by (fastforce simp: image_transforms_def)
  qed
qed

text \<open>
  C9 on the loaders built from one config with and without a cache directory.
\<close>

theorem dataloader_cache_replaces_image_transform_witness:
  "build_textual_inversion_sd_dataloader positive_batch_size_init demo_ti_config ''<sks>'' 4
       (Some ''vae_cache'') True
     = Inr demo_cached_loader
   \<and> SDImageTransform (Some 512) None True False
       \<notin> set (all_transforms (loader_dataset demo_cached_loader))
   \<and> apply_transforms (\<lambda>t smp. Inr smp) (all_transforms (loader_dataset demo_cached_loader))
        [''image'' \<mapsto> (1::nat), ''id'' \<mapsto> 7] = Inr [''id'' \<mapsto> 7]
   \<and> [''id'' \<mapsto> (7::nat)] ''image'' = None
   \<and> build_textual_inversion_sd_dataloader positive_batch_size_init demo_ti_config ''<sks>'' 4
         None True
       = Inr demo_plain_loader
   \<and> DropFieldTransform ''image'' \<notin> set (all_transforms (loader_dataset demo_plain_loader))
   \<and> last (all_transforms (loader_dataset demo_plain_loader))
       = SDImageTransform (Some 512) None True False"
proof -
  note c = dataloader_cache_replaces_image_transform[where ?'a = nat, OF demo_loaders(1)]
  note p = dataloader_cache_replaces_image_transform[where ?'a = nat, OF demo_loaders(2)]
  have run: "apply_transforms (\<lambda>t smp. Inr smp)
               (all_transforms (loader_dataset demo_cached_loader))
               [''image'' \<mapsto> (1::nat), ''id'' \<mapsto> 7] = Inr [''id'' \<mapsto> 7]"
    by (simp add: demo_cached_loader_def apply_transform_def fun_upd_twist)
  from c have 1: "SDImageTransform (Some 512) None True False
       \<notin> set (all_transforms (loader_dataset demo_cached_loader))"
    by simp
  from c have dropped: "apply_transforms other
           (all_transforms (loader_dataset demo_cached_loader)) smp = Inr smp'
         \<Longrightarrow> smp' ''image'' = None" for other and smp smp' :: "string \<rightharpoonup> nat"
    by simp
  from dropped[OF run] have 2: "[''id'' \<mapsto> (7::nat)] ''image'' = None" .
  from p have 3: "DropFieldTransform ''image''
       \<notin> set (all_transforms (loader_dataset demo_plain_loader))"
    by simp
  have 4: "last (all_transforms (loader_dataset demo_plain_loader))
       = SDImageTransform (Some 512) None True False"
    by (simp add: demo_plain_loader_def)
  from demo_loaders 1 run 2 3 4 show ?thesis by blast
qed

subsection \<open>The caption source\<close>

lemma build_dataloader_returns:
  assumes one: "count_set [caption_templates config \<noteq> None, caption_preset config \<noteq> None,
                           apply_caption_prefix config] = 1"
    and ds: "\<forall>n. dataset config \<noteq> OtherDatasetConfig n"
    and preset: "\<forall>preset. caption_preset config = Some preset \<longrightarrow>
                   preset = ''object'' \<or> preset = ''style''"
  shows "\<exists>args. \<forall>init.
           build_textual_inversion_sd_dataloader init config tok bs cache shf
             = DataLoader init args"
proof -
  from ds obtain base where base: "build_base_dataset (dataset config) = Inr base"
    by (cases "dataset config") (simp_all add: build_base_dataset_def)
  from one[unfolded count_set_one] have cases:
    "(caption_templates config \<noteq> None \<and> caption_preset config = None \<and>
        \<not> apply_caption_prefix config) \<or>
     (caption_templates config = None \<and> caption_preset config \<noteq> None \<and>
        \<not> apply_caption_prefix config) \<or>
     (caption_templates config = None \<and> caption_preset config = None \<and>
        apply_caption_prefix config)"
    by blast
  with preset obtain caption_tf where ctf: "build_caption_tf config tok = Inr caption_tf"
    by (auto simp: build_caption_tf_def get_preset_ti_caption_templates_def)
  from one base ctf show ?thesis
    by (cases "aspect_ratio_buckets config")
       (auto simp: build_textual_inversion_sd_dataloader_def Let_def)
qed

text \<open>
  Claim C10. If the number of caption sources that are set among \<^verbatim>\<open>caption_templates\<close>,
  \<^verbatim>\<open>caption_preset\<close> and \<^verbatim>\<open>apply_caption_prefix\<close> is not one, the function raises a
  \<^verbatim>\<open>ValueError\<close> and constructs nothing; for a supported dataset config it is the error
  "Exactly one of caption_templates, caption_preset, or apply_caption_prefix must be
  set.". Whenever a data loader is returned, exactly one source is set and the first
  transform of the chain is the one of that source: the template transform with the
  config's templates, the template transform with the templates of the preset, or the
  prefix transform with the placeholder token and a space. With exactly one source
  set, a supported dataset config and a preset that is \<^verbatim>\<open>object\<close> or \<^verbatim>\<open>style\<close>, the
  function reaches the construction of the \<^verbatim>\<open>DataLoader\<close> with a non-empty transform
  chain: it returns the loader when torch accepts the arguments and raises torch's
  exception otherwise.
\<close>

theorem dataloader_exactly_one_caption_source:
  "(count_set [caption_templates config \<noteq> None, caption_preset config \<noteq> None,
               apply_caption_prefix config] \<noteq> 1
      \<longrightarrow> (\<exists>m. build_textual_inversion_sd_dataloader init config tok bs cache shf
                  = Inl (ValueError m)))
   \<and> (count_set [caption_templates config \<noteq> None, caption_preset config \<noteq> None,
                 apply_caption_prefix config] \<noteq> 1
       \<and> (\<forall>n. dataset config \<noteq> OtherDatasetConfig n)
      \<longrightarrow> build_textual_inversion_sd_dataloader init config tok bs cache shf
            = Inl (ValueError exactly_one_caption_source_message))
   \<and> (build_textual_inversion_sd_dataloader init config tok bs cache shf = Inr dl
      \<longrightarrow> count_set [caption_templates config \<noteq> None, caption_preset config \<noteq> None,
                     apply_caption_prefix config] = 1
          \<and> all_transforms (loader_dataset dl) \<noteq> []
          \<and> (\<forall>templates. caption_templates config = Some templates \<longrightarrow>
                hd (all_transforms (loader_dataset dl))
                  = TemplateCaptionTransform ''caption'' tok templates)
          \<and> (\<forall>preset. caption_preset config = Some preset \<longrightarrow>
                (\<exists>templates.
                   get_preset_ti_caption_templates preset = Inr templates \<and>
                   hd (all_transforms (loader_dataset dl))
                     = TemplateCaptionTransform ''caption'' tok templates))
          \<and> (apply_caption_prefix config \<longrightarrow>
                hd (all_transforms (loader_dataset dl))
                  = CaptionPrefixTransform ''caption'' (tok @ '' '')))
   \<and> (count_set [caption_templates config \<noteq> None, caption_preset config \<noteq> None,
                 apply_caption_prefix config] = 1
       \<and> (\<forall>n. dataset config \<noteq> OtherDatasetConfig n)
       \<and> (\<forall>preset. caption_preset config = Some preset \<longrightarrow>
              preset = ''object'' \<or> preset = ''style'')
      \<longrightarrow> (\<exists>args.
             all_transforms (loader_dataset args) \<noteq> []
             \<and> batch_size args
                 = (if aspect_ratio_buckets config = None then Some bs else None)
             \<and> build_textual_inversion_sd_dataloader init config tok bs cache shf
                 = (case init args of Some e \<Rightarrow> Inl e | None \<Rightarrow> Inr args)
             \<and> (init args = None \<longrightarrow>
                  build_textual_inversion_sd_dataloader init config tok bs cache shf
                    = Inr args)))"
proof (intro conjI impI)
  let ?n = "count_set [caption_templates config \<noteq> None, caption_preset config \<noteq> None,
                       apply_caption_prefix config]"
  {
    assume "?n \<noteq> 1"
    then show "\<exists>m. build_textual_inversion_sd_dataloader init config tok bs cache shf
                  = Inl (ValueError m)"
      by (cases "dataset config")
         (simp_all add: build_textual_inversion_sd_dataloader_def build_base_dataset_def)
  next
    assume "?n \<noteq> 1 \<and> (\<forall>n. dataset config \<noteq> OtherDatasetConfig n)"
    then show "build_textual_inversion_sd_dataloader init config tok bs cache shf
            = Inl (ValueError exactly_one_caption_source_message)"
      by (cases "dataset config")
         (simp_all add: build_textual_inversion_sd_dataloader_def build_base_dataset_def)
  next
    assume ok: "build_textual_inversion_sd_dataloader init config tok bs cache shf = Inr dl"
    from build_dataloader_InrD[OF ok] obtain base caption_tf ts where
      one: "?n = 1" and ctf: "build_caption_tf config tok = Inr caption_tf"
      and T: "all_transforms (loader_dataset dl) = caption_transforms config caption_tf @ ts"
      by blast
    from one show "?n = 1" .
    show "all_transforms (loader_dataset dl) \<noteq> []"
      unfolding T by (rule hd_caption_transforms(1))
    have hd: "hd (all_transforms (loader_dataset dl)) = caption_tf"
      unfolding T by (rule hd_caption_transforms(2))
    from one[unfolded count_set_one] have cases:
      "(caption_templates config \<noteq> None \<and> caption_preset config = None \<and>
          \<not> apply_caption_prefix config) \<or>
       (caption_templates config = None \<and> caption_preset config \<noteq> None \<and>
          \<not> apply_caption_prefix config) \<or>
       (caption_templates config = None \<and> caption_preset config = None \<and>
          apply_caption_prefix config)"
      by blast
    show "\<forall>templates. caption_templates config = Some templates \<longrightarrow>
                hd (all_transforms (loader_dataset dl))
                  = TemplateCaptionTransform ''caption'' tok templates"
      using ctf hd by (auto simp: build_caption_tf_def)
    show "\<forall>preset. caption_preset config = Some preset \<longrightarrow>
                (\<exists>templates.
                   get_preset_ti_caption_templates preset = Inr templates \<and>
                   hd (all_transforms (loader_dataset dl))
                     = TemplateCaptionTransform ''caption'' tok templates)"
      using ctf hd cases by (auto simp: build_caption_tf_def split: sum.splits)
    show "hd (all_transforms (loader_dataset dl))
            = CaptionPrefixTransform ''caption'' (tok @ '' '')"
      if "apply_caption_prefix config"
      using that ctf hd cases by (auto simp: build_caption_tf_def)
  next
    assume a: "?n = 1 \<and> (\<forall>n. dataset config \<noteq> OtherDatasetConfig n) \<and>
       (\<forall>preset. caption_preset config = Some preset \<longrightarrow>
              preset = ''object'' \<or> preset = ''style'')"
    from build_dataloader_returns[of config tok bs cache shf] a obtain args where
      args: "\<And>init. build_textual_inversion_sd_dataloader init config tok bs cache shf
                       = DataLoader init args"
      by blast
    have acc: "build_textual_inversion_sd_dataloader (\<lambda>a. None) config tok bs cache shf
                 = Inr args"
      by (simp add: args DataLoader_def)
    from build_dataloader_InrD[OF acc] obtain caption_tf ts where
      "all_transforms (loader_dataset args) = caption_transforms config caption_tf @ ts"
      by blast
    then have ne: "all_transforms (loader_dataset args) \<noteq> []"
      by (simp only: hd_caption_transforms(1) not_False_eq_True)
    from acc have bs: "batch_size args
                 = (if aspect_ratio_buckets config = None then Some bs else None)"
      by (auto simp: build_textual_inversion_sd_dataloader_def DataLoader_def Let_def
               split: sum.splits if_splits option.splits)
    from ne bs args[of init]
    show "\<exists>args.
             all_transforms (loader_dataset args) \<noteq> []
             \<and> batch_size args
                 = (if aspect_ratio_buckets config = None then Some bs else None)
             \<and> build_textual_inversion_sd_dataloader init config tok bs cache shf
                 = (case init args of Some e \<Rightarrow> Inl e | None \<Rightarrow> Inr args)
             \<and> (init args = None \<longrightarrow>
                  build_textual_inversion_sd_dataloader init config tok bs cache shf
                    = Inr args)"
      by (auto simp: DataLoader_def)
  }
qed

text \<open>
  C10 on configs with no source, two sources, templates, a prefix and a preset, and
  on a batch size that the constructor of the loader refuses.
\<close>

theorem dataloader_exactly_one_caption_source_witness:
  "build_textual_inversion_sd_dataloader positive_batch_size_init demo_ti_no_source_config
       ''<sks>'' 4 None True
     = Inl (ValueError exactly_one_caption_source_message)
   \<and> build_textual_inversion_sd_dataloader positive_batch_size_init
         demo_ti_two_sources_config ''<sks>'' 4 None True
     = Inl (ValueError exactly_one_caption_source_message)
   \<and> build_textual_inversion_sd_dataloader positive_batch_size_init demo_ti_config
         ''<sks>'' 4 None True
     = Inr demo_plain_loader
   \<and> hd (all_transforms (loader_dataset demo_plain_loader))
     = TemplateCaptionTransform ''caption'' ''<sks>'' [''a photo of {}'']
   \<and> (\<exists>dl. build_textual_inversion_sd_dataloader positive_batch_size_init
              demo_ti_prefix_config ''<sks>'' 4 None True = Inr dl
            \<and> hd (all_transforms (loader_dataset dl))
                = CaptionPrefixTransform ''caption'' ''<sks> '')
   \<and> (\<exists>dl. build_textual_inversion_sd_dataloader positive_batch_size_init
              demo_ti_preset_config ''<sks>'' 4 None True = Inr dl
            \<and> (\<exists>templates.
                  get_preset_ti_caption_templates ''style'' = Inr templates
                  \<and> hd (all_transforms (loader_dataset dl))
                      = TemplateCaptionTransform ''caption'' ''<sks>'' templates))
   \<and> build_textual_inversion_sd_dataloader positive_batch_size_init demo_ti_config
         ''<sks>'' 0 None True
     = Inl (ValueError ''batch_size should be a positive integer value, but got batch_size=0'')
   \<and> (\<exists>dl. build_textual_inversion_sd_dataloader accepting_init demo_ti_config
              ''<sks>'' 0 None True = Inr dl)"
proof -
  have zero: "count_set [caption_templates demo_ti_no_source_config \<noteq> None,
                 caption_preset demo_ti_no_source_config \<noteq> None,
                 apply_caption_prefix demo_ti_no_source_config] \<noteq> 1
              \<and> (\<forall>n. dataset demo_ti_no_source_config \<noteq> OtherDatasetConfig n)"
    by (simp add: demo_ti_defs count_set_def)
  have two: "count_set [caption_templates demo_ti_two_sources_config \<noteq> None,
                 caption_preset demo_ti_two_sources_config \<noteq> None,
                 apply_caption_prefix demo_ti_two_sources_config] \<noteq> 1
              \<and> (\<forall>n. dataset demo_ti_two_sources_config \<noteq> OtherDatasetConfig n)"
    by (simp add: demo_ti_defs count_set_def)
  have plain: "count_set [caption_templates demo_ti_config \<noteq> None,
                 caption_preset demo_ti_config \<noteq> None,
                 apply_caption_prefix demo_ti_config] = 1
              \<and> (\<forall>n. dataset demo_ti_config \<noteq> OtherDatasetConfig n)
              \<and> (\<forall>preset. caption_preset demo_ti_config = Some preset \<longrightarrow>
                    preset = ''object'' \<or> preset = ''style'')"
    by (simp add: demo_ti_defs count_set_def)
  have prefix: "count_set [caption_templates demo_ti_prefix_config \<noteq> None,
                 caption_preset demo_ti_prefix_config \<noteq> None,
                 apply_caption_prefix demo_ti_prefix_config] = 1
              \<and> (\<forall>n. dataset demo_ti_prefix_config \<noteq> OtherDatasetConfig n)
              \<and> (\<forall>preset. caption_preset demo_ti_prefix_config = Some preset \<longrightarrow>
                    preset = ''object'' \<or> preset = ''style'')"
    by (simp add: demo_ti_defs count_set_def)
  have preset: "count_set [caption_templates demo_ti_preset_config \<noteq> None,
                 caption_preset demo_ti_preset_config \<noteq> None,
                 apply_caption_prefix demo_ti_preset_config] = 1
              \<and> (\<forall>n. dataset demo_ti_preset_config \<noteq> OtherDatasetConfig n)
              \<and> (\<forall>preset. caption_preset demo_ti_preset_config = Some preset \<longrightarrow>
                    preset = ''object'' \<or> preset = ''style'')"
    by (simp add: demo_ti_defs count_set_def)
  have tmpl: "caption_templates demo_ti_config = Some [''a photo of {}'']"
    by (simp add: demo_ti_defs)
  have pre: "apply_caption_prefix demo_ti_prefix_config"
    by (simp add: demo_ti_defs)
  have sty: "caption_preset demo_ti_preset_config = Some ''style''"
    by (simp add: demo_ti_defs)
  have nb: "aspect_ratio_buckets demo_ti_config = None"
    "aspect_ratio_buckets demo_ti_prefix_config = None"
    "aspect_ratio_buckets demo_ti_preset_config = None"
    by (simp_all add: demo_ti_defs)
  note T = dataloader_exactly_one_caption_source
  note T2 = T[THEN conjunct2, THEN conjunct1]
  note T3 = T[THEN conjunct2, THEN conjunct2, THEN conjunct1]
  note T4 = T[THEN conjunct2, THEN conjunct2, THEN conjunct2]
  from zero T2[of demo_ti_no_source_config positive_batch_size_init "''<sks>''" 4 None True]
  have 1: "build_textual_inversion_sd_dataloader positive_batch_size_init
             demo_ti_no_source_config ''<sks>'' 4 None True
     = Inl (ValueError exactly_one_caption_source_message)"
    by blast
  from two T2[of demo_ti_two_sources_config positive_batch_size_init "''<sks>''" 4 None True]
  have 2: "build_textual_inversion_sd_dataloader positive_batch_size_init
             demo_ti_two_sources_config ''<sks>'' 4 None True
     = Inl (ValueError exactly_one_caption_source_message)"
    by blast
  from demo_loaders(2) tmpl
    T3[of positive_batch_size_init demo_ti_config "''<sks>''" 4 None True demo_plain_loader]
  have 3: "hd (all_transforms (loader_dataset demo_plain_loader))
     = TemplateCaptionTransform ''caption'' ''<sks>'' [''a photo of {}'']"
    by blast
  \<comment> \<open>prefix\<close>
  from T4[of demo_ti_prefix_config 4 positive_batch_size_init "''<sks>''" None True,
      THEN mp, OF prefix]
  obtain pa where pa0: "all_transforms (loader_dataset pa) \<noteq> []
      \<and> batch_size pa
          = (if aspect_ratio_buckets demo_ti_prefix_config = None then Some 4 else None)
      \<and> build_textual_inversion_sd_dataloader positive_batch_size_init demo_ti_prefix_config
            ''<sks>'' 4 None True
          = (case positive_batch_size_init pa of Some e \<Rightarrow> Inl e | None \<Rightarrow> Inr pa)
      \<and> (positive_batch_size_init pa = None \<longrightarrow>
            build_textual_inversion_sd_dataloader positive_batch_size_init demo_ti_prefix_config
              ''<sks>'' 4 None True = Inr pa)" ..
  then have pa: "batch_size pa
                 = (if aspect_ratio_buckets demo_ti_prefix_config = None then Some 4 else None)"
    "positive_batch_size_init pa = None \<longrightarrow>
       build_textual_inversion_sd_dataloader positive_batch_size_init demo_ti_prefix_config
         ''<sks>'' 4 None True = Inr pa"
    by simp_all
  from pa have pl: "build_textual_inversion_sd_dataloader positive_batch_size_init
         demo_ti_prefix_config ''<sks>'' 4 None True = Inr pa"
    by (simp add: nb positive_batch_size_init_def)
  from pl pre
    T3[of positive_batch_size_init demo_ti_prefix_config "''<sks>''" 4 None True pa]
  have "hd (all_transforms (loader_dataset pa))
          = CaptionPrefixTransform ''caption'' (''<sks>'' @ '' '')"
    by blast
  with pl have 4: "\<exists>dl. build_textual_inversion_sd_dataloader positive_batch_size_init
              demo_ti_prefix_config ''<sks>'' 4 None True = Inr dl
            \<and> hd (all_transforms (loader_dataset dl))
                = CaptionPrefixTransform ''caption'' ''<sks> ''"
    by auto
  \<comment> \<open>preset\<close>
  from T4[of demo_ti_preset_config 4 positive_batch_size_init "''<sks>''" None True,
      THEN mp, OF preset]
  obtain sa where sa0: "all_transforms (loader_dataset sa) \<noteq> []
      \<and> batch_size sa
          = (if aspect_ratio_buckets demo_ti_preset_config = None then Some 4 else None)
      \<and> build_textual_inversion_sd_dataloader positive_batch_size_init demo_ti_preset_config
            ''<sks>'' 4 None True
          = (case positive_batch_size_init sa of Some e \<Rightarrow> Inl e | None \<Rightarrow> Inr sa)
      \<and> (positive_batch_size_init sa = None \<longrightarrow>
            build_textual_inversion_sd_dataloader positive_batch_size_init demo_ti_preset_config
              ''<sks>'' 4 None True = Inr sa)" ..
  then have sa: "batch_size sa
                 = (if aspect_ratio_buckets demo_ti_preset_config = None then Some 4 else None)"
    "positive_batch_size_init sa = None \<longrightarrow>
       build_textual_inversion_sd_dataloader positive_batch_size_init demo_ti_preset_config
         ''<sks>'' 4 None True = Inr sa"
    by simp_all
  from sa have sl: "build_textual_inversion_sd_dataloader positive_batch_size_init
         demo_ti_preset_config ''<sks>'' 4 None True = Inr sa"
    by (simp add: nb positive_batch_size_init_def)
  from sl sty
    T3[of positive_batch_size_init demo_ti_preset_config "''<sks>''" 4 None True sa]
  have "\<exists>templates.
          get_preset_ti_caption_templates ''style'' = Inr templates
          \<and> hd (all_transforms (loader_dataset sa))
              = TemplateCaptionTransform ''caption'' ''<sks>'' templates"
    by blast
  with sl have 5: "\<exists>dl. build_textual_inversion_sd_dataloader positive_batch_size_init
              demo_ti_preset_config ''<sks>'' 4 None True = Inr dl
            \<and> (\<exists>templates.
                  get_preset_ti_caption_templates ''style'' = Inr templates
                  \<and> hd (all_transforms (loader_dataset dl))
                      = TemplateCaptionTransform ''caption'' ''<sks>'' templates)"
    by blast
  \<comment> \<open>a batch size of 0\<close>
  from T4[of demo_ti_config 0 positive_batch_size_init "''<sks>''" None True,
      THEN mp, OF plain]
  obtain za where za0: "all_transforms (loader_dataset za) \<noteq> []
      \<and> batch_size za
          = (if aspect_ratio_buckets demo_ti_config = None then Some 0 else None)
      \<and> build_textual_inversion_sd_dataloader positive_batch_size_init demo_ti_config
            ''<sks>'' 0 None True
          = (case positive_batch_size_init za of Some e \<Rightarrow> Inl e | None \<Rightarrow> Inr za)
      \<and> (positive_batch_size_init za = None \<longrightarrow>
            build_textual_inversion_sd_dataloader positive_batch_size_init demo_ti_config
              ''<sks>'' 0 None True = Inr za)" ..
  then have za: "batch_size za
                 = (if aspect_ratio_buckets demo_ti_config = None then Some 0 else None)"
    "build_textual_inversion_sd_dataloader positive_batch_size_init demo_ti_config
         ''<sks>'' 0 None True
       = (case positive_batch_size_init za of Some e \<Rightarrow> Inl e | None \<Rightarrow> Inr za)"
    by simp_all
  then have 6: "build_textual_inversion_sd_dataloader positive_batch_size_init demo_ti_config
         ''<sks>'' 0 None True
     = Inl (ValueError ''batch_size should be a positive integer value, but got batch_size=0'')"
    by (simp add: nb positive_batch_size_init_def)
  from T4[of demo_ti_config 0 accepting_init "''<sks>''" None True, THEN mp, OF plain]
  have 7: "\<exists>dl. build_textual_inversion_sd_dataloader accepting_init demo_ti_config
              ''<sks>'' 0 None True = Inr dl"
    by (auto simp: accepting_init_def)
  from 1 2 demo_loaders(2) 3 4 5 6 7 show ?thesis by blast
qed

end
